theory Spec2Isabelle
  imports Complex_Main
begin

section \<open>Numeric primitives\<close>

text \<open>
  Python floats are modelled as real numbers and Python ints as \<open>int\<close>, except in the
  combined sentiment, whose arithmetic is modelled in binary64 (see \<open>double_of\<close>). A naive
  \<open>datetime\<close> is the number of microseconds since the epoch; the \<open>days\<close> attribute of a
  \<open>timedelta\<close> is the floor of the difference in days, as Python normalises it.
\<close>

type_synonym datetime = int

definition timedelta_days :: "int \<Rightarrow> int" where
  "timedelta_days delta = delta div 86400000000"

definition round_half_even :: "real \<Rightarrow> int" where
  "round_half_even x =
     (let f = \<lfloor>x\<rfloor>; d = x - of_int f
      in if d < 1 / 2 then f
         else if 1 / 2 < d then f + 1
         else if even f then f else f + 1)"

text \<open>\<open>round(x, ndigits)\<close> of Python for a non-negative number of digits.\<close>

definition py_round :: "real \<Rightarrow> nat \<Rightarrow> real" where
  "py_round x ndigits = of_int (round_half_even (x * 10 ^ ndigits)) / 10 ^ ndigits"

text \<open>
  A Python float is an IEEE 754 binary64 number: 53 significant bits and a binary
  exponent of at least -1022, below which the numbers are subnormal.
  \<open>binary_exponent x\<close> is the exponent \<open>e\<close> with \<open>2^e \<le> |x| < 2^(e+1)\<close>, and
  \<open>double_of x\<close> is the double nearest to the real \<open>x\<close>, ties to the even significand:
  the value of a float literal and the result of one float operation on the exact result
  \<open>x\<close>. Overflow is left out: \<open>double_of\<close> is applied to magnitudes below \<open>2^1024\<close>
  only, and the one operation that can exceed them, the true division of ints, tests for
  it (\<open>int_true_divide\<close>). On a float, \<open>round(x, ndigits)\<close> is \<open>py_round\<close> of the exact
  value of \<open>x\<close>, converted back with \<open>double_of\<close>.
\<close>

function binary_exponent :: "real \<Rightarrow> int" where
  "binary_exponent x =
     (if x = 0 then 0
      else if 2 \<le> \<bar>x\<bar> then binary_exponent (x / 2) + 1
      else if \<bar>x\<bar> < 1 then binary_exponent (x * 2) - 1
      else 0)"
  by pat_completeness auto
termination
proof (relation "measure (\<lambda>x. nat \<bar>\<lfloor>log 2 \<bar>x\<bar>\<rfloor>\<bar>)")
  show "wf (measure (\<lambda>x. nat \<bar>\<lfloor>log 2 \<bar>x\<bar>\<rfloor>\<bar>))" by simp
next
  fix x :: real
  assume h: "x \<noteq> 0" "2 \<le> \<bar>x\<bar>"
  define n where "n = \<lfloor>log 2 \<bar>x\<bar>\<rfloor>"
  have "log 2 \<bar>x / 2\<bar> = log 2 \<bar>x\<bar> - 1"
    using h by (simp add: log_divide)
  then have e: "\<lfloor>log 2 \<bar>x / 2\<bar>\<rfloor> = n - 1" by (simp add: n_def)
  have "1 \<le> log 2 \<bar>x\<bar>" using h by (simp add: le_log_iff)
  then have "1 \<le> n" by (simp add: n_def le_floor_iff)
  then have "nat \<bar>n - 1\<bar> < nat \<bar>n\<bar>" by linarith
  then show "(x / 2, x) \<in> measure (\<lambda>x. nat \<bar>\<lfloor>log 2 \<bar>x\<bar>\<rfloor>\<bar>)"
    by (simp only: in_measure e n_def)
next
  fix x :: real
  assume h: "x \<noteq> 0" "\<not> 2 \<le> \<bar>x\<bar>" "\<bar>x\<bar> < 1"
  define n where "n = \<lfloor>log 2 \<bar>x\<bar>\<rfloor>"
  have "log 2 \<bar>x * 2\<bar> = log 2 \<bar>x\<bar> + 1"
    using h by (simp add: abs_mult log_mult)
  then have e: "\<lfloor>log 2 \<bar>x * 2\<bar>\<rfloor> = n + 1" by (simp add: n_def)
  have "log 2 \<bar>x\<bar> < 0" using h by (simp add: log_less_zero_cancel_iff)
  then have "n < 0" by (simp add: n_def floor_less_iff)
  then have "nat \<bar>n + 1\<bar> < nat \<bar>n\<bar>" by linarith
  then show "(x * 2, x) \<in> measure (\<lambda>x. nat \<bar>\<lfloor>log 2 \<bar>x\<bar>\<rfloor>\<bar>)"
    by (simp only: in_measure e n_def)
qed

definition double_of :: "real \<Rightarrow> real" where
  "double_of x =
     (let ulp = 2 powi (max (binary_exponent x) (- 1022) - 52)
      in of_int (round_half_even (x / ulp)) * ulp)"

declare binary_exponent.simps [simp del]

definition radians :: "real \<Rightarrow> real" where
  "radians d = d * pi / 180"

definition atan2 :: "real \<Rightarrow> real \<Rightarrow> real" where
  "atan2 y x =
     (if 0 < x then arctan (y / x)
      else if x < 0 \<and> 0 \<le> y then arctan (y / x) + pi
      else if x < 0 \<and> y < 0 then arctan (y / x) - pi
      else if 0 < y then pi / 2
      else if y < 0 then - (pi / 2)
      else 0)"

definition haversine_distance :: "real \<Rightarrow> real \<Rightarrow> real \<Rightarrow> real \<Rightarrow> real" where
  "haversine_distance lat1d lon1d lat2d lon2d =
     (let R = 6371000;
          lat1 = radians lat1d; lon1 = radians lon1d;
          lat2 = radians lat2d; lon2 = radians lon2d;
          dlat = lat2 - lat1;
          dlon = lon2 - lon1;
          a = (sin (dlat / 2))\<^sup>2 + cos lat1 * cos lat2 * (sin (dlon / 2))\<^sup>2;
          c = 2 * atan2 (sqrt a) (sqrt (1 - a))
      in R * c)"

definition cos_deg :: "real \<Rightarrow> real" where
  "cos_deg degrees = cos (radians degrees)"

fun str_nat :: "nat \<Rightarrow> string" where
  "str_nat n =
     (if n < 10 then [char_of (48 + n)]
      else str_nat (n div 10) @ [char_of (48 + n mod 10)])"

definition str_int :: "int \<Rightarrow> string" where
  "str_int i = (if i < 0 then CHR ''-'' # str_nat (nat (- i)) else str_nat (nat i))"

fun join :: "string \<Rightarrow> string list \<Rightarrow> string" where
  "join sep [] = []"
| "join sep [x] = x"
| "join sep (x # y # ys) = x @ sep @ join sep (y # ys)"

section \<open>Data model (api_models.py)\<close>

text \<open>
  An exception is its class name and its message. Messages that the source formats
  from floats are kept as a template with its arguments.
\<close>

datatype exn = Exn string string

definition exn_type_name :: "exn \<Rightarrow> string" where
  "exn_type_name e = (case e of Exn t m \<Rightarrow> t)"

definition exn_str :: "exn \<Rightarrow> string" where
  "exn_str e = (case e of Exn t m \<Rightarrow> m)"

record SourceError =
  se_source :: string
  se_error_type :: string
  se_message :: string
  se_retryable :: bool
  se_timestamp :: datetime

record SentinelEvidence =
  ndvi :: "real option"
  ndvi_change :: "real option"
  nbr :: "real option"
  nbr_change :: "real option"
  burn_index :: "real option"
  truecolor_url :: "string option"
  acquisition_date :: "datetime option"
  cloud_coverage :: "real option"

record FireEvent =
  fire_latitude :: real
  fire_longitude :: real
  brightness :: "real option"
  fire_confidence :: "int option"
  frp :: "real option"
  acquisition_time :: datetime
  satellite :: string
  daynight :: "string option"

record GLADAlert =
  glad_latitude :: real
  glad_longitude :: real
  glad_date :: datetime
  glad_confidence :: "int option"
  glad_area_ha :: "real option"

record RADDAlert =
  radd_latitude :: real
  radd_longitude :: real
  radd_date :: datetime
  radd_confidence :: "string option"
  radd_area_ha :: "real option"

text \<open>The scoring functions take lists that mix the three kinds of record.\<close>

datatype alert = Glad GLADAlert | Radd RADDAlert | Fire FireEvent

fun alert_latitude :: "alert \<Rightarrow> real" where
  "alert_latitude (Glad g) = glad_latitude g"
| "alert_latitude (Radd r) = radd_latitude r"
| "alert_latitude (Fire f) = fire_latitude f"

fun alert_longitude :: "alert \<Rightarrow> real" where
  "alert_longitude (Glad g) = glad_longitude g"
| "alert_longitude (Radd r) = radd_longitude r"
| "alert_longitude (Fire f) = fire_longitude f"

text \<open>\<open>alert.date if hasattr(alert, 'date') else None\<close>: a fire event has no \<open>date\<close>.\<close>

fun alert_date :: "alert \<Rightarrow> datetime option" where
  "alert_date (Glad g) = Some (glad_date g)"
| "alert_date (Radd r) = Some (radd_date r)"
| "alert_date (Fire f) = None"

fun alert_type_name :: "alert \<Rightarrow> string" where
  "alert_type_name (Glad g) = ''GLADAlert''"
| "alert_type_name (Radd r) = ''RADDAlert''"
| "alert_type_name (Fire f) = ''FireEvent''"

record HansenStats =
  total_loss_ha :: real
  loss_by_year :: "int \<rightharpoonup> real"
  tree_cover_2000_ha :: "real option"
  tree_cover_percent :: "real option"

record InfrastructureNode =
  osm_id :: int
  node_type :: string
  infra_name :: "string option"
  infra_latitude :: real
  infra_longitude :: real
  infra_distance_m :: "real option"
  tags :: "string \<rightharpoonup> string"

record Company =
  company_name :: string
  lei :: "string option"
  country :: "string option"
  jurisdiction :: "string option"
  parent_name :: "string option"
  parent_lei :: "string option"
  status :: "string option"
  match_score :: "real option"
  company_source :: string

record SentimentScore =
  count :: int
  score :: real
  keyword_list :: "string list"
  sample_titles :: "string list"

record CombinedSentiment =
  google :: "SentimentScore option"
  gdelt :: "SentimentScore option"
  reddit :: "SentimentScore option"
  final_score :: real
  confidence :: real
  dominant_narrative :: "string option"

datatype json = JNull | JInt int | JNum real | JStr string

datatype message =
    Text string
  | InfrastructureWithin int int
  | FireEventsCorrelated int int
  | VeryLowNdvi real | LowNdvi real | NdviPresent real
  | NegativeNbr real | LowNbr real | HealthyNbr real
  | HighBurn real | ElevatedBurn real | LowBurn real
  | VeryHighDensity real | HighDensity real | ModerateDensity real | LowDensity real
  | StronglyNegativeSentiment real | NegativeSentiment real
  | NeutralSentiment real | PositiveSentiment real
  | WithTheme message string
  | UnknownRegion string "string list"
  | BBoxAreaTooLarge real

record EvidenceLink =
  evidence_type :: string
  description :: message
  weight :: real
  supporting_data :: "(string \<times> json) list"

record EvidenceChain =
  suspect :: Company
  links :: "EvidenceLink list"
  total_weight :: real
  summary :: string

text \<open>
  The pydantic constructors validate the constrained fields (\<open>ge\<close>, \<open>le\<close>) and raise
  \<open>ValidationError\<close> when a value is out of range.
\<close>

definition new_EvidenceLink ::
  "string \<Rightarrow> message \<Rightarrow> real \<Rightarrow> (string \<times> json) list \<Rightarrow> exn + EvidenceLink" where
  "new_EvidenceLink ty descr w sd =
     (if 0 \<le> w \<and> w \<le> 1
      then Inr \<lparr>evidence_type = ty, description = descr, weight = w, supporting_data = sd\<rparr>
      else Inl (Exn ''ValidationError'' ''weight''))"

definition new_EvidenceChain ::
  "Company \<Rightarrow> EvidenceLink list \<Rightarrow> real \<Rightarrow> string \<Rightarrow> exn + EvidenceChain" where
  "new_EvidenceChain s ls tw summ =
     (if 0 \<le> tw
      then Inr \<lparr>suspect = s, links = ls, total_weight = tw, summary = summ\<rparr>
      else Inl (Exn ''ValidationError'' ''total_weight''))"

definition bind_exn :: "exn + 'a \<Rightarrow> ('a \<Rightarrow> exn + 'b) \<Rightarrow> exn + 'b" where
  "bind_exn m f = (case m of Inl e \<Rightarrow> Inl e | Inr x \<Rightarrow> f x)"

section \<open>Correlation parameters (correlation_engine.py)\<close>

definition MAX_PROXIMITY_DISTANCE_M :: int where
  "MAX_PROXIMITY_DISTANCE_M = 5000"

definition TEMPORAL_WINDOW_DAYS :: int where
  "TEMPORAL_WINDOW_DAYS = 14"

definition BURN_INDEX_THRESHOLD :: real where
  "BURN_INDEX_THRESHOLD = 3 / 10"

definition WEIGHTS :: "(string \<times> real) list" where
  "WEIGHTS =
     [(''spatial_proximity'', 25 / 100),
      (''temporal_correlation'', 20 / 100),
      (''sentinel_ndvi'', 15 / 100),
      (''sentinel_nbr'', 10 / 100),
      (''sentinel_burn'', 10 / 100),
      (''alert_density'', 10 / 100),
      (''sentiment_negative'', 10 / 100)]"

section \<open>Scoring functions\<close>

subsection \<open>Spatial proximity\<close>

record proximity_detail =
  pd_infrastructure :: string
  pd_infrastructure_type :: string
  pd_distance_m :: real
  pd_alert_type :: string

text \<open>\<open>node.name or f"OSM:{node.osm_id}"\<close>: an absent or empty name is falsy.\<close>

definition infrastructure_label :: "InfrastructureNode \<Rightarrow> string" where
  "infrastructure_label node =
     (case infra_name node of
        None \<Rightarrow> ''OSM:'' @ str_int (osm_id node)
      | Some n \<Rightarrow> if n \<noteq> [] then n else ''OSM:'' @ str_int (osm_id node))"

text \<open>
  The body of the inner loop: every alert kind has a \<open>latitude\<close>, so the
  \<open>hasattr\<close> test never skips. The state is \<open>(close_count, proximity_details)\<close>.
\<close>

definition proximity_step ::
  "real \<Rightarrow> InfrastructureNode \<Rightarrow> alert \<Rightarrow> int \<times> proximity_detail list
     \<Rightarrow> int \<times> proximity_detail list" where
  "proximity_step max_distance node a st =
     (let distance = haversine_distance (infra_latitude node) (infra_longitude node)
                       (alert_latitude a) (alert_longitude a)
      in if distance \<le> max_distance
         then (fst st + 1,
               snd st @ [\<lparr>pd_infrastructure = infrastructure_label node,
                          pd_infrastructure_type = node_type node,
                          pd_distance_m = py_round distance 1,
                          pd_alert_type = alert_type_name a\<rparr>])
         else st)"

definition calculate_spatial_proximity_score ::
  "InfrastructureNode list \<Rightarrow> alert list \<Rightarrow> real \<Rightarrow> real \<times> proximity_detail list" where
  "calculate_spatial_proximity_score infrastructure alerts max_distance =
     (if infrastructure = [] \<or> alerts = [] then (0, [])
      else
        (let st = fold (\<lambda>node. fold (proximity_step max_distance node) alerts)
                    infrastructure (0, []);
             close_count = fst st;
             proximity_details = snd st;
             score =
               (if close_count = 0 then 0
                else if close_count < 5 then of_int close_count * (15 / 100)
                else if close_count < 10 then 6 / 10 + of_int (close_count - 5) * (5 / 100)
                else min 1 (85 / 100 + of_int (close_count - 10) * (1 / 100)))
         in (score, proximity_details)))"

subsection \<open>Temporal correlation\<close>

record temporal_detail =
  td_fire_date :: datetime
  td_alert_date :: datetime
  days_apart :: int
  correlation_strength :: real

text \<open>
  The inner loop over the deforestation alerts for one fire. The division by
  \<open>window_days\<close> raises \<open>ZeroDivisionError\<close> when the window is 0.
\<close>

fun temporal_alerts ::
  "int \<Rightarrow> datetime \<Rightarrow> alert list \<Rightarrow> temporal_detail list \<Rightarrow> exn + temporal_detail list" where
  "temporal_alerts window_days fire_time [] correlations = Inr correlations"
| "temporal_alerts window_days fire_time (a # rest) correlations =
     (case alert_date a of
        None \<Rightarrow> temporal_alerts window_days fire_time rest correlations
      | Some alert_time \<Rightarrow>
          (let time_diff = \<bar>timedelta_days (fire_time - alert_time)\<bar>
           in if time_diff \<le> window_days
              then (if window_days = 0
                    then Inl (Exn ''ZeroDivisionError'' ''division by zero'')
                    else
                      (let strength = 1 - of_int time_diff / of_int window_days
                       in temporal_alerts window_days fire_time rest
                            (correlations @
                              [\<lparr>td_fire_date = fire_time,
                                td_alert_date = alert_time,
                                days_apart = time_diff,
                                correlation_strength = py_round strength 2\<rparr>])))
              else temporal_alerts window_days fire_time rest correlations))"

fun temporal_fires ::
  "int \<Rightarrow> FireEvent list \<Rightarrow> alert list \<Rightarrow> temporal_detail list \<Rightarrow> exn + temporal_detail list" where
  "temporal_fires window_days [] alerts correlations = Inr correlations"
| "temporal_fires window_days (fire # rest) alerts correlations =
     bind_exn (temporal_alerts window_days (acquisition_time fire) alerts correlations)
       (temporal_fires window_days rest alerts)"

definition calculate_temporal_correlation_score ::
  "FireEvent list \<Rightarrow> alert list \<Rightarrow> int \<Rightarrow> exn + real \<times> temporal_detail list" where
  "calculate_temporal_correlation_score fires deforestation_alerts window_days =
     (if fires = [] \<or> deforestation_alerts = [] then Inr (0, [])
      else
        bind_exn (temporal_fires window_days fires deforestation_alerts [])
          (\<lambda>correlations.
             if correlations = [] then Inr (0, [])
             else
               (let avg_strength = sum_list (map correlation_strength correlations)
                                     / of_nat (length correlations);
                    count_bonus = min (3 / 10) (of_nat (length correlations) * (5 / 100));
                    score = min 1 (avg_strength + count_bonus)
                in Inr (score, correlations))))"

subsection \<open>Sentinel imagery\<close>

definition ndvi_score :: "real \<Rightarrow> real \<times> message" where
  "ndvi_score v =
     (let r = (if v < 2 / 10 then (8 / 10 + (2 / 10 - v) * (5 / 10), VeryLowNdvi v)
               else if v < 4 / 10 then (4 / 10 + (4 / 10 - v) * 1, LowNdvi v)
               else (max 0 (4 / 10 - (v - 4 / 10) * (5 / 10)), NdviPresent v))
      in (min 1 (fst r), snd r))"

definition nbr_score :: "real \<Rightarrow> real \<times> message" where
  "nbr_score v =
     (let r = (if v < - (1 / 10) then (6 / 10 + \<bar>v\<bar> * (8 / 10), NegativeNbr v)
               else if v < 1 / 10 then (3 / 10, LowNbr v)
               else (0, HealthyNbr v))
      in (min 1 (fst r), snd r))"

definition burn_score :: "real \<Rightarrow> real \<times> message" where
  "burn_score v =
     (if BURN_INDEX_THRESHOLD < v then (min 1 (v * (15 / 10)), HighBurn v)
      else if 15 / 100 < v then (v * 2, ElevatedBurn v)
      else (0, LowBurn v))"

definition calculate_sentinel_scores ::
  "SentinelEvidence option \<Rightarrow> (string \<times> real \<times> message) list" where
  "calculate_sentinel_scores sentinel =
     (case sentinel of
        None \<Rightarrow>
          [(''ndvi'', 0, Text ''No Sentinel data available''),
           (''nbr'', 0, Text ''No Sentinel data available''),
           (''burn'', 0, Text ''No Sentinel data available'')]
      | Some s \<Rightarrow>
          [(''ndvi'', case ndvi s of Some v \<Rightarrow> ndvi_score v
                      | None \<Rightarrow> (0, Text ''NDVI data not available'')),
           (''nbr'', case nbr s of Some v \<Rightarrow> nbr_score v
                     | None \<Rightarrow> (0, Text ''NBR data not available'')),
           (''burn'', case burn_index s of Some v \<Rightarrow> burn_score v
                      | None \<Rightarrow> (0, Text ''Burn index not available''))])"

subsection \<open>Alert density\<close>

definition calculate_alert_density_score ::
  "GLADAlert list \<Rightarrow> RADDAlert list \<Rightarrow> FireEvent list \<Rightarrow> real \<times> real \<times> real \<times> real
     \<Rightarrow> real \<times> message" where
  "calculate_alert_density_score glad_alerts radd_alerts fires bbox =
     (let total_alerts = int (length glad_alerts) + int (length radd_alerts) + int (length fires)
      in if total_alerts = 0 then (0, Text ''No alerts detected in region'')
         else
           (case bbox of (min_lon, min_lat, max_lon, max_lat) \<Rightarrow>
             (let width_km = (max_lon - min_lon) * 111 * \<bar>cos_deg ((min_lat + max_lat) / 2)\<bar>;
                  height_km = (max_lat - min_lat) * 111;
                  area_sq_km = width_km * height_km
              in if area_sq_km \<le> 0 then (0, Text ''Invalid area'')
                 else
                   (let density = (of_int total_alerts / area_sq_km) * 100;
                        r = (if 50 < density then (1, VeryHighDensity density)
                             else if 20 < density
                               then (7 / 10 + (density - 20) * (1 / 100), HighDensity density)
                             else if 5 < density
                               then (3 / 10 + (density - 5) * (27 / 1000),
                                     ModerateDensity density)
                             else (density * (6 / 100), LowDensity density))
                    in (min 1 (fst r), snd r)))))"

subsection \<open>Sentiment\<close>

definition calculate_sentiment_score :: "CombinedSentiment option \<Rightarrow> real \<times> message" where
  "calculate_sentiment_score sentiment =
     (case sentiment of
        None \<Rightarrow> (0, Text ''No sentiment data available'')
      | Some s \<Rightarrow>
          (let fs = final_score s;
               se = (if fs < - (3 / 10)
                       then (8 / 10 + \<bar>fs + 3 / 10\<bar> * (3 / 10), StronglyNegativeSentiment fs)
                     else if fs < 0 then (4 / 10 + \<bar>fs\<bar> * (13 / 10), NegativeSentiment fs)
                     else if fs < 2 / 10 then (2 / 10, NeutralSentiment fs)
                     else (0, PositiveSentiment fs));
               sc = fst se * confidence s;
               explanation =
                 (case dominant_narrative s of
                    None \<Rightarrow> snd se
                  | Some d \<Rightarrow> if d \<noteq> [] then WithTheme (snd se) d else snd se)
           in (min 1 sc, explanation)))"

section \<open>Evidence chain builder\<close>

text \<open>\<open>min(spatial_details, key=...)\<close> returns the first detail of least distance.\<close>

definition closest_detail :: "proximity_detail list \<Rightarrow> proximity_detail option" where
  "closest_detail ds =
     (case ds of
        [] \<Rightarrow> None
      | d # rest \<Rightarrow>
          Some (fold (\<lambda>x best. if pd_distance_m x < pd_distance_m best then x else best) rest d))"

text \<open>
  One \<open>if score > 0: links.append(EvidenceLink(...))\<close> block. The evidence type is
  also the key of the weight looked up in \<open>WEIGHTS\<close>.
\<close>

definition add_link ::
  "bool \<Rightarrow> string \<Rightarrow> message \<Rightarrow> real \<Rightarrow> (string \<times> json) list \<Rightarrow> EvidenceLink list
     \<Rightarrow> exn + EvidenceLink list" where
  "add_link cond ty descr sc sd ls =
     (if cond
      then (case map_of WEIGHTS ty of
              None \<Rightarrow> Inl (Exn ''KeyError'' ty)
            | Some w \<Rightarrow> bind_exn (new_EvidenceLink ty descr (sc * w) sd) (\<lambda>l. Inr (ls @ [l])))
      else Inr ls)"

definition get_score :: "(string \<times> real \<times> message) list \<Rightarrow> string \<Rightarrow> real \<times> message" where
  "get_score sentinel_scores k =
     (case map_of sentinel_scores k of Some v \<Rightarrow> v | None \<Rightarrow> (0, Text []))"

definition build_summary :: "Company \<Rightarrow> real \<Rightarrow> real \<Rightarrow> real \<Rightarrow> real \<Rightarrow> string" where
  "build_summary s spatial_score temporal_score ndvi_sc sentiment_score =
     (let summary_parts =
            (if 5 / 10 < spatial_score then [''strong spatial correlation with damage sites'']
             else [])
            @ (if 5 / 10 < temporal_score
               then [''temporal pattern of fires preceding deforestation''] else [])
            @ (if 5 / 10 < ndvi_sc then [''satellite imagery confirms vegetation loss'']
               else [])
            @ (if 5 / 10 < sentiment_score then [''negative media coverage''] else [])
      in if summary_parts \<noteq> []
         then company_name s @ '': Evidence shows '' @ join '', '' summary_parts @ ''.''
         else company_name s @ '': Limited evidence found for direct involvement.'')"

definition build_evidence_chain ::
  "Company \<Rightarrow> real \<Rightarrow> proximity_detail list \<Rightarrow> real \<Rightarrow> temporal_detail list
     \<Rightarrow> (string \<times> real \<times> message) list \<Rightarrow> real \<Rightarrow> message \<Rightarrow> real \<Rightarrow> message
     \<Rightarrow> exn + EvidenceChain" where
  "build_evidence_chain s spatial_score spatial_details temporal_score temporal_details
       sentinel_scores density_score density_explanation sentiment_score sentiment_explanation =
     (let closest = closest_detail spatial_details;
          ndvi = get_score sentinel_scores ''ndvi'';
          nbr = get_score sentinel_scores ''nbr'';
          burn = get_score sentinel_scores ''burn''
      in
        bind_exn (add_link (0 < spatial_score) ''spatial_proximity''
            (InfrastructureWithin MAX_PROXIMITY_DISTANCE_M (int (length spatial_details)))
            spatial_score
            [(''proximity_count'', JInt (int (length spatial_details))),
             (''closest_distance_m'',
                case closest of None \<Rightarrow> JNull | Some c \<Rightarrow> JNum (pd_distance_m c)),
             (''closest_type'',
                case closest of None \<Rightarrow> JNull | Some c \<Rightarrow> JStr (pd_infrastructure_type c))]
            [])
       (\<lambda>l1. bind_exn (add_link (0 < temporal_score) ''temporal_correlation''
            (FireEventsCorrelated (int (length temporal_details)) TEMPORAL_WINDOW_DAYS)
            temporal_score
            [(''correlation_count'', JInt (int (length temporal_details))),
             (''avg_days_apart'',
                if temporal_details \<noteq> []
                then JNum (of_int (sum_list (map days_apart temporal_details))
                             / of_nat (length temporal_details))
                else JInt 0)]
            l1)
       (\<lambda>l2. bind_exn (add_link (0 < fst ndvi) ''sentinel_ndvi'' (snd ndvi) (fst ndvi)
            [(''score'', JNum (fst ndvi))] l2)
       (\<lambda>l3. bind_exn (add_link (0 < fst nbr) ''sentinel_nbr'' (snd nbr) (fst nbr)
            [(''score'', JNum (fst nbr))] l3)
       (\<lambda>l4. bind_exn (add_link (0 < fst burn) ''sentinel_burn'' (snd burn) (fst burn)
            [(''score'', JNum (fst burn))] l4)
       (\<lambda>l5. bind_exn (add_link (0 < density_score) ''alert_density'' density_explanation
            density_score [(''score'', JNum density_score)] l5)
       (\<lambda>l6. bind_exn (add_link (0 < sentiment_score) ''sentiment_negative''
            sentiment_explanation sentiment_score [(''score'', JNum sentiment_score)] l6)
       (\<lambda>ls.
          (let tw = sum_list (map weight ls)
           in new_EvidenceChain s ls (py_round tw 3)
                (build_summary s spatial_score temporal_score (fst ndvi) sentiment_score))))))))))"

section \<open>Correlation of events and the confidence aggregator\<close>

definition suspect_infra :: "InfrastructureNode list \<Rightarrow> Company \<Rightarrow> InfrastructureNode list" where
  "suspect_infra infrastructure s =
     filter (\<lambda>n. infra_name n = Some (company_name s)
                \<or> tags n ''operator'' = Some (company_name s)
                \<or> tags n ''company'' = Some (company_name s)) infrastructure"

definition suspect_spatial ::
  "InfrastructureNode list \<Rightarrow> alert list \<Rightarrow> real \<times> proximity_detail list \<Rightarrow> Company
     \<Rightarrow> real \<times> proximity_detail list" where
  "suspect_spatial infrastructure alerts spatial s =
     (let si = suspect_infra infrastructure s
      in if si \<noteq> []
         then calculate_spatial_proximity_score si alerts (of_int MAX_PROXIMITY_DISTANCE_M)
         else (fst spatial * (5 / 10), snd spatial))"

text \<open>The loop over the suspects: \<open>body\<close> builds the chain of one suspect.\<close>

fun collect_chains ::
  "(Company \<Rightarrow> exn + EvidenceChain) \<Rightarrow> Company list \<Rightarrow> EvidenceChain list
     \<Rightarrow> exn + EvidenceChain list" where
  "collect_chains body [] evidence_chains = Inr evidence_chains"
| "collect_chains body (s # rest) evidence_chains =
     bind_exn (body s) (\<lambda>chain. collect_chains body rest (evidence_chains @ [chain]))"

text \<open>
  \<open>evidence_chains.sort(key=lambda x: x.total_weight, reverse=True)\<close>: Python's sort
  is stable, also with \<open>reverse=True\<close>, so chains of equal weight keep their order.
\<close>

fun insert_desc :: "EvidenceChain \<Rightarrow> EvidenceChain list \<Rightarrow> EvidenceChain list" where
  "insert_desc c [] = [c]"
| "insert_desc c (d # ds) =
     (if total_weight d \<le> total_weight c then c # d # ds else d # insert_desc c ds)"

definition sort_by_total_weight_desc :: "EvidenceChain list \<Rightarrow> EvidenceChain list" where
  "sort_by_total_weight_desc cs = foldr insert_desc cs []"

text \<open>A float is truthy unless it is absent or zero.\<close>

definition truthy_float :: "real option \<Rightarrow> bool" where
  "truthy_float v = (case v of None \<Rightarrow> False | Some x \<Rightarrow> x \<noteq> 0)"

definition presence_bonus ::
  "HansenStats option \<Rightarrow> GLADAlert list \<Rightarrow> RADDAlert list \<Rightarrow> FireEvent list
     \<Rightarrow> SentinelEvidence option \<Rightarrow> InfrastructureNode list \<Rightarrow> CombinedSentiment option
     \<Rightarrow> real" where
  "presence_bonus hansen glad_alerts radd_alerts fires sentinel infrastructure sentiment =
     (let b0 = 0;
          b1 = (if glad_alerts \<noteq> [] \<or> radd_alerts \<noteq> [] then b0 + 15 else b0);
          b2 = (if fires \<noteq> [] then b1 + 10 else b1);
          b3 = (if (case sentinel of None \<Rightarrow> False
                    | Some s \<Rightarrow> truthy_float (ndvi s) \<or> truthy_float (nbr s))
                then b2 + 15 else b2);
          b4 = (if (case hansen of None \<Rightarrow> False | Some h \<Rightarrow> 0 < total_loss_ha h)
                then b3 + 10 else b3);
          b5 = (if infrastructure \<noteq> [] then b4 + 10 else b4);
          b6 = (if sentiment \<noteq> None then b5 + 5 else b5)
      in b6)"

definition base_confidence ::
  "real \<Rightarrow> real \<Rightarrow> real \<Rightarrow> real \<Rightarrow> (string \<times> real \<times> message) list \<Rightarrow> real" where
  "base_confidence bonus spatial_score temporal_score density_score sentinel_scores =
     fold (\<lambda>(metric, sc, expl) b. b + sc * 5) sentinel_scores
       (bonus + spatial_score * 15 + temporal_score * 10 + density_score * 10)"

text \<open>The chain of one suspect, as the body of the loop of \<open>correlate_events\<close> builds it.\<close>

definition suspect_chain ::
  "InfrastructureNode list \<Rightarrow> alert list \<Rightarrow> real \<times> proximity_detail list
     \<Rightarrow> real \<times> temporal_detail list \<Rightarrow> (string \<times> real \<times> message) list
     \<Rightarrow> real \<times> message \<Rightarrow> real \<times> message \<Rightarrow> Company \<Rightarrow> exn + EvidenceChain" where
  "suspect_chain infrastructure alerts spatial temporal sentinel_scores density sentiment_sc s =
     (let sp = suspect_spatial infrastructure alerts spatial s
      in build_evidence_chain s (fst sp) (snd sp) (fst temporal) (snd temporal)
           sentinel_scores (fst density) (snd density) (fst sentiment_sc) (snd sentiment_sc))"

definition correlate_events ::
  "real \<times> real \<times> real \<times> real \<Rightarrow> datetime \<times> datetime \<Rightarrow> HansenStats option
     \<Rightarrow> GLADAlert list \<Rightarrow> RADDAlert list \<Rightarrow> FireEvent list \<Rightarrow> SentinelEvidence option
     \<Rightarrow> InfrastructureNode list \<Rightarrow> Company list \<Rightarrow> CombinedSentiment option
     \<Rightarrow> exn + EvidenceChain list \<times> real" where
  "correlate_events aoi timeframe hansen glad_alerts radd_alerts fires sentinel infrastructure
       suspects sentiment =
     (let all_deforestation = map Glad glad_alerts @ map Radd radd_alerts;
          spatial = calculate_spatial_proximity_score infrastructure
                      (all_deforestation @ map Fire fires) (of_int MAX_PROXIMITY_DISTANCE_M)
      in
        bind_exn (calculate_temporal_correlation_score fires all_deforestation
                    TEMPORAL_WINDOW_DAYS)
          (\<lambda>temporal.
             (let sentinel_scores = calculate_sentinel_scores sentinel;
                  density = calculate_alert_density_score glad_alerts radd_alerts fires aoi;
                  sentiment_sc = calculate_sentiment_score sentiment
              in
                bind_exn (collect_chains
                            (suspect_chain infrastructure (all_deforestation @ map Fire fires)
                               spatial temporal sentinel_scores density sentiment_sc)
                            suspects [])
                  (\<lambda>evidence_chains.
                     (let sorted_chains = sort_by_total_weight_desc evidence_chains;
                          bonus = presence_bonus hansen glad_alerts radd_alerts fires sentinel
                                    infrastructure sentiment;
                          base = base_confidence bonus (fst spatial) (fst temporal)
                                   (fst density) sentinel_scores;
                          confidence_score = min 100 base
                      in Inr (sorted_chains, py_round confidence_score 1))))))"

section \<open>Combined sentiment (social_voice.py)\<close>

definition new_CombinedSentiment ::
  "SentimentScore option \<Rightarrow> SentimentScore option \<Rightarrow> SentimentScore option \<Rightarrow> real \<Rightarrow> real
     \<Rightarrow> string option \<Rightarrow> exn + CombinedSentiment" where
  "new_CombinedSentiment g d r fs conf narrative =
     (if - 1 \<le> fs \<and> fs \<le> 1 \<and> 0 \<le> conf \<and> conf \<le> 1
      then Inr \<lparr>google = g, gdelt = d, reddit = r, final_score = fs, confidence = conf,
                dominant_narrative = narrative\<rparr>
      else Inl (Exn ''ValidationError'' ''CombinedSentiment''))"

text \<open>
  The loop over \<open>sources.items()\<close>; each source is paired with \<open>weights[name]\<close>.
  The state is \<open>(weighted_sum, total_weight, total_count)\<close>; the two float sums are
  updated in binary64, one rounding for the product and one for each sum.
\<close>

definition has_samples :: "SentimentScore option \<Rightarrow> bool" where
  "has_samples s = (case s of None \<Rightarrow> False | Some sc \<Rightarrow> 0 < count sc)"

definition sentiment_step ::
  "real \<times> SentimentScore option \<Rightarrow> real \<times> real \<times> int \<Rightarrow> real \<times> real \<times> int" where
  "sentiment_step ws st =
     (case snd ws of
        None \<Rightarrow> st
      | Some sc \<Rightarrow>
          if 0 < count sc
          then (case st of (w_sum, w_total, n_total) \<Rightarrow>
                  (double_of (w_sum + double_of (score sc * fst ws)),
                   double_of (w_total + fst ws),
                   n_total + count sc))
          else st)"

text \<open>
  \<open>Counter(all_keywords).most_common(1)[0][0]\<close>: the keyword of greatest count, the
  first one met among equals.
\<close>

definition most_common_keyword :: "string list \<Rightarrow> string option" where
  "most_common_keyword ks =
     (case ks of
        [] \<Rightarrow> None
      | k # rest \<Rightarrow>
          Some (fold (\<lambda>x best. if count_list ks best < count_list ks x then x else best)
                  rest k))"

text \<open>
  The true division of two Python ints: the exact quotient rounded to the nearest
  double, \<open>OverflowError\<close> when that is \<open>2^1024\<close> or more in magnitude, which is from
  \<open>2^1024 - 2^970\<close> on.
\<close>

definition int_true_divide :: "int \<Rightarrow> int \<Rightarrow> exn + real" where
  "int_true_divide a b =
     (if b = 0 then Inl (Exn ''ZeroDivisionError'' ''division by zero'')
      else if 2 ^ 1024 - 2 ^ 970 \<le> \<bar>of_int a / of_int b :: real\<bar>
      then Inl (Exn ''OverflowError'' ''integer division result too large for a float'')
      else Inr (double_of (of_int a / of_int b)))"

text \<open>
  The weights and the factors 0.6 and 0.4 are float literals. The final score and the
  confidence go through \<open>round(_, 3)\<close> and then through the range checks of the
  pydantic model.
\<close>

definition compute_combined_sentiment ::
  "SentimentScore option \<Rightarrow> SentimentScore option \<Rightarrow> SentimentScore option
     \<Rightarrow> exn + CombinedSentiment" where
  "compute_combined_sentiment g d r =
     (let sources = [(double_of (5 / 10), g), (double_of (3 / 10), d), (double_of (2 / 10), r)];
          st = fold sentiment_step sources (0, 0, 0);
          weighted_sum = fst st;
          weight_total = fst (snd st);
          total_count = snd (snd st);
          fs = (if 0 < weight_total then double_of (weighted_sum / weight_total) else 0);
          source_count = length (filter (\<lambda>ws. has_samples (snd ws)) sources)
      in bind_exn (int_true_divide total_count 50) (\<lambda>samples_ratio.
         bind_exn (int_true_divide (int source_count) 3) (\<lambda>source_confidence.
           (let sample_confidence = min 1 samples_ratio;
                conf = double_of (double_of (sample_confidence * double_of (6 / 10))
                                  + double_of (source_confidence * double_of (4 / 10)));
                all_keywords =
                  concat (map (\<lambda>ws. case snd ws of None \<Rightarrow> [] | Some sc \<Rightarrow> keyword_list sc)
                            sources)
            in new_CombinedSentiment g d r (double_of (py_round fs 3))
                 (double_of (py_round conf 3)) (most_common_keyword all_keywords)))))"

section \<open>Orchestration (main_api.py, utils.py, config.py)\<close>

datatype http_exception = HTTPException int message

record BBox =
  min_lon :: real
  min_lat :: real
  max_lon :: real
  max_lat :: real

definition new_BBox :: "real \<times> real \<times> real \<times> real \<Rightarrow> exn + BBox" where
  "new_BBox t =
     (case t of (lon0, lat0, lon1, lat1) \<Rightarrow>
        if - 180 \<le> lon0 \<and> lon0 \<le> 180 \<and> - 90 \<le> lat0 \<and> lat0 \<le> 90
           \<and> - 180 \<le> lon1 \<and> lon1 \<le> 180 \<and> - 90 \<le> lat1 \<and> lat1 \<le> 90
           \<and> lon0 \<le> lon1 \<and> lat0 \<le> lat1
        then Inr \<lparr>min_lon = lon0, min_lat = lat0, max_lon = lon1, max_lat = lat1\<rparr>
        else Inl (Exn ''ValidationError'' ''BBox''))"

record CoverageNote =
  cn_dataset :: string
  cn_status :: string
  cn_reason :: "string option"

record Dossier =
  region :: "string option"
  bbox :: BBox
  generated_at :: datetime
  analysis_period_start :: datetime
  analysis_period_end :: datetime
  hansen :: "HansenStats option"
  gfw_glad :: "GLADAlert list"
  gfw_radd :: "RADDAlert list"
  firms :: "FireEvent list"
  sentinel :: "SentinelEvidence option"
  nearby_infra :: "InfrastructureNode list"
  suspects :: "Company list"
  sentiment :: "CombinedSentiment option"
  evidence_chain :: "EvidenceChain list"
  confidence_score :: real
  source_errors :: "SourceError list"
  coverage_notes :: "CoverageNote list"

text \<open>The table of named regions: key, display name and bounding box.\<close>

definition GLOBAL_REGIONS :: "(string \<times> string \<times> real \<times> real \<times> real \<times> real) list" where
  "GLOBAL_REGIONS =
     [(''amazon'', ''Amazon'', - 73, - 15, - 45, 5),
      (''congo'', ''Congo Basin'', 9, - 13, 31, 10),
      (''riau'', ''Riau'', 100, - 1, 104, 3),
      (''borneo'', ''Borneo'', 108, - (45 / 10), 1195 / 10, 75 / 10),
      (''se_brazil'', ''SE Brazil'', - 53, - 28, - 40, - 18),
      (''california'', ''California'', - (1245 / 10), 325 / 10, - 114, 42),
      (''siberia'', ''Siberia'', 60, 50, 140, 75),
      (''australia'', ''Australia'', 113, - 44, 154, - 10)]"

text \<open>\<open>region.lower().replace(" ", "_")\<close>, on ASCII letters.\<close>

definition lower_char :: "char \<Rightarrow> char" where
  "lower_char c =
     (let n = (of_char c :: nat) in if 65 \<le> n \<and> n \<le> 90 then char_of (n + 32) else c)"

definition normalise_region :: "string \<Rightarrow> string" where
  "normalise_region r = map (\<lambda>c. if c = CHR '' '' then CHR ''_'' else c) (map lower_char r)"

fun split_comma :: "string \<Rightarrow> string list" where
  "split_comma [] = [[]]"
| "split_comma (c # cs) =
     (if c = CHR '','' then [] # split_comma cs
      else (case split_comma cs of [] \<Rightarrow> [[c]] | part # parts \<Rightarrow> (c # part) # parts))"

text \<open>
  The list comprehension of \<open>parse_bbox_string\<close>; \<open>py_float\<close> stands for
  \<open>float(x.strip())\<close>, which raises \<open>ValueError\<close> where it gives \<open>None\<close>.
\<close>

fun parse_floats :: "(string \<Rightarrow> real option) \<Rightarrow> string list \<Rightarrow> exn + real list" where
  "parse_floats py_float [] = Inr []"
| "parse_floats py_float (x # xs) =
     (case py_float x of
        None \<Rightarrow> Inl (Exn ''ValueError'' (''could not convert string to float: '' @ x))
      | Some v \<Rightarrow> bind_exn (parse_floats py_float xs) (\<lambda>vs. Inr (v # vs)))"

definition parse_bbox_string ::
  "(string \<Rightarrow> real option) \<Rightarrow> string \<Rightarrow> exn + real \<times> real \<times> real \<times> real" where
  "parse_bbox_string py_float bbox_str =
     bind_exn (parse_floats py_float (split_comma bbox_str))
       (\<lambda>parts. case parts of
                  [a, b, c, d] \<Rightarrow> Inr (a, b, c, d)
                | _ \<Rightarrow> Inl (Exn ''ValueError''
                               ''BBox must have exactly 4 comma-separated values''))"

definition validate_bbox :: "real \<times> real \<times> real \<times> real \<Rightarrow> bool \<times> message option" where
  "validate_bbox t =
     (case t of (lon0, lat0, lon1, lat1) \<Rightarrow>
        if \<not> (- 180 \<le> lon0 \<and> lon0 \<le> 180) \<or> \<not> (- 180 \<le> lon1 \<and> lon1 \<le> 180)
        then (False, Some (Text ''Longitude must be between -180 and 180''))
        else if \<not> (- 90 \<le> lat0 \<and> lat0 \<le> 90) \<or> \<not> (- 90 \<le> lat1 \<and> lat1 \<le> 90)
        then (False, Some (Text ''Latitude must be between -90 and 90''))
        else if lon1 < lon0 then (False, Some (Text ''min_lon must be <= max_lon''))
        else if lat1 < lat0 then (False, Some (Text ''min_lat must be <= max_lat''))
        else
          (let area = (lon1 - lon0) * (lat1 - lat0)
           in if 1000 < area then (False, Some (BBoxAreaTooLarge area))
              else if area < 1 / 10000
              then (False, Some (Text ''BBox area too small. Minimum is 0.0001 sq degrees.''))
              else (True, None)))"

definition truthy_str :: "string option \<Rightarrow> bool" where
  "truthy_str s = (case s of None \<Rightarrow> False | Some x \<Rightarrow> x \<noteq> [])"

definition resolve_bbox ::
  "(string \<Rightarrow> real option) \<Rightarrow> string option \<Rightarrow> string option
     \<Rightarrow> http_exception + real \<times> real \<times> real \<times> real" where
  "resolve_bbox py_float region_arg bbox_str =
     (if truthy_str region_arg
      then (case map_of GLOBAL_REGIONS (normalise_region (the region_arg)) of
              None \<Rightarrow> Inl (HTTPException 400
                             (UnknownRegion (the region_arg) (map fst GLOBAL_REGIONS)))
            | Some cfg \<Rightarrow> Inr (snd cfg))
      else if truthy_str bbox_str
      then (case parse_bbox_string py_float (the bbox_str) of
              Inl e \<Rightarrow> Inl (HTTPException 400 (Text (exn_str e)))
            | Inr t \<Rightarrow>
                (case validate_bbox t of
                   (valid, err) \<Rightarrow>
                     if \<not> valid
                     then Inl (HTTPException 400
                                 (case err of None \<Rightarrow> Text ''Bad Request'' | Some m \<Rightarrow> m))
                     else Inr t))
      else Inl (HTTPException 400 (Text ''Either 'region' or 'bbox' parameter required'')))"

text \<open>
  What a collaborator task hands back to \<open>asyncio.gather(..., return_exceptions=True)\<close>:
  the exception it raised, or the dictionary it returned with the keys \<open>data\<close>,
  \<open>error\<close>, \<open>skipped\<close> and \<open>skip_reason\<close> (an absent key reads as \<open>None\<close>).
\<close>

record 'a task_result =
  r_data :: "'a option"
  r_error :: "string option"
  r_skipped :: bool
  r_skip_reason :: "string option"

datatype 'a task_outcome = Raised exn | Returned "'a task_result"

definition create_source_error :: "string \<Rightarrow> exn \<Rightarrow> bool \<Rightarrow> datetime \<Rightarrow> SourceError" where
  "create_source_error source e retryable now =
     \<lparr>se_source = source, se_error_type = exn_type_name e,
      se_message = take 500 (exn_str e), se_retryable = retryable, se_timestamp = now\<rparr>"

definition fetch_error :: "string \<Rightarrow> string \<Rightarrow> datetime \<Rightarrow> SourceError" where
  "fetch_error source msg now =
     \<lparr>se_source = source, se_error_type = ''FetchError'', se_message = msg,
      se_retryable = True, se_timestamp = now\<rparr>"

text \<open>
  A "Process ... result" block of \<open>get_dossier\<close> for Hansen, FIRMS, Sentinel and
  Overpass: the value read from \<open>data\<close> (or nothing) and the grown error list.
\<close>

definition process_result ::
  "string \<Rightarrow> 'a task_outcome \<Rightarrow> datetime \<Rightarrow> SourceError list \<Rightarrow> 'a option \<times> SourceError list" where
  "process_result source result now errs =
     (case result of
        Raised e \<Rightarrow> (None, errs @ [create_source_error source e True now])
      | Returned r \<Rightarrow>
          if truthy_str (r_error r)
          then (None, errs @ [fetch_error source (the (r_error r)) now])
          else (r_data r, errs))"

text \<open>The block for GLAD and RADD, which also turns a skip into a coverage note.\<close>

definition process_alert_result ::
  "string \<Rightarrow> 'a task_outcome \<Rightarrow> datetime \<Rightarrow> SourceError list \<Rightarrow> CoverageNote list
     \<Rightarrow> 'a option \<times> SourceError list \<times> CoverageNote list" where
  "process_alert_result source result now errs notes =
     (case result of
        Raised e \<Rightarrow> (None, errs @ [create_source_error source e True now], notes)
      | Returned r \<Rightarrow>
          if r_skipped r
          then (None, errs,
                notes @ [\<lparr>cn_dataset = source, cn_status = ''skipped'',
                           cn_reason = r_skip_reason r\<rparr>])
          else if truthy_str (r_error r)
          then (None, errs @ [fetch_error source (the (r_error r)) now], notes)
          else (r_data r, errs, notes))"

text \<open>\<open>result.get("data") or []\<close>.\<close>

definition or_empty :: "'a list option \<Rightarrow> 'a list" where
  "or_empty v = (case v of None \<Rightarrow> [] | Some xs \<Rightarrow> xs)"

definition new_Dossier ::
  "string option \<Rightarrow> BBox \<Rightarrow> datetime \<Rightarrow> datetime \<Rightarrow> datetime \<Rightarrow> HansenStats option
     \<Rightarrow> GLADAlert list \<Rightarrow> RADDAlert list \<Rightarrow> FireEvent list \<Rightarrow> SentinelEvidence option
     \<Rightarrow> InfrastructureNode list \<Rightarrow> Company list \<Rightarrow> CombinedSentiment option
     \<Rightarrow> EvidenceChain list \<Rightarrow> real \<Rightarrow> SourceError list \<Rightarrow> CoverageNote list
     \<Rightarrow> exn + Dossier" where
  "new_Dossier rg bb gen ps pe hs gl rd fi sn nodes sus sent ecs conf errs notes =
     (if 0 \<le> conf \<and> conf \<le> 100
      then Inr \<lparr>region = rg, bbox = bb, generated_at = gen, analysis_period_start = ps,
                analysis_period_end = pe, hansen = hs, gfw_glad = gl, gfw_radd = rd,
                firms = fi, sentinel = sn, nearby_infra = nodes, suspects = sus,
                sentiment = sent, evidence_chain = ecs, confidence_score = conf,
                source_errors = errs, coverage_notes = notes\<rparr>
      else Inl (Exn ''ValidationError'' ''confidence_score''))"

text \<open>
  The environment of a request: the two parsers of the standard library, the clock, and
  what each collaborator task does. The enrichment is awaited only for a non-empty
  infrastructure list, and is given that list.
\<close>

record collaborators =
  py_float :: "string \<Rightarrow> real option"
  fromisoformat :: "string \<Rightarrow> exn + datetime"
  utcnow :: datetime
  hansen_task :: "HansenStats task_outcome"
  firms_task :: "FireEvent list task_outcome"
  glad_task :: "GLADAlert list task_outcome"
  radd_task :: "RADDAlert list task_outcome"
  sentinel_task :: "SentinelEvidence task_outcome"
  infra_task :: "InfrastructureNode list task_outcome"
  enrich_infrastructure_companies :: "InfrastructureNode list \<Rightarrow> exn + Company list"
  fetch_all_sentiment :: "exn + CombinedSentiment \<times> SourceError list"

text \<open>
  The body of the \<open>try\<close> block of \<open>get_dossier\<close> after the bounding box is resolved.
  The clock is read once. The search query, built from the region and the box, only feeds
  the sentiment collaborator and is left out, as are the log lines.
\<close>

definition dossier_body ::
  "collaborators \<Rightarrow> string option \<Rightarrow> real \<times> real \<times> real \<times> real \<Rightarrow> string option
     \<Rightarrow> string option \<Rightarrow> exn + Dossier" where
  "dossier_body env region_arg aoi start_date end_date =
     bind_exn (new_BBox aoi)
       (\<lambda>bbox_model.
     bind_exn (if truthy_str end_date then fromisoformat env (the end_date)
               else Inr (utcnow env))
       (\<lambda>end_dt.
     bind_exn (if truthy_str start_date then fromisoformat env (the start_date)
               else Inr (end_dt - 90 * 86400000000))
       (\<lambda>start_dt.
        (let timeframe = (start_dt, end_dt);
             now = utcnow env;
             h = process_result ''hansen_gfc'' (hansen_task env) now [];
             f = process_result ''firms'' (firms_task env) now (snd h);
             fires = or_empty (fst f);
             g = process_alert_result ''gfw_glad'' (glad_task env) now (snd f) [];
             glad_alerts = or_empty (fst g);
             r = process_alert_result ''gfw_radd'' (radd_task env) now (fst (snd g))
                   (snd (snd g));
             radd_alerts = or_empty (fst r);
             coverage_notes = snd (snd r);
             s = process_result ''sentinel_hub'' (sentinel_task env) now (fst (snd r));
             i = process_result ''overpass'' (infra_task env) now (snd s);
             infrastructure = or_empty (fst i);
             e = (if infrastructure \<noteq> []
                  then (case enrich_infrastructure_companies env infrastructure of
                          Inl ex \<Rightarrow> ([], snd i @ [create_source_error ''gleif'' ex True now])
                        | Inr cs \<Rightarrow> (cs, snd i))
                  else ([], snd i));
             st = (case fetch_all_sentiment env of
                     Inl ex \<Rightarrow>
                       (None, snd e @ [create_source_error ''sentiment'' ex True now])
                   | Inr (combined, sentiment_errors) \<Rightarrow>
                       (Some combined, snd e @ sentiment_errors))
         in
           bind_exn (correlate_events aoi timeframe (fst h) glad_alerts radd_alerts fires
                       (fst s) infrastructure (fst e) (fst st))
             (\<lambda>res.
                new_Dossier region_arg bbox_model now start_dt end_dt (fst h) glad_alerts
                  radd_alerts fires (fst s) infrastructure (fst e) (fst st) (fst res)
                  (snd res) (snd st) coverage_notes)))))"

text \<open>
  \<open>get_dossier\<close>: an \<open>HTTPException\<close> passes through, any other exception becomes
  status 500.
\<close>

definition get_dossier ::
  "collaborators \<Rightarrow> string option \<Rightarrow> string option \<Rightarrow> string option \<Rightarrow> string option
     \<Rightarrow> http_exception + Dossier" where
  "get_dossier env region_arg bbox_str start_date end_date =
     (case resolve_bbox (py_float env) region_arg bbox_str of
        Inl h \<Rightarrow> Inl h
      | Inr aoi \<Rightarrow>
          (case dossier_body env region_arg aoi start_date end_date of
             Inl e \<Rightarrow> Inl (HTTPException 500 (Text (exn_str e)))
           | Inr d \<Rightarrow> Inr d))"

section \<open>Specification-side definitions and example inputs\<close>

text \<open>
  The great-circle distance of the specification, for two points given in degrees on a
  sphere of radius 6371 km: the radius times the central angle between the points, the
  angle taken from the spherical law of cosines.
\<close>

definition central_angle :: "real \<Rightarrow> real \<Rightarrow> real \<Rightarrow> real \<Rightarrow> real" where
  "central_angle lat1 lon1 lat2 lon2 =
     arccos (sin lat1 * sin lat2 + cos lat1 * cos lat2 * cos (lon2 - lon1))"

definition great_circle_distance :: "real \<Rightarrow> real \<Rightarrow> real \<Rightarrow> real \<Rightarrow> real" where
  "great_circle_distance lat1d lon1d lat2d lon2d =
     6371000 * central_angle (radians lat1d) (radians lon1d) (radians lat2d) (radians lon2d)"

text \<open>
  The count that the specification of the spatial score speaks of: the (node, alert)
  pairs whose great-circle distance is at most the maximal distance, and the piecewise
  curve as the specification words it.
\<close>

definition within_distance :: "real \<Rightarrow> InfrastructureNode \<Rightarrow> alert \<Rightarrow> bool" where
  "within_distance max_distance node a =
     (great_circle_distance (infra_latitude node) (infra_longitude node)
        (alert_latitude a) (alert_longitude a) \<le> max_distance)"

definition close_pairs ::
  "InfrastructureNode list \<Rightarrow> alert list \<Rightarrow> real \<Rightarrow> (InfrastructureNode \<times> alert) list" where
  "close_pairs infrastructure alerts max_distance =
     filter (\<lambda>(node, a). within_distance max_distance node a) (List.product infrastructure alerts)"

definition spec_spatial_curve :: "nat \<Rightarrow> real" where
  "spec_spatial_curve n =
     (if n = 0 then 0
      else if 1 \<le> n \<and> n \<le> 4 then real n * (15 / 100)
      else if 5 \<le> n \<and> n \<le> 9 then 6 / 10 + (real n - 5) * (5 / 100)
      else min 1 (85 / 100 + (real n - 10) * (1 / 100)))"

text \<open>Concrete inputs, after the fixtures of the unit tests.\<close>

definition example_node :: InfrastructureNode where
  "example_node =
     \<lparr>osm_id = 1, node_type = ''factory'', infra_name = Some ''Test Factory'',
      infra_latitude = 0, infra_longitude = 0, infra_distance_m = Some 100,
      tags = Map.empty\<rparr>"

definition example_glad :: "datetime \<Rightarrow> GLADAlert" where
  "example_glad t =
     \<lparr>glad_latitude = 0, glad_longitude = 0, glad_date = t, glad_confidence = Some 80,
      glad_area_ha = None\<rparr>"

text \<open>
  The alerts of the two spatial tests: one a thousandth of a degree north and east of
  the node, one ten degrees north and east of it.
\<close>

definition near_glad :: GLADAlert where
  "near_glad =
     \<lparr>glad_latitude = 1 / 1000, glad_longitude = 1 / 1000, glad_date = 0,
      glad_confidence = Some 80, glad_area_ha = None\<rparr>"

definition far_glad :: GLADAlert where
  "far_glad =
     \<lparr>glad_latitude = 10, glad_longitude = 10, glad_date = 0,
      glad_confidence = Some 80, glad_area_ha = None\<rparr>"

definition example_fire :: "datetime \<Rightarrow> FireEvent" where
  "example_fire t =
     \<lparr>fire_latitude = 0, fire_longitude = 0, brightness = Some 350,
      fire_confidence = Some 80, frp = Some 10, acquisition_time = t,
      satellite = ''MODIS'', daynight = Some ''D''\<rparr>"

text \<open>
  The evidence chain in terms of its category scores: the seven categories in the order
  of the builder, the weight of a category, and the link the builder emits for a
  category of positive score.
\<close>

definition category_weight :: "string \<Rightarrow> real" where
  "category_weight k = (case map_of WEIGHTS k of None \<Rightarrow> 0 | Some w \<Rightarrow> w)"

definition category_scores ::
  "real \<Rightarrow> real \<Rightarrow> (string \<times> real \<times> message) list \<Rightarrow> real \<Rightarrow> real \<Rightarrow> (string \<times> real) list" where
  "category_scores spatial_score temporal_score sentinel_scores density_score sentiment_score =
     [(''spatial_proximity'', spatial_score),
      (''temporal_correlation'', temporal_score),
      (''sentinel_ndvi'', fst (get_score sentinel_scores ''ndvi'')),
      (''sentinel_nbr'', fst (get_score sentinel_scores ''nbr'')),
      (''sentinel_burn'', fst (get_score sentinel_scores ''burn'')),
      (''alert_density'', density_score),
      (''sentiment_negative'', sentiment_score)]"

definition emitted_weights :: "(string \<times> real) list \<Rightarrow> (string \<times> real) list" where
  "emitted_weights cats =
     map (\<lambda>kv. (fst kv, snd kv * category_weight (fst kv))) (filter (\<lambda>kv. 0 < snd kv) cats)"

definition link_weights :: "EvidenceLink list \<Rightarrow> (string \<times> real) list" where
  "link_weights ls = map (\<lambda>l. (evidence_type l, weight l)) ls"

definition link_if_positive ::
  "string \<Rightarrow> message \<Rightarrow> real \<Rightarrow> (string \<times> json) list \<Rightarrow> EvidenceLink list" where
  "link_if_positive ty descr sc sd =
     (if 0 < sc
      then [\<lparr>evidence_type = ty, description = descr, weight = sc * category_weight ty,
              supporting_data = sd\<rparr>]
      else [])"

text \<open>The links of a chain, in the order in which the builder appends them.\<close>

definition chain_links ::
  "real \<Rightarrow> proximity_detail list \<Rightarrow> real \<Rightarrow> temporal_detail list
     \<Rightarrow> (string \<times> real \<times> message) list \<Rightarrow> real \<Rightarrow> message \<Rightarrow> real \<Rightarrow> message
     \<Rightarrow> EvidenceLink list" where
  "chain_links spatial_score spatial_details temporal_score temporal_details sentinel_scores
       density_score density_explanation sentiment_score sentiment_explanation =
     link_if_positive ''spatial_proximity''
        (InfrastructureWithin MAX_PROXIMITY_DISTANCE_M (int (length spatial_details)))
        spatial_score
        [(''proximity_count'', JInt (int (length spatial_details))),
         (''closest_distance_m'',
            case closest_detail spatial_details of None \<Rightarrow> JNull
            | Some c \<Rightarrow> JNum (pd_distance_m c)),
         (''closest_type'',
            case closest_detail spatial_details of None \<Rightarrow> JNull
            | Some c \<Rightarrow> JStr (pd_infrastructure_type c))]
     @ link_if_positive ''temporal_correlation''
        (FireEventsCorrelated (int (length temporal_details)) TEMPORAL_WINDOW_DAYS)
        temporal_score
        [(''correlation_count'', JInt (int (length temporal_details))),
         (''avg_days_apart'',
            if temporal_details \<noteq> []
            then JNum (of_int (sum_list (map days_apart temporal_details))
                         / of_nat (length temporal_details))
            else JInt 0)]
     @ link_if_positive ''sentinel_ndvi'' (snd (get_score sentinel_scores ''ndvi''))
        (fst (get_score sentinel_scores ''ndvi''))
        [(''score'', JNum (fst (get_score sentinel_scores ''ndvi'')))]
     @ link_if_positive ''sentinel_nbr'' (snd (get_score sentinel_scores ''nbr''))
        (fst (get_score sentinel_scores ''nbr''))
        [(''score'', JNum (fst (get_score sentinel_scores ''nbr'')))]
     @ link_if_positive ''sentinel_burn'' (snd (get_score sentinel_scores ''burn''))
        (fst (get_score sentinel_scores ''burn''))
        [(''score'', JNum (fst (get_score sentinel_scores ''burn'')))]
     @ link_if_positive ''alert_density'' density_explanation density_score
        [(''score'', JNum density_score)]
     @ link_if_positive ''sentiment_negative'' sentiment_explanation sentiment_score
        [(''score'', JNum sentiment_score)]"

text \<open>A company known by its name only, and imagery scores that are all 1.\<close>

definition example_company :: "string \<Rightarrow> Company" where
  "example_company n =
     \<lparr>company_name = n, lei = None, country = None, jurisdiction = None, parent_name = None,
      parent_lei = None, status = None, match_score = None, company_source = ''gleif''\<rparr>"

definition full_sentinel_scores :: "(string \<times> real \<times> message) list" where
  "full_sentinel_scores =
     [(''ndvi'', 1, VeryLowNdvi (- 1)), (''nbr'', 1, NegativeNbr (- 1)),
      (''burn'', 1, HighBurn 1)]"

text \<open>
  The temporal score in terms of its matches: the (fire time, alert time) pairs, in the
  order of the loops, whose difference in days is within the window; the strength of a
  match as the specification gives it; and the detail the loop records for a match.
\<close>

definition days_between :: "datetime \<Rightarrow> datetime \<Rightarrow> int" where
  "days_between fire_time alert_time = \<bar>timedelta_days (fire_time - alert_time)\<bar>"

definition fire_matches :: "int \<Rightarrow> datetime \<Rightarrow> alert list \<Rightarrow> (datetime \<times> datetime) list" where
  "fire_matches window_days fire_time alerts =
     concat (map (\<lambda>a. case alert_date a of
                          None \<Rightarrow> []
                        | Some alert_time \<Rightarrow>
                            if days_between fire_time alert_time \<le> window_days
                            then [(fire_time, alert_time)] else [])
               alerts)"

definition temporal_matches ::
  "FireEvent list \<Rightarrow> alert list \<Rightarrow> int \<Rightarrow> (datetime \<times> datetime) list" where
  "temporal_matches fires alerts window_days =
     concat (map (\<lambda>f. fire_matches window_days (acquisition_time f) alerts) fires)"

definition match_strength :: "int \<Rightarrow> datetime \<times> datetime \<Rightarrow> real" where
  "match_strength window_days m =
     1 - of_int (days_between (fst m) (snd m)) / of_int window_days"

definition match_detail :: "int \<Rightarrow> datetime \<times> datetime \<Rightarrow> temporal_detail" where
  "match_detail window_days m =
     \<lparr>td_fire_date = fst m, td_alert_date = snd m,
      days_apart = days_between (fst m) (snd m),
      correlation_strength = py_round (match_strength window_days m) 2\<rparr>"


text \<open>The score over the strengths rounded to two decimals, as the details store them.\<close>

definition rounded_temporal_score :: "FireEvent list \<Rightarrow> alert list \<Rightarrow> int \<Rightarrow> real" where
  "rounded_temporal_score fires alerts window_days =
     (let ms = temporal_matches fires alerts window_days
      in if ms = [] then 0
         else min 1 (sum_list (map (\<lambda>m. py_round (match_strength window_days m) 2) ms)
                       / of_nat (length ms)
                     + min (3 / 10) (5 / 100 * of_nat (length ms))))"

text \<open>
  The result of \<open>correlate_events\<close> in closed form: the alerts and the scores of the whole
  area, the chain of a suspect as a value, and the confidence of the run.
\<close>

definition aoi_deforestation :: "GLADAlert list \<Rightarrow> RADDAlert list \<Rightarrow> alert list" where
  "aoi_deforestation glad_alerts radd_alerts = map Glad glad_alerts @ map Radd radd_alerts"

definition aoi_alerts :: "GLADAlert list \<Rightarrow> RADDAlert list \<Rightarrow> FireEvent list \<Rightarrow> alert list" where
  "aoi_alerts glad_alerts radd_alerts fires =
     aoi_deforestation glad_alerts radd_alerts @ map Fire fires"

definition aoi_spatial ::
  "InfrastructureNode list \<Rightarrow> GLADAlert list \<Rightarrow> RADDAlert list \<Rightarrow> FireEvent list
     \<Rightarrow> real \<times> proximity_detail list" where
  "aoi_spatial infrastructure glad_alerts radd_alerts fires =
     calculate_spatial_proximity_score infrastructure (aoi_alerts glad_alerts radd_alerts fires)
       (of_int MAX_PROXIMITY_DISTANCE_M)"

definition aoi_temporal ::
  "GLADAlert list \<Rightarrow> RADDAlert list \<Rightarrow> FireEvent list \<Rightarrow> real \<times> temporal_detail list" where
  "aoi_temporal glad_alerts radd_alerts fires =
     (rounded_temporal_score fires (aoi_deforestation glad_alerts radd_alerts)
        TEMPORAL_WINDOW_DAYS,
      map (match_detail TEMPORAL_WINDOW_DAYS)
        (temporal_matches fires (aoi_deforestation glad_alerts radd_alerts)
           TEMPORAL_WINDOW_DAYS))"

definition chain_value ::
  "Company \<Rightarrow> real \<times> proximity_detail list \<Rightarrow> real \<times> temporal_detail list
     \<Rightarrow> (string \<times> real \<times> message) list \<Rightarrow> real \<times> message \<Rightarrow> real \<times> message
     \<Rightarrow> EvidenceChain" where
  "chain_value s sp tp ss dn sn =
     \<lparr>suspect = s,
      links = chain_links (fst sp) (snd sp) (fst tp) (snd tp) ss (fst dn) (snd dn)
                (fst sn) (snd sn),
      total_weight =
        py_round (sum_list (map weight
          (chain_links (fst sp) (snd sp) (fst tp) (snd tp) ss (fst dn) (snd dn)
             (fst sn) (snd sn)))) 3,
      summary = build_summary s (fst sp) (fst tp) (fst (get_score ss ''ndvi'')) (fst sn)\<rparr>"

text \<open>Exact equality of the suspect's name with the node's name, operator or company.\<close>

definition name_matches :: "Company \<Rightarrow> InfrastructureNode \<Rightarrow> bool" where
  "name_matches s n =
     (infra_name n = Some (company_name s)
      \<or> tags n ''operator'' = Some (company_name s)
      \<or> tags n ''company'' = Some (company_name s))"

definition run_spatial ::
  "InfrastructureNode list \<Rightarrow> GLADAlert list \<Rightarrow> RADDAlert list \<Rightarrow> FireEvent list \<Rightarrow> Company
     \<Rightarrow> real \<times> proximity_detail list" where
  "run_spatial infrastructure glad_alerts radd_alerts fires s =
     (if filter (name_matches s) infrastructure \<noteq> []
      then calculate_spatial_proximity_score (filter (name_matches s) infrastructure)
             (aoi_alerts glad_alerts radd_alerts fires) (of_int MAX_PROXIMITY_DISTANCE_M)
      else (fst (aoi_spatial infrastructure glad_alerts radd_alerts fires) * (5 / 10),
            snd (aoi_spatial infrastructure glad_alerts radd_alerts fires)))"

definition run_chain ::
  "real \<times> real \<times> real \<times> real \<Rightarrow> GLADAlert list \<Rightarrow> RADDAlert list \<Rightarrow> FireEvent list
     \<Rightarrow> SentinelEvidence option \<Rightarrow> InfrastructureNode list \<Rightarrow> CombinedSentiment option
     \<Rightarrow> Company \<Rightarrow> EvidenceChain" where
  "run_chain aoi glad_alerts radd_alerts fires sen infrastructure sent s =
     chain_value s (run_spatial infrastructure glad_alerts radd_alerts fires s)
       (aoi_temporal glad_alerts radd_alerts fires) (calculate_sentinel_scores sen)
       (calculate_alert_density_score glad_alerts radd_alerts fires aoi)
       (calculate_sentiment_score sent)"

definition run_base ::
  "real \<times> real \<times> real \<times> real \<Rightarrow> HansenStats option \<Rightarrow> GLADAlert list \<Rightarrow> RADDAlert list
     \<Rightarrow> FireEvent list \<Rightarrow> SentinelEvidence option \<Rightarrow> InfrastructureNode list
     \<Rightarrow> CombinedSentiment option \<Rightarrow> real" where
  "run_base aoi hs glad_alerts radd_alerts fires sen infrastructure sent =
     base_confidence
       (presence_bonus hs glad_alerts radd_alerts fires sen infrastructure sent)
       (fst (aoi_spatial infrastructure glad_alerts radd_alerts fires))
       (fst (aoi_temporal glad_alerts radd_alerts fires))
       (fst (calculate_alert_density_score glad_alerts radd_alerts fires aoi))
       (calculate_sentinel_scores sen)"

text \<open>
  A bundle in which every signal is present and every category score is 1: one node and
  twenty-five alerts and a fire at the same place and time, in a box of about 5 square
  kilometres at the equator.
\<close>

definition full_box :: "real \<times> real \<times> real \<times> real" where
  "full_box = (- (1 / 100), - (1 / 100), 1 / 100, 1 / 100)"

definition full_hansen :: HansenStats where
  "full_hansen =
     \<lparr>total_loss_ha = 100, loss_by_year = Map.empty, tree_cover_2000_ha = None,
      tree_cover_percent = None\<rparr>"

definition full_glad :: "GLADAlert list" where
  "full_glad = replicate 25 (example_glad 0)"

definition full_sentinel :: SentinelEvidence where
  "full_sentinel =
     \<lparr>ndvi = Some (- (1 / 2)), ndvi_change = None, nbr = Some (- (6 / 10)),
      nbr_change = None, burn_index = Some (8 / 10), truecolor_url = None,
      acquisition_date = None, cloud_coverage = None\<rparr>"

definition example_sentiment :: CombinedSentiment where
  "example_sentiment =
     \<lparr>google = None, gdelt = None, reddit = None, final_score = - (6 / 10),
      confidence = 8 / 10, dominant_narrative = Some ''deforestation''\<rparr>"

text \<open>An imagery signal whose NDVI is present and equal to 0.\<close>

definition zero_ndvi_sentinel :: SentinelEvidence where
  "zero_ndvi_sentinel =
     \<lparr>ndvi = Some 0, ndvi_change = None, nbr = None, nbr_change = None,
      burn_index = None, truecolor_url = None, acquisition_date = None,
      cloud_coverage = None\<rparr>"

text \<open>
  A run with three suspects, of which only the second owns the one node of the area: one
  alert at the node, in a box of one degree around the equator.
\<close>

definition example_box :: "real \<times> real \<times> real \<times> real" where
  "example_box = (- (1 / 2), - (1 / 2), 1 / 2, 1 / 2)"

definition example_suspects :: "Company list" where
  "example_suspects =
     [example_company ''Acme'', example_company ''Test Factory'', example_company ''Zenith'']"

text \<open>
  The combined sentiment as the specification words it, in exact real arithmetic: the
  sources with samples, each with its weight; the weight-normalised average of their
  polarities; the number of samples; and the confidence.
  A \<open>SentimentScore\<close> is valid when it meets the constraints of its pydantic model.
\<close>

definition valid_sentiment :: "SentimentScore option \<Rightarrow> bool" where
  "valid_sentiment s =
     (case s of None \<Rightarrow> True | Some sc \<Rightarrow> 0 \<le> count sc \<and> - 1 \<le> score sc \<and> score sc \<le> 1)"

definition present_of :: "(real \<times> SentimentScore option) list \<Rightarrow> (real \<times> SentimentScore) list" where
  "present_of srcs =
     concat (map (\<lambda>ws. case snd ws of
                           None \<Rightarrow> []
                         | Some sc \<Rightarrow> if 0 < count sc then [(fst ws, sc)] else [])
               srcs)"

definition present_sources ::
  "SentimentScore option \<Rightarrow> SentimentScore option \<Rightarrow> SentimentScore option
     \<Rightarrow> (real \<times> SentimentScore) list" where
  "present_sources g d r = present_of [(5 / 10, g), (3 / 10, d), (2 / 10, r)]"

definition spec_final_polarity ::
  "SentimentScore option \<Rightarrow> SentimentScore option \<Rightarrow> SentimentScore option \<Rightarrow> real" where
  "spec_final_polarity g d r =
     (let ps = present_sources g d r
      in if ps = [] then 0
         else sum_list (map (\<lambda>p. fst p * score (snd p)) ps) / sum_list (map fst ps))"

definition total_samples ::
  "SentimentScore option \<Rightarrow> SentimentScore option \<Rightarrow> SentimentScore option \<Rightarrow> int" where
  "total_samples g d r = sum_list (map (\<lambda>p. count (snd p)) (present_sources g d r))"

definition spec_confidence ::
  "SentimentScore option \<Rightarrow> SentimentScore option \<Rightarrow> SentimentScore option \<Rightarrow> real" where
  "spec_confidence g d r =
     (let ps = present_sources g d r
      in 6 / 10 * min 1 (of_int (sum_list (map (\<lambda>p. count (snd p)) ps)) / 50)
         + 4 / 10 * (of_nat (length ps) / 3))"

text \<open>
  The unit roundoff of binary64: the greatest rounding error of \<open>double_of\<close> on a
  number of magnitude at most 1.
\<close>

definition unit_roundoff :: real where
  "unit_roundoff = 1 / 2 ^ 53"

text \<open>The sub-signals of the unit tests.\<close>

definition sentiment_of :: "int \<Rightarrow> real \<Rightarrow> string list \<Rightarrow> SentimentScore" where
  "sentiment_of n p ks = \<lparr>count = n, score = p, keyword_list = ks, sample_titles = []\<rparr>"

text \<open>
  The stages of \<open>get_dossier\<close>, each as the value it reads and the error list (and
  coverage notes) it leaves, in the order of the source.
\<close>

definition stage_hansen :: "collaborators \<Rightarrow> HansenStats option \<times> SourceError list" where
  "stage_hansen env = process_result ''hansen_gfc'' (hansen_task env) (utcnow env) []"

definition stage_firms :: "collaborators \<Rightarrow> FireEvent list option \<times> SourceError list" where
  "stage_firms env =
     process_result ''firms'' (firms_task env) (utcnow env) (snd (stage_hansen env))"

definition stage_glad ::
  "collaborators \<Rightarrow> GLADAlert list option \<times> SourceError list \<times> CoverageNote list" where
  "stage_glad env =
     process_alert_result ''gfw_glad'' (glad_task env) (utcnow env) (snd (stage_firms env)) []"

definition stage_radd ::
  "collaborators \<Rightarrow> RADDAlert list option \<times> SourceError list \<times> CoverageNote list" where
  "stage_radd env =
     process_alert_result ''gfw_radd'' (radd_task env) (utcnow env)
       (fst (snd (stage_glad env))) (snd (snd (stage_glad env)))"

definition stage_sentinel :: "collaborators \<Rightarrow> SentinelEvidence option \<times> SourceError list" where
  "stage_sentinel env =
     process_result ''sentinel_hub'' (sentinel_task env) (utcnow env)
       (fst (snd (stage_radd env)))"

definition stage_infra ::
  "collaborators \<Rightarrow> InfrastructureNode list option \<times> SourceError list" where
  "stage_infra env =
     process_result ''overpass'' (infra_task env) (utcnow env) (snd (stage_sentinel env))"

definition stage_enrich :: "collaborators \<Rightarrow> Company list \<times> SourceError list" where
  "stage_enrich env =
     (if or_empty (fst (stage_infra env)) \<noteq> []
      then (case enrich_infrastructure_companies env (or_empty (fst (stage_infra env))) of
              Inl ex \<Rightarrow> ([], snd (stage_infra env)
                               @ [create_source_error ''gleif'' ex True (utcnow env)])
            | Inr cs \<Rightarrow> (cs, snd (stage_infra env)))
      else ([], snd (stage_infra env)))"

definition stage_sentiment :: "collaborators \<Rightarrow> CombinedSentiment option \<times> SourceError list" where
  "stage_sentiment env =
     (case fetch_all_sentiment env of
        Inl ex \<Rightarrow>
          (None, snd (stage_enrich env)
                   @ [create_source_error ''sentiment'' ex True (utcnow env)])
      | Inr (combined, sentiment_errors) \<Rightarrow>
          (Some combined, snd (stage_enrich env) @ sentiment_errors))"

text \<open>The two dates of a request parse, where they are given.\<close>

definition dates_parse :: "collaborators \<Rightarrow> string option \<Rightarrow> string option \<Rightarrow> bool" where
  "dates_parse env start_date end_date =
     ((if truthy_str end_date
       then (case fromisoformat env (the end_date) of Inl e \<Rightarrow> False | Inr t \<Rightarrow> True)
       else True)
      \<and> (if truthy_str start_date
          then (case fromisoformat env (the start_date) of Inl e \<Rightarrow> False | Inr t \<Rightarrow> True)
          else True))"

text \<open>
  A request in which every collaborator returns no data and no error, but the GLAD
  task has caught an exception whose message is empty and returns it as its error.
\<close>

definition ok_result :: "'a option \<Rightarrow> 'a task_outcome" where
  "ok_result v = Returned \<lparr>r_data = v, r_error = None, r_skipped = False, r_skip_reason = None\<rparr>"

definition empty_sentiment :: CombinedSentiment where
  "empty_sentiment =
     \<lparr>google = None, gdelt = None, reddit = None, final_score = 0, confidence = 0,
      dominant_narrative = None\<rparr>"

definition quiet_env :: collaborators where
  "quiet_env =
     \<lparr>py_float = (\<lambda>s. None),
      fromisoformat = (\<lambda>s. Inl (Exn ''ValueError'' ''Invalid isoformat string'')),
      utcnow = 0,
      hansen_task = ok_result None,
      firms_task = ok_result (Some []),
      glad_task = ok_result (Some []),
      radd_task = ok_result (Some []),
      sentinel_task = ok_result None,
      infra_task = ok_result (Some []),
      enrich_infrastructure_companies = (\<lambda>nodes. Inr []),
      fetch_all_sentiment = Inr (empty_sentiment, [])\<rparr>"

definition empty_error_env :: collaborators where
  "empty_error_env =
     quiet_env\<lparr>glad_task :=
       Returned \<lparr>r_data = Some [], r_error = Some [], r_skipped = False,
                 r_skip_reason = None\<rparr>\<rparr>"

definition raising_env :: collaborators where
  "raising_env =
     quiet_env\<lparr>hansen_task := Raised (Exn ''TimeoutError'' ''timed out''),
               glad_task :=
                 Returned \<lparr>r_data = Some [], r_error = Some ''GFW_API_KEY not configured'',
                           r_skipped = False, r_skip_reason = None\<rparr>\<rparr>"

text \<open>
  A task has failed, as \<open>get_dossier\<close> reads it: it raised, or the dictionary it returned
  has a truthy \<open>error\<close> (for GLAD and RADD a skip is read first).
\<close>

definition task_failed :: "'a task_outcome \<Rightarrow> bool" where
  "task_failed t = (case t of Raised e \<Rightarrow> True | Returned r \<Rightarrow> truthy_str (r_error r))"

definition alert_task_failed :: "'a task_outcome \<Rightarrow> bool" where
  "alert_task_failed t =
     (case t of Raised e \<Rightarrow> True
      | Returned r \<Rightarrow> if r_skipped r then False else truthy_str (r_error r))"

section \<open>Rounding\<close>

lemma round_half_even_ge: "of_int k \<le> x \<Longrightarrow> k \<le> round_half_even x"
proof -
  assume "of_int k \<le> x"
  then have "k \<le> \<lfloor>x\<rfloor>" by (simp add: le_floor_iff)
  then show ?thesis unfolding round_half_even_def Let_def by auto
qed

lemma round_half_even_le: "x \<le> of_int k \<Longrightarrow> round_half_even x \<le> k"
  unfolding round_half_even_def Let_def
  by (auto; linarith)

lemma py_round_ge: "of_int k \<le> x \<Longrightarrow> of_int k \<le> py_round x n"
proof -
  assume h: "of_int k \<le> x"
  have "of_int (k * 10 ^ n) \<le> x * 10 ^ n" using h by (simp add: mult_right_mono)
  then have "k * 10 ^ n \<le> round_half_even (x * 10 ^ n)" by (rule round_half_even_ge)
  then have "(of_int (k * 10 ^ n) :: real) \<le> of_int (round_half_even (x * 10 ^ n))"
    by (simp only: of_int_le_iff)
  then show ?thesis unfolding py_round_def by (simp add: pos_le_divide_eq)
qed

lemma py_round_le: "x \<le> of_int k \<Longrightarrow> py_round x n \<le> of_int k"
proof -
  assume h: "x \<le> of_int k"
  have "x * 10 ^ n \<le> of_int (k * 10 ^ n)" using h by (simp add: mult_right_mono)
  then have "round_half_even (x * 10 ^ n) \<le> k * 10 ^ n" by (rule round_half_even_le)
  then have "(of_int (round_half_even (x * 10 ^ n)) :: real) \<le> of_int (k * 10 ^ n)"
    by (simp only: of_int_le_iff)
  then show ?thesis unfolding py_round_def by (simp add: pos_divide_le_eq)
qed

section \<open>Binary64 arithmetic\<close>

lemma round_half_even_error: "\<bar>of_int (round_half_even y) - y\<bar> \<le> 1 / 2"
  unfolding round_half_even_def Let_def by (auto; linarith)

lemma binary_exponent_bounds:
  "x \<noteq> 0 \<Longrightarrow> 2 powi binary_exponent x \<le> \<bar>x\<bar> \<and> \<bar>x\<bar> < 2 powi (binary_exponent x + 1)"
proof (induction x rule: binary_exponent.induct)
  case (1 x)
  show ?case
  proof (cases "2 \<le> \<bar>x\<bar>")
    case True
    then have e: "binary_exponent x = binary_exponent (x / 2) + 1"
      using 1(3) by (subst binary_exponent.simps) simp
    have "2 powi binary_exponent (x / 2) \<le> \<bar>x / 2\<bar>
        \<and> \<bar>x / 2\<bar> < 2 powi (binary_exponent (x / 2) + 1)"
      using 1(1) 1(3) True by simp
    then show ?thesis
      unfolding e by (simp add: power_int_add)
  next
    case False
    show ?thesis
    proof (cases "\<bar>x\<bar> < 1")
      case True
      then have e: "binary_exponent x = binary_exponent (x * 2) - 1"
        using 1(3) False by (subst binary_exponent.simps) simp
      have "2 powi binary_exponent (x * 2) \<le> \<bar>x * 2\<bar>
          \<and> \<bar>x * 2\<bar> < 2 powi (binary_exponent (x * 2) + 1)"
        using 1(2) 1(3) False True by simp
      then show ?thesis
        unfolding e by (simp add: power_int_add power_int_diff abs_mult)
    next
      case n: False
      then have e: "binary_exponent x = 0"
        using 1(3) False by (subst binary_exponent.simps) simp
      show ?thesis unfolding e using False n by simp
    qed
  qed
qed

lemma power_two_le_imp_le:
  fixes a b :: int
  assumes "(2 :: real) powi a < 2 powi (b + 1)"
  shows "a \<le> b"
proof (rule ccontr)
  assume "\<not> a \<le> b"
  then have "b + 1 \<le> a" by simp
  then have "(2 :: real) powi (b + 1) \<le> 2 powi a" by (intro power_int_increasing) simp_all
  with assms show False by simp
qed

lemma binary_exponent_le:
  assumes "x \<noteq> 0" and "\<bar>x\<bar> \<le> 2 powi k"
  shows "binary_exponent x \<le> k"
proof -
  have "2 powi binary_exponent x \<le> \<bar>x\<bar>" using binary_exponent_bounds [OF assms(1)] by simp
  also have "\<dots> \<le> 2 powi k" by (rule assms(2))
  also have "\<dots> < 2 powi (k + 1)" by (simp add: power_int_add)
  finally show ?thesis by (rule power_two_le_imp_le)
qed

lemma binary_exponent_ge:
  assumes "x \<noteq> 0" and "2 powi k \<le> \<bar>x\<bar>"
  shows "k \<le> binary_exponent x"
proof -
  have "2 powi k \<le> \<bar>x\<bar>" by (rule assms(2))
  also have "\<dots> < 2 powi (binary_exponent x + 1)"
    using binary_exponent_bounds [OF assms(1)] by simp
  finally show ?thesis by (rule power_two_le_imp_le)
qed

lemma double_of_zero: "double_of 0 = 0"
  by (simp add: double_of_def round_half_even_def)

lemma double_of_nonneg: "0 \<le> x \<Longrightarrow> 0 \<le> double_of x"
proof -
  assume h: "0 \<le> x"
  have "0 \<le> round_half_even (x / 2 powi (max (binary_exponent x) (- 1022) - 52))"
    using h by (intro round_half_even_ge) simp
  then show ?thesis by (simp add: double_of_def Let_def)
qed

lemma double_of_error:
  assumes "\<bar>x\<bar> \<le> 2 powi k" and "- 1022 \<le> k"
  shows "\<bar>double_of x - x\<bar> \<le> 2 powi (k - 53)"
proof (cases "x = 0")
  case True
  then show ?thesis by (simp add: double_of_zero)
next
  case False
  define e where "e = max (binary_exponent x) (- 1022) - 52"
  define q :: real where "q = 2 powi e"
  have q: "0 < q" by (simp add: q_def)
  have e: "e - 1 \<le> k - 53"
    using binary_exponent_le [OF False assms(1)] assms(2) by (simp add: e_def)
  have "double_of x - x = (of_int (round_half_even (x / q)) - x / q) * q"
    using q by (simp add: double_of_def Let_def e_def q_def field_simps)
  then have "\<bar>double_of x - x\<bar> = \<bar>of_int (round_half_even (x / q)) - x / q\<bar> * q"
    using q by (simp add: abs_mult)
  also have "\<dots> \<le> 1 / 2 * q"
    using q round_half_even_error [of "x / q"] by (intro mult_right_mono) simp_all
  also have "\<dots> = 2 powi (e - 1)" by (simp add: q_def power_int_diff)
  also have "\<dots> \<le> 2 powi (k - 53)" using e by (intro power_int_increasing) simp_all
  finally show ?thesis .
qed

lemma double_of_bound:
  assumes "\<bar>x\<bar> \<le> 2 powi k" and "- 1022 \<le> k"
  shows "\<bar>double_of x\<bar> \<le> 2 powi k"
proof (cases "x = 0")
  case True
  then show ?thesis by (simp add: double_of_zero)
next
  case False
  define e where "e = max (binary_exponent x) (- 1022) - 52"
  define q :: real where "q = 2 powi e"
  define n :: int where "n = 2 ^ nat (k - e)"
  have q: "0 < q" by (simp add: q_def)
  have e: "e \<le> k"
    using binary_exponent_le [OF False assms(1)] assms(2) by (simp add: e_def)
  have n: "of_int n * q = 2 powi k"
  proof -
    have "(of_int n :: real) = 2 powi (k - e)"
      using e by (simp add: n_def power_int_def)
    then show ?thesis by (simp add: q_def power_int_diff)
  qed
  have "\<bar>x / q\<bar> \<le> of_int n"
    using assms(1) q n by (simp add: field_simps)
  then have b: "x / q \<le> of_int n" "of_int (- n) \<le> x / q"
    unfolding abs_le_iff by simp_all
  have "round_half_even (x / q) \<le> n" "- n \<le> round_half_even (x / q)"
    by (rule round_half_even_le [OF b(1)], rule round_half_even_ge [OF b(2)])
  then have "\<bar>round_half_even (x / q)\<bar> \<le> n" by simp
  then have "\<bar>real_of_int (round_half_even (x / q))\<bar> \<le> of_int n"
    by (metis of_int_abs of_int_le_iff)
  then have "\<bar>real_of_int (round_half_even (x / q))\<bar> * q \<le> of_int n * q"
    using q by (intro mult_right_mono) simp_all
  then show ?thesis
    using q unfolding n by (simp add: double_of_def Let_def e_def q_def abs_mult)
qed

lemma double_of_ge_one:
  assumes "1 \<le> x"
  shows "1 \<le> double_of x"
proof -
  have x: "x \<noteq> 0" "\<bar>x\<bar> = x" using assms by simp_all
  define b where "b = binary_exponent x"
  have b: "0 \<le> b" using binary_exponent_ge [of x 0] x assms by (simp add: b_def)
  define q :: real where "q = 2 powi (b - 52)"
  have q: "0 < q" by (simp add: q_def)
  have m: "max (binary_exponent x) (- 1022) - 52 = b - 52" using b by (simp add: b_def)
  have "2 powi b \<le> x" using binary_exponent_bounds [OF x(1)] x(2) by (simp add: b_def)
  then have "of_int (2 ^ 52) \<le> x / q"
    using q by (simp add: q_def power_int_diff field_simps)
  then have "2 ^ 52 \<le> round_half_even (x / q)" by (rule round_half_even_ge)
  then have "(of_int (2 ^ 52) :: real) \<le> of_int (round_half_even (x / q))"
    by (simp only: of_int_le_iff)
  then have r: "of_int (2 ^ 52) * q \<le> of_int (round_half_even (x / q)) * q"
    using q by (intro mult_right_mono) simp_all
  have "(1 :: real) \<le> 2 powi b" using b by (simp add: one_le_power_int)
  also have "\<dots> = of_int (2 ^ 52) * q" by (simp add: q_def power_int_diff)
  also have "\<dots> \<le> of_int (round_half_even (x / q)) * q" by (rule r)
  also have "\<dots> = double_of x" by (simp add: double_of_def Let_def m q_def)
  finally show ?thesis .
qed

lemma double_of_one: "double_of 1 = 1"
  by (simp add: double_of_def binary_exponent.simps round_half_even_def)

lemma double_of_half: "double_of (5 / 10) = 1 / 2"
  by (simp add: double_of_def binary_exponent.simps round_half_even_def)

lemma unit_roundoff_bounds: "0 < unit_roundoff" "unit_roundoff \<le> 1 / 10 ^ 15"
  by (simp_all add: unit_roundoff_def)

lemma double_of_unit:
  assumes "\<bar>x\<bar> \<le> 1"
  shows "\<bar>double_of x - x\<bar> \<le> unit_roundoff" and "\<bar>double_of x\<bar> \<le> 1"
  using double_of_error [of x 0] double_of_bound [of x 0] assms
  by (simp_all add: unit_roundoff_def)

lemma double_of_two:
  assumes "\<bar>x\<bar> \<le> 2"
  shows "\<bar>double_of x - x\<bar> \<le> 2 * unit_roundoff"
  using double_of_error [of x 1] assms by (simp add: unit_roundoff_def)

section \<open>Great-circle distance\<close>

lemma cosine_rule_range:
  fixes p1 p2 l :: real
  shows "\<bar>sin p1 * sin p2 + cos p1 * cos p2 * cos l\<bar> \<le> 1"
proof -
  define t where "t = (1 + cos l) / 2"
  define x where "x = sin p1 * sin p2 + cos p1 * cos p2 * cos l"
  have "0 \<le> 1 + cos l" "1 + cos l \<le> 2"
    using cos_ge_minus_one [of l] cos_le_one [of l] by linarith+
  then have t: "0 \<le> t" "0 \<le> 1 - t" by (simp_all add: t_def)
  have n: "0 \<le> 1 - cos y" "0 \<le> 1 + cos y" for y :: real
    using cos_ge_minus_one [of y] cos_le_one [of y] by linarith+
  have u: "1 - x = t * (1 - cos (p1 - p2)) + (1 - t) * (1 + cos (p1 + p2))"
    by (simp add: x_def t_def cos_diff cos_add field_simps)
  have l: "1 + x = t * (1 + cos (p1 - p2)) + (1 - t) * (1 - cos (p1 + p2))"
    by (simp add: x_def t_def cos_diff cos_add field_simps)
  have "0 \<le> 1 - x"
    unfolding u
    by (rule add_nonneg_nonneg) (rule mult_nonneg_nonneg [OF t(1) n(1)],
      rule mult_nonneg_nonneg [OF t(2) n(2)])
  moreover have "0 \<le> 1 + x"
    unfolding l
    by (rule add_nonneg_nonneg) (rule mult_nonneg_nonneg [OF t(1) n(2)],
      rule mult_nonneg_nonneg [OF t(2) n(1)])
  ultimately have "\<bar>x\<bar> \<le> 1" by linarith
  then show ?thesis by (simp only: x_def)
qed

lemma haversine_term:
  fixes p1 p2 l :: real
  shows "(sin ((p2 - p1) / 2))\<^sup>2 + cos p1 * cos p2 * (sin (l / 2))\<^sup>2 =
     (1 - (sin p1 * sin p2 + cos p1 * cos p2 * cos l)) / 2"
proof -
  have h: "(sin (x / 2))\<^sup>2 = (1 - cos x) / 2" for x :: real
    using cos_double_sin [of "x / 2"] by simp
  show ?thesis
    by (simp add: h cos_diff field_simps)
qed

lemma atan2_half_angle:
  assumes "0 \<le> h" and "h \<le> pi / 2"
  shows "atan2 (sin h) (cos h) = h"
proof (cases "h = pi / 2")
  case True
  show ?thesis unfolding True by (simp add: atan2_def)
next
  case False
  then have r: "- (pi / 2) < h" "h < pi / 2" using assms by simp_all
  then have "0 < cos h" by (rule cos_gt_zero_pi)
  then have "atan2 (sin h) (cos h) = arctan (tan h)" by (simp add: atan2_def tan_def)
  also have "\<dots> = h" using r by (rule arctan_tan)
  finally show ?thesis .
qed

lemma haversine_central_angle:
  "2 * atan2 (sqrt ((sin ((p2 - p1) / 2))\<^sup>2 + cos p1 * cos p2 * (sin ((l2 - l1) / 2))\<^sup>2))
         (sqrt (1 - ((sin ((p2 - p1) / 2))\<^sup>2 + cos p1 * cos p2 * (sin ((l2 - l1) / 2))\<^sup>2)))
   = central_angle p1 l1 p2 l2"
proof -
  define x where "x = sin p1 * sin p2 + cos p1 * cos p2 * cos (l2 - l1)"
  define h where "h = arccos x / 2"
  have x: "- 1 \<le> x" "x \<le> 1"
    using cosine_rule_range [of p1 p2 "l2 - l1"] by (simp_all add: x_def abs_le_iff)
  have h: "0 \<le> h" "h \<le> pi / 2"
    using arccos_lbound [OF x] arccos_ubound [OF x] by (simp_all add: h_def)
  have c: "cos (2 * h) = x" using x by (simp add: h_def)
  have s: "0 \<le> sin h" using h by (intro sin_ge_zero) simp_all
  have k: "0 \<le> cos h" using h by (intro cos_ge_zero) simp_all
  have a: "(sin ((p2 - p1) / 2))\<^sup>2 + cos p1 * cos p2 * (sin ((l2 - l1) / 2))\<^sup>2 = (sin h)\<^sup>2"
    unfolding haversine_term x_def [symmetric]
    using cos_double_sin [of h] c by simp
  have b: "1 - (sin h)\<^sup>2 = (cos h)\<^sup>2"
    by (simp add: cos_squared_eq)
  show ?thesis
    unfolding a b central_angle_def x_def [symmetric]
    using s k atan2_half_angle [OF h] by (simp add: h_def)
qed

lemma haversine_is_great_circle:
  "haversine_distance lat1 lon1 lat2 lon2 = great_circle_distance lat1 lon1 lat2 lon2"
  unfolding haversine_distance_def great_circle_distance_def Let_def
  by (simp only: haversine_central_angle)

lemma near_point:
  "great_circle_distance 0 0 (1 / 1000) (1 / 1000) \<le> 5000"
proof -
  define e where "e = pi / 180000"
  define t :: real where "t = 5000 / 6371000"
  have e: "0 \<le> 2 * e" "2 * e \<le> t" "t \<le> pi"
    using pi_gt_zero pi_less_4 pi_ge_two by (simp_all add: e_def t_def)
  have "cos t \<le> cos (2 * e)" using e by (intro cos_monotone_0_pi_le) simp_all
  also have "\<dots> = 2 * (cos e)\<^sup>2 - 1" by (rule cos_double_cos)
  also have "\<dots> \<le> (cos e)\<^sup>2"
  proof -
    have "(cos e)\<^sup>2 \<le> 1" by (simp add: abs_square_le_1)
    then show ?thesis by simp
  qed
  finally have m: "cos t \<le> (cos e)\<^sup>2" .
  have u: "(cos e)\<^sup>2 \<le> 1" by (simp add: abs_square_le_1)
  have "arccos ((cos e)\<^sup>2) \<le> arccos (cos t)"
    using m u by (intro arccos_le_arccos) simp_all
  also have "\<dots> = t" using e by (intro arccos_cos) simp_all
  finally have "arccos ((cos e)\<^sup>2) \<le> t" .
  then show ?thesis
    by (simp add: great_circle_distance_def central_angle_def radians_def e_def t_def
        power2_eq_square)
qed

lemma far_point:
  "5000 < great_circle_distance 0 0 10 10"
proof -
  define e where "e = pi / 18"
  define t :: real where "t = 5000 / 6371000"
  have e: "0 \<le> t" "t < e" "e \<le> pi"
    using pi_gt_zero pi_ge_two by (simp_all add: e_def t_def)
  have k: "0 \<le> cos e" using e pi_gt_zero by (intro cos_ge_zero) (simp_all add: e_def)
  have "cos e * cos e \<le> 1 * cos e"
    using k cos_le_one [of e] by (intro mult_right_mono)
  then have "(cos e)\<^sup>2 \<le> cos e" by (simp add: power2_eq_square)
  also have "\<dots> < cos t" using e by (intro cos_monotone_0_pi) simp_all
  finally have m: "(cos e)\<^sup>2 < cos t" .
  have "- 1 \<le> (cos e)\<^sup>2"
    using zero_le_power2 [of "cos e"] by linarith
  then have "arccos (cos t) < arccos ((cos e)\<^sup>2)"
    using m by (intro arccos_less_arccos) simp_all
  moreover have "arccos (cos t) = t" using e by (intro arccos_cos) simp_all
  ultimately have "t < arccos ((cos e)\<^sup>2)" by simp
  then show ?thesis
    by (simp add: great_circle_distance_def central_angle_def radians_def e_def t_def
        power2_eq_square)
qed

lemma pole_distance: "great_circle_distance 0 0 90 0 = 6371000 * (pi / 2)"
  by (simp add: great_circle_distance_def central_angle_def radians_def)

section \<open>Spatial proximity score\<close>

lemma fold_proximity_step:
  "fold (proximity_step d node) alerts st =
     (fst st + int (length (filter (within_distance d node) alerts)),
      snd st @ map (\<lambda>a. \<lparr>pd_infrastructure = infrastructure_label node,
                          pd_infrastructure_type = node_type node,
                          pd_distance_m = py_round (haversine_distance (infra_latitude node)
                             (infra_longitude node) (alert_latitude a) (alert_longitude a)) 1,
                          pd_alert_type = alert_type_name a\<rparr>)
                 (filter (within_distance d node) alerts))"
  by (induction alerts arbitrary: st)
     (auto simp: proximity_step_def within_distance_def haversine_is_great_circle Let_def)

lemma fold_proximity_count:
  "fst (fold (\<lambda>node. fold (proximity_step d node) alerts) infrastructure st) =
     fst st + int (length (close_pairs infrastructure alerts d))"
  by (induction infrastructure arbitrary: st)
     (auto simp: close_pairs_def fold_proximity_step filter_map o_def)

lemma fold_proximity_length:
  "length (snd (fold (\<lambda>node. fold (proximity_step d node) alerts) infrastructure st)) =
     length (snd st) + length (close_pairs infrastructure alerts d)"
  by (induction infrastructure arbitrary: st)
     (auto simp: close_pairs_def fold_proximity_step filter_map o_def)

lemma product_Nil_right: "List.product xs [] = []"
  by (induction xs) auto

lemma code_curve_eq:
  "(if int n = 0 then 0
    else if int n < 5 then real_of_int (int n) * (15 / 100)
    else if int n < 10 then 6 / 10 + real_of_int (int n - 5) * (5 / 100)
    else min 1 (85 / 100 + real_of_int (int n - 10) * (1 / 100))) = spec_spatial_curve n"
  unfolding spec_spatial_curve_def by (cases "n = 0") auto

lemma spatial_score_curve:
  "fst (calculate_spatial_proximity_score infrastructure alerts d) =
     spec_spatial_curve (length (close_pairs infrastructure alerts d))"
proof (cases "infrastructure = [] \<or> alerts = []")
  case True
  then have "close_pairs infrastructure alerts d = []"
    by (auto simp: close_pairs_def product_Nil_right)
  with True show ?thesis
    by (simp add: calculate_spatial_proximity_score_def spec_spatial_curve_def)
next
  case False
  define n where "n = length (close_pairs infrastructure alerts d)"
  have "fst (calculate_spatial_proximity_score infrastructure alerts d) =
     (if int n = 0 then 0
      else if int n < 5 then real_of_int (int n) * (15 / 100)
      else if int n < 10 then 6 / 10 + real_of_int (int n - 5) * (5 / 100)
      else min 1 (85 / 100 + real_of_int (int n - 10) * (1 / 100)))"
    using False
    unfolding calculate_spatial_proximity_score_def Let_def fold_proximity_count n_def
    by simp
  then show ?thesis by (simp only: code_curve_eq n_def)
qed

lemma spatial_details_length:
  "length (snd (calculate_spatial_proximity_score infrastructure alerts d)) =
     length (close_pairs infrastructure alerts d)"
proof (cases "infrastructure = [] \<or> alerts = []")
  case True
  then have "close_pairs infrastructure alerts d = []"
    by (auto simp: close_pairs_def product_Nil_right)
  with True show ?thesis
    by (simp add: calculate_spatial_proximity_score_def)
next
  case False
  then show ?thesis
    by (simp add: calculate_spatial_proximity_score_def Let_def fold_proximity_length)
qed

lemma spec_spatial_curve_bounds: "0 \<le> spec_spatial_curve n \<and> spec_spatial_curve n \<le> 1"
proof -
  consider "n = 0" | "1 \<le> n \<and> n \<le> 4" | "5 \<le> n \<and> n \<le> 9" | "10 \<le> n"
    by linarith
  then show ?thesis
  proof cases
    case 1
    then show ?thesis by (simp add: spec_spatial_curve_def)
  next
    case 2
    then have r: "1 \<le> real n" "real n \<le> 4" by simp_all
    have "spec_spatial_curve n = real n * (15 / 100)"
      using 2 by (simp add: spec_spatial_curve_def)
    then show ?thesis using r by (simp add: field_simps)
  next
    case 3
    then have r: "5 \<le> real n" "real n \<le> 9" by simp_all
    have "spec_spatial_curve n = 6 / 10 + (real n - 5) * (5 / 100)"
      using 3 by (simp add: spec_spatial_curve_def)
    then show ?thesis using r by (simp add: field_simps)
  next
    case 4
    then have r: "10 \<le> real n" by simp
    have "spec_spatial_curve n = min 1 (85 / 100 + (real n - 10) * (1 / 100))"
      using 4 by (simp add: spec_spatial_curve_def)
    then show ?thesis using r by (simp add: field_simps)
  qed
qed

lemma spatial_score_bounds:
  "0 \<le> fst (calculate_spatial_proximity_score infrastructure alerts d)"
  "fst (calculate_spatial_proximity_score infrastructure alerts d) \<le> 1"
  by (simp_all add: spatial_score_curve spec_spatial_curve_bounds)

text \<open>
  C3: the spatial proximity score is the fixed piecewise curve of the number of
  (node, alert) pairs whose great-circle distance, on a sphere of radius 6371 km, is
  within the maximal distance; one detail is recorded per such pair, the score lies in
  [0,1], and an empty list of nodes or of alerts gives score 0 with no details.
\<close>

theorem spatial_proximity_score_piecewise:
  "fst (calculate_spatial_proximity_score infrastructure alerts d) =
     spec_spatial_curve (length (close_pairs infrastructure alerts d))
   \<and> length (snd (calculate_spatial_proximity_score infrastructure alerts d)) =
       length (close_pairs infrastructure alerts d)
   \<and> 0 \<le> fst (calculate_spatial_proximity_score infrastructure alerts d)
   \<and> fst (calculate_spatial_proximity_score infrastructure alerts d) \<le> 1
   \<and> (infrastructure = [] \<or> alerts = [] \<longrightarrow>
        calculate_spatial_proximity_score infrastructure alerts d = (0, []))"
proof (intro conjI impI)
  show "fst (calculate_spatial_proximity_score infrastructure alerts d) =
     spec_spatial_curve (length (close_pairs infrastructure alerts d))"
    by (rule spatial_score_curve)
  show "length (snd (calculate_spatial_proximity_score infrastructure alerts d)) =
       length (close_pairs infrastructure alerts d)"
    by (rule spatial_details_length)
  show "0 \<le> fst (calculate_spatial_proximity_score infrastructure alerts d)"
    by (rule spatial_score_bounds)
  show "fst (calculate_spatial_proximity_score infrastructure alerts d) \<le> 1"
    by (rule spatial_score_bounds)
  assume "infrastructure = [] \<or> alerts = []"
  then show "calculate_spatial_proximity_score infrastructure alerts d = (0, [])"
    by (simp add: calculate_spatial_proximity_score_def)
qed

lemma example_within: "within_distance 5000 example_node (Glad (example_glad t))"
  by (simp add: within_distance_def example_node_def example_glad_def
      great_circle_distance_def central_angle_def radians_def)

lemma near_glad_within: "within_distance 5000 example_node (Glad near_glad)"
  using near_point by (simp add: within_distance_def example_node_def near_glad_def)

lemma far_glad_beyond: "\<not> within_distance 5000 example_node (Glad far_glad)"
  using far_point by (simp add: within_distance_def example_node_def far_glad_def)

theorem spatial_proximity_score_piecewise_witness:
  "fst (calculate_spatial_proximity_score [example_node] [Glad near_glad] 5000) = 15 / 100
   \<and> length (snd (calculate_spatial_proximity_score [example_node] [Glad near_glad] 5000)) = 1
   \<and> calculate_spatial_proximity_score [example_node] [Glad far_glad] 5000 = (0, [])
   \<and> fst (calculate_spatial_proximity_score [example_node]
             [Glad near_glad, Glad far_glad, Glad (example_glad 0)] 5000) = 30 / 100
   \<and> calculate_spatial_proximity_score [] [Glad near_glad] 5000 = (0, [])"
proof -
  have n: "close_pairs [example_node] [Glad near_glad] 5000 = [(example_node, Glad near_glad)]"
    by (simp add: close_pairs_def near_glad_within)
  have f: "close_pairs [example_node] [Glad far_glad] 5000 = []"
    by (simp add: close_pairs_def far_glad_beyond)
  have m: "close_pairs [example_node] [Glad near_glad, Glad far_glad, Glad (example_glad 0)] 5000 =
      [(example_node, Glad near_glad), (example_node, Glad (example_glad 0))]"
    by (simp add: close_pairs_def near_glad_within far_glad_beyond example_within)
  show ?thesis
    using spatial_proximity_score_piecewise [of "[example_node]" "[Glad near_glad]" 5000]
      spatial_proximity_score_piecewise [of "[example_node]" "[Glad far_glad]" 5000]
      spatial_proximity_score_piecewise [of "[example_node]"
        "[Glad near_glad, Glad far_glad, Glad (example_glad 0)]" 5000]
      spatial_proximity_score_piecewise [of "[]" "[Glad near_glad]" 5000]
    unfolding n f m
    by (simp add: spec_spatial_curve_def prod_eq_iff)
qed

section \<open>Sentinel imagery scores\<close>

lemma ndvi_score_antimono: "x \<le> y \<Longrightarrow> fst (ndvi_score y) \<le> fst (ndvi_score x)"
  by (auto simp: ndvi_score_def Let_def min_def max_def field_simps)

lemma nbr_score_antimono: "x \<le> y \<Longrightarrow> fst (nbr_score y) \<le> fst (nbr_score x)"
  by (auto simp: nbr_score_def Let_def min_def max_def abs_if field_simps)

lemma ndvi_score_bounds: "0 \<le> fst (ndvi_score v) \<and> fst (ndvi_score v) \<le> 1"
  by (auto simp: ndvi_score_def Let_def min_def max_def field_simps)

lemma nbr_score_bounds: "0 \<le> fst (nbr_score v) \<and> fst (nbr_score v) \<le> 1"
  by (auto simp: nbr_score_def Let_def min_def max_def abs_if field_simps)

lemma burn_score_bounds: "0 \<le> fst (burn_score v) \<and> fst (burn_score v) \<le> 1"
  by (auto simp: burn_score_def BURN_INDEX_THRESHOLD_def min_def field_simps)

text \<open>
  C6: the NDVI and NBR sub-scores never grow with their index (the two lemmas
  \<open>ndvi_score_antimono\<close> and \<open>nbr_score_antimono\<close>), but the burn-index sub-score is not
  monotone: it is 0.6 at the index 0.3, the top of the "elevated" band, and drops to 0.465
  at 0.31, in the "high" band.
\<close>

theorem burn_score_drops_at_threshold:
  "(3 / 10 :: real) \<le> 31 / 100
   \<and> fst (burn_score (3 / 10)) = 6 / 10
   \<and> fst (burn_score (31 / 100)) = 465 / 1000
   \<and> fst (burn_score (31 / 100)) < fst (burn_score (3 / 10))"
  by (simp add: burn_score_def BURN_INDEX_THRESHOLD_def)

section \<open>Stable descending sort\<close>

lemma set_insert_desc: "set (insert_desc c ds) = insert c (set ds)"
  by (induction ds) auto

lemma sorted_insert_desc:
  "sorted_wrt (\<lambda>a b. total_weight b \<le> total_weight a) ds \<Longrightarrow>
   sorted_wrt (\<lambda>a b. total_weight b \<le> total_weight a) (insert_desc c ds)"
  by (induction ds) (auto simp: set_insert_desc)

lemma sorted_sort_desc:
  "sorted_wrt (\<lambda>a b. total_weight b \<le> total_weight a) (sort_by_total_weight_desc cs)"
  unfolding sort_by_total_weight_desc_def
  by (induction cs) (auto simp: sorted_insert_desc)

lemma filter_insert_desc_other:
  "total_weight c \<noteq> w \<Longrightarrow>
   filter (\<lambda>x. total_weight x = w) (insert_desc c ds) = filter (\<lambda>x. total_weight x = w) ds"
  by (induction ds) auto

lemma filter_insert_desc_same:
  "total_weight c = w \<Longrightarrow>
   filter (\<lambda>x. total_weight x = w) (insert_desc c ds) = c # filter (\<lambda>x. total_weight x = w) ds"
  by (induction ds) auto

lemma sort_desc_stable:
  "filter (\<lambda>x. total_weight x = w) (sort_by_total_weight_desc cs) =
   filter (\<lambda>x. total_weight x = w) cs"
  unfolding sort_by_total_weight_desc_def
proof (induction cs)
  case Nil
  show ?case by simp
next
  case (Cons c cs)
  show ?case
  proof (cases "total_weight c = w")
    case True
    then show ?thesis using Cons.IH by (simp add: filter_insert_desc_same)
  next
    case False
    then show ?thesis using Cons.IH by (simp add: filter_insert_desc_other)
  qed
qed

lemma set_sort_desc: "set (sort_by_total_weight_desc cs) = set cs"
  unfolding sort_by_total_weight_desc_def
  by (induction cs) (auto simp: set_insert_desc)

lemma length_insert_desc: "length (insert_desc c ds) = Suc (length ds)"
  by (induction ds) auto

lemma length_sort_desc: "length (sort_by_total_weight_desc cs) = length cs"
  unfolding sort_by_total_weight_desc_def
  by (induction cs) (auto simp: length_insert_desc)

section \<open>Evidence chain builder\<close>

lemma map_of_WEIGHTS:
  "map_of WEIGHTS ''spatial_proximity'' = Some (25 / 100)"
  "map_of WEIGHTS ''temporal_correlation'' = Some (20 / 100)"
  "map_of WEIGHTS ''sentinel_ndvi'' = Some (15 / 100)"
  "map_of WEIGHTS ''sentinel_nbr'' = Some (10 / 100)"
  "map_of WEIGHTS ''sentinel_burn'' = Some (10 / 100)"
  "map_of WEIGHTS ''alert_density'' = Some (10 / 100)"
  "map_of WEIGHTS ''sentiment_negative'' = Some (10 / 100)"
  by (simp_all add: WEIGHTS_def)

lemma category_weight_values:
  "category_weight ''spatial_proximity'' = 25 / 100"
  "category_weight ''temporal_correlation'' = 20 / 100"
  "category_weight ''sentinel_ndvi'' = 15 / 100"
  "category_weight ''sentinel_nbr'' = 10 / 100"
  "category_weight ''sentinel_burn'' = 10 / 100"
  "category_weight ''alert_density'' = 10 / 100"
  "category_weight ''sentiment_negative'' = 10 / 100"
  by (simp_all add: category_weight_def map_of_WEIGHTS)

lemma WEIGHTS_sum: "sum_list (map snd WEIGHTS) = 1"
  by (simp add: WEIGHTS_def)

lemma add_link_Inr:
  assumes "sc \<le> 1" and "map_of WEIGHTS ty = Some w" and "0 \<le> w" and "w \<le> 1"
  shows "add_link (0 < sc) ty descr sc sd ls = Inr (ls @ link_if_positive ty descr sc sd)"
proof (cases "0 < sc")
  case True
  then have "0 \<le> sc * w" using assms by simp
  moreover have "sc * w \<le> 1" using True assms by (simp add: mult_le_one)
  ultimately show ?thesis
    using True assms
    by (simp add: add_link_def new_EvidenceLink_def bind_exn_def link_if_positive_def
        category_weight_def)
next
  case False
  then show ?thesis by (simp add: add_link_def link_if_positive_def)
qed

lemma link_if_positive_sum:
  assumes "sc \<le> 1" and "0 \<le> category_weight ty"
  shows "0 \<le> sum_list (map weight (link_if_positive ty descr sc sd))"
    and "sum_list (map weight (link_if_positive ty descr sc sd)) \<le> category_weight ty"
  using assms by (auto simp: link_if_positive_def mult_left_le_one_le)

lemma link_if_positive_weights:
  "link_weights (link_if_positive ty descr sc sd) = emitted_weights [(ty, sc)]"
  by (simp add: link_weights_def link_if_positive_def emitted_weights_def)

lemma emitted_weights_append:
  "emitted_weights (xs @ ys) = emitted_weights xs @ emitted_weights ys"
  by (simp add: emitted_weights_def)

lemma link_weights_append: "link_weights (xs @ ys) = link_weights xs @ link_weights ys"
  by (simp add: link_weights_def)

lemma chain_links_weights:
  "link_weights (chain_links sp sd tp td ss dn de sn se) =
     emitted_weights (category_scores sp tp ss dn sn)"
  unfolding chain_links_def category_scores_def
  by (simp only: link_weights_append link_if_positive_weights emitted_weights_append [symmetric]
      append.simps)

lemma chain_links_sum:
  assumes "sp \<le> 1" "tp \<le> 1" "fst (get_score ss ''ndvi'') \<le> 1"
    "fst (get_score ss ''nbr'') \<le> 1" "fst (get_score ss ''burn'') \<le> 1" "dn \<le> 1" "sn \<le> 1"
  shows "0 \<le> sum_list (map weight (chain_links sp sd tp td ss dn de sn se))"
    and "sum_list (map weight (chain_links sp sd tp td ss dn de sn se)) \<le> 1"
proof -
  note b = link_if_positive_sum
  have w: "0 \<le> category_weight ''spatial_proximity''"
    "0 \<le> category_weight ''temporal_correlation''"
    "0 \<le> category_weight ''sentinel_ndvi''"
    "0 \<le> category_weight ''sentinel_nbr''"
    "0 \<le> category_weight ''sentinel_burn''"
    "0 \<le> category_weight ''alert_density''"
    "0 \<le> category_weight ''sentiment_negative''"
    by (simp_all add: category_weight_values)
  show "0 \<le> sum_list (map weight (chain_links sp sd tp td ss dn de sn se))"
    unfolding chain_links_def map_append sum_list_append
    by (intro add_nonneg_nonneg b(1) assms w)
  have "sum_list (map weight (chain_links sp sd tp td ss dn de sn se)) \<le>
        category_weight ''spatial_proximity'' + (category_weight ''temporal_correlation''
        + (category_weight ''sentinel_ndvi'' + (category_weight ''sentinel_nbr''
        + (category_weight ''sentinel_burn'' + (category_weight ''alert_density''
        + category_weight ''sentiment_negative'')))))"
    unfolding chain_links_def map_append sum_list_append
    by (intro add_mono b(2) assms w)
  then show "sum_list (map weight (chain_links sp sd tp td ss dn de sn se)) \<le> 1"
    by (simp add: category_weight_values)
qed

lemma build_evidence_chain_Inr:
  assumes "sp \<le> 1" "tp \<le> 1" "fst (get_score ss ''ndvi'') \<le> 1"
    "fst (get_score ss ''nbr'') \<le> 1" "fst (get_score ss ''burn'') \<le> 1" "dn \<le> 1" "sn \<le> 1"
  shows "build_evidence_chain s sp sd tp td ss dn de sn se =
     Inr \<lparr>suspect = s,
          links = chain_links sp sd tp td ss dn de sn se,
          total_weight = py_round (sum_list (map weight (chain_links sp sd tp td ss dn de sn se))) 3,
          summary = build_summary s sp tp (fst (get_score ss ''ndvi'')) sn\<rparr>"
proof -
  have nn: "0 \<le> py_round (sum_list (map weight (chain_links sp sd tp td ss dn de sn se))) 3"
    using py_round_ge [of 0] chain_links_sum(1) [OF assms] by simp
  have "build_evidence_chain s sp sd tp td ss dn de sn se =
      new_EvidenceChain s (chain_links sp sd tp td ss dn de sn se)
        (py_round (sum_list (map weight (chain_links sp sd tp td ss dn de sn se))) 3)
        (build_summary s sp tp (fst (get_score ss ''ndvi'')) sn)"
    unfolding build_evidence_chain_def Let_def chain_links_def
    by (simp add: assms bind_exn_def
        add_link_Inr [OF _ map_of_WEIGHTS(1)] add_link_Inr [OF _ map_of_WEIGHTS(2)]
        add_link_Inr [OF _ map_of_WEIGHTS(3)] add_link_Inr [OF _ map_of_WEIGHTS(4)]
        add_link_Inr [OF _ map_of_WEIGHTS(5)] add_link_Inr [OF _ map_of_WEIGHTS(6)]
        add_link_Inr [OF _ map_of_WEIGHTS(7)] add.assoc split del: if_split)
  then show ?thesis using nn by (simp add: new_EvidenceChain_def)
qed

text \<open>
  C10: for category scores in [0,1] the builder returns a chain whose total weight, the
  sum of the link weights rounded to three decimals, lies in [0,1]; the links are those of
  the categories of positive score, each weighing its score times the weight of its
  category, and the seven category weights add up to 1.
\<close>

theorem evidence_chain_total_weight_bounded:
  assumes "0 \<le> sp \<and> sp \<le> 1" and "0 \<le> tp \<and> tp \<le> 1"
    and "0 \<le> fst (get_score ss ''ndvi'') \<and> fst (get_score ss ''ndvi'') \<le> 1"
    and "0 \<le> fst (get_score ss ''nbr'') \<and> fst (get_score ss ''nbr'') \<le> 1"
    and "0 \<le> fst (get_score ss ''burn'') \<and> fst (get_score ss ''burn'') \<le> 1"
    and "0 \<le> dn \<and> dn \<le> 1" and "0 \<le> sn \<and> sn \<le> 1"
  shows "\<exists>chain. build_evidence_chain s sp sd tp td ss dn de sn se = Inr chain
           \<and> suspect chain = s
           \<and> 0 \<le> total_weight chain \<and> total_weight chain \<le> 1
           \<and> total_weight chain = py_round (sum_list (map weight (links chain))) 3
           \<and> link_weights (links chain) = emitted_weights (category_scores sp tp ss dn sn)
           \<and> sum_list (map snd WEIGHTS) = 1"
proof -
  have le: "sp \<le> 1" "tp \<le> 1" "fst (get_score ss ''ndvi'') \<le> 1"
    "fst (get_score ss ''nbr'') \<le> 1" "fst (get_score ss ''burn'') \<le> 1" "dn \<le> 1" "sn \<le> 1"
    using assms by simp_all
  let ?ls = "chain_links sp sd tp td ss dn de sn se"
  have "0 \<le> py_round (sum_list (map weight ?ls)) 3"
    using py_round_ge [of 0] chain_links_sum(1) [OF le] by simp
  moreover have "py_round (sum_list (map weight ?ls)) 3 \<le> 1"
    using py_round_le [of _ 1] chain_links_sum(2) [OF le] by simp
  ultimately show ?thesis
    by (simp add: build_evidence_chain_Inr [OF le] chain_links_weights WEIGHTS_sum)
qed

theorem evidence_chain_total_weight_bounded_witness:
  "\<exists>chain. build_evidence_chain (example_company ''Acme'') 1 [] 1 [] full_sentinel_scores
              1 (Text ''d'') 1 (Text ''s'') = Inr chain
     \<and> total_weight chain = 1
     \<and> link_weights (links chain) =
         [(''spatial_proximity'', 25 / 100), (''temporal_correlation'', 20 / 100),
          (''sentinel_ndvi'', 15 / 100), (''sentinel_nbr'', 10 / 100),
          (''sentinel_burn'', 10 / 100), (''alert_density'', 10 / 100),
          (''sentiment_negative'', 10 / 100)]"
proof -
  have g: "fst (get_score full_sentinel_scores ''ndvi'') = 1"
    "fst (get_score full_sentinel_scores ''nbr'') = 1"
    "fst (get_score full_sentinel_scores ''burn'') = 1"
    by (simp_all add: get_score_def full_sentinel_scores_def)
  obtain chain where c:
    "build_evidence_chain (example_company ''Acme'') 1 [] 1 [] full_sentinel_scores
              1 (Text ''d'') 1 (Text ''s'') = Inr chain"
    "total_weight chain = py_round (sum_list (map weight (links chain))) 3"
    "link_weights (links chain) = emitted_weights (category_scores 1 1 full_sentinel_scores 1 1)"
    using evidence_chain_total_weight_bounded
      [of 1 1 full_sentinel_scores 1 1 "example_company ''Acme''" "[]" "[]" "Text ''d''" "Text ''s''"]
    by (auto simp: g)
  have lw: "link_weights (links chain) =
         [(''spatial_proximity'', 25 / 100), (''temporal_correlation'', 20 / 100),
          (''sentinel_ndvi'', 15 / 100), (''sentinel_nbr'', 10 / 100),
          (''sentinel_burn'', 10 / 100), (''alert_density'', 10 / 100),
          (''sentiment_negative'', 10 / 100)]"
    unfolding c(3) by (simp add: emitted_weights_def category_scores_def g category_weight_values)
  have "map weight (links chain) = map snd (link_weights (links chain))"
    by (simp add: link_weights_def o_def)
  then have "sum_list (map weight (links chain)) = 1" unfolding lw by simp
  then have "total_weight chain = 1"
    using c(2) by (simp add: py_round_def round_half_even_def)
  with c(1) lw show ?thesis by blast
qed

section \<open>Temporal correlation score\<close>

lemma temporal_alerts_eq:
  "window_days \<noteq> 0 \<Longrightarrow>
   temporal_alerts window_days fire_time alerts cs =
     Inr (cs @ map (match_detail window_days) (fire_matches window_days fire_time alerts))"
proof (induction alerts arbitrary: cs)
  case Nil
  show ?case by (simp add: fire_matches_def)
next
  case (Cons a alerts)
  show ?case
  proof (cases "alert_date a")
    case None
    then show ?thesis using Cons by (simp add: fire_matches_def)
  next
    case (Some t)
    then show ?thesis
      using Cons
      by (simp add: fire_matches_def Let_def days_between_def match_detail_def
          match_strength_def)
  qed
qed

lemma temporal_fires_eq:
  "window_days \<noteq> 0 \<Longrightarrow>
   temporal_fires window_days fires alerts cs =
     Inr (cs @ map (match_detail window_days) (temporal_matches fires alerts window_days))"
  by (induction fires arbitrary: cs)
     (simp_all add: temporal_matches_def temporal_alerts_eq bind_exn_def)

lemma temporal_matches_Nil:
  "fires = [] \<or> alerts = [] \<Longrightarrow> temporal_matches fires alerts w = []"
  by (auto simp: temporal_matches_def fire_matches_def)

lemma temporal_score_eq:
  assumes "window_days \<noteq> 0"
  shows "calculate_temporal_correlation_score fires alerts window_days =
     Inr (rounded_temporal_score fires alerts window_days,
          map (match_detail window_days) (temporal_matches fires alerts window_days))"
proof (cases "fires = [] \<or> alerts = []")
  case True
  then show ?thesis
    using temporal_matches_Nil [of fires alerts window_days]
    by (simp add: calculate_temporal_correlation_score_def rounded_temporal_score_def)
next
  case False
  have m: "map correlation_strength (map (match_detail window_days) ms) =
           map (\<lambda>m. py_round (match_strength window_days m) 2) ms" for ms
    by (simp add: match_detail_def o_def)
  show ?thesis
    using False assms
    by (simp add: calculate_temporal_correlation_score_def temporal_fires_eq bind_exn_def
        rounded_temporal_score_def Let_def m mult.commute del: map_map)
qed

lemma match_in_window:
  "m \<in> set (temporal_matches fires alerts w) \<Longrightarrow> days_between (fst m) (snd m) \<le> w"
  by (auto simp: temporal_matches_def fire_matches_def split: option.splits if_splits)

lemma match_strength_bounds:
  assumes "m \<in> set (temporal_matches fires alerts w)" and "0 < w"
  shows "0 \<le> match_strength w m" and "match_strength w m \<le> 1"
proof -
  have d: "days_between (fst m) (snd m) \<le> w" using assms(1) by (rule match_in_window)
  have n: "0 \<le> days_between (fst m) (snd m)" by (simp add: days_between_def)
  have "real_of_int (days_between (fst m) (snd m)) / real_of_int w \<le> 1"
    using d assms(2) by simp
  then show "0 \<le> match_strength w m" by (simp add: match_strength_def)
  have "0 \<le> real_of_int (days_between (fst m) (snd m)) / real_of_int w"
    using n assms(2) by simp
  then show "match_strength w m \<le> 1" by (simp add: match_strength_def)
qed

lemma rounded_temporal_score_bounds:
  assumes "0 < w"
  shows "0 \<le> rounded_temporal_score fires alerts w \<and> rounded_temporal_score fires alerts w \<le> 1"
proof -
  let ?ms = "temporal_matches fires alerts w"
  have "0 \<le> sum_list (map (\<lambda>m. py_round (match_strength w m) 2) ?ms)"
  proof (rule sum_list_nonneg)
    fix x assume "x \<in> set (map (\<lambda>m. py_round (match_strength w m) 2) ?ms)"
    then obtain m where "m \<in> set ?ms" "x = py_round (match_strength w m) 2" by auto
    then show "0 \<le> x"
      using py_round_ge [of 0 "match_strength w m" 2] match_strength_bounds(1) [OF _ assms]
      by simp
  qed
  then have "0 \<le> sum_list (map (\<lambda>m. py_round (match_strength w m) 2) ?ms) / of_nat (length ?ms)"
    by simp
  then show ?thesis
    by (simp add: rounded_temporal_score_def Let_def min_def)
qed








section \<open>The run of correlate_events\<close>

lemma density_score_bounds:
  "0 \<le> fst (calculate_alert_density_score gl rd fi box)
   \<and> fst (calculate_alert_density_score gl rd fi box) \<le> 1"
proof -
  obtain a b c d where box: "box = (a, b, c, d)" by (cases box) auto
  define n where "n = int (length gl) + int (length rd) + int (length fi)"
  define area where "area = (c - a) * 111 * \<bar>cos_deg ((b + d) / 2)\<bar> * ((d - b) * 111)"
  define dens where "dens = real_of_int n / area * 100"
  have n0: "0 \<le> n" by (simp add: n_def)
  have pos: "0 < dens" if "n \<noteq> 0" "\<not> area \<le> 0"
  proof -
    have "0 < real_of_int n" "0 < area" using that n0 by auto
    then show ?thesis by (simp add: dens_def)
  qed
  have "calculate_alert_density_score gl rd fi box =
     (if n = 0 then (0, Text ''No alerts detected in region'')
      else if area \<le> 0 then (0, Text ''Invalid area'')
      else (min 1 (fst (if 50 < dens then (1, VeryHighDensity dens)
                        else if 20 < dens
                          then (7 / 10 + (dens - 20) * (1 / 100), HighDensity dens)
                        else if 5 < dens
                          then (3 / 10 + (dens - 5) * (27 / 1000), ModerateDensity dens)
                        else (dens * (6 / 100), LowDensity dens))),
            snd (if 50 < dens then (1, VeryHighDensity dens)
                 else if 20 < dens
                   then (7 / 10 + (dens - 20) * (1 / 100), HighDensity dens)
                 else if 5 < dens
                   then (3 / 10 + (dens - 5) * (27 / 1000), ModerateDensity dens)
                 else (dens * (6 / 100), LowDensity dens))))"
    unfolding calculate_alert_density_score_def Let_def box prod.case n_def [symmetric]
      area_def [symmetric] dens_def [symmetric]
    by (rule refl)
  then show ?thesis using pos by (auto simp: min_def)
qed

lemma sentiment_score_le: "fst (calculate_sentiment_score sent) \<le> 1"
  by (cases sent) (simp_all add: calculate_sentiment_score_def Let_def)

lemma sentinel_get_score:
  "get_score (calculate_sentinel_scores sen) ''ndvi'' =
     (case sen of None \<Rightarrow> (0, Text ''No Sentinel data available'')
      | Some s \<Rightarrow> (case ndvi s of None \<Rightarrow> (0, Text ''NDVI data not available'')
                   | Some v \<Rightarrow> ndvi_score v))"
  "get_score (calculate_sentinel_scores sen) ''nbr'' =
     (case sen of None \<Rightarrow> (0, Text ''No Sentinel data available'')
      | Some s \<Rightarrow> (case nbr s of None \<Rightarrow> (0, Text ''NBR data not available'')
                   | Some v \<Rightarrow> nbr_score v))"
  "get_score (calculate_sentinel_scores sen) ''burn'' =
     (case sen of None \<Rightarrow> (0, Text ''No Sentinel data available'')
      | Some s \<Rightarrow> (case burn_index s of None \<Rightarrow> (0, Text ''Burn index not available'')
                   | Some v \<Rightarrow> burn_score v))"
  by (simp_all add: get_score_def calculate_sentinel_scores_def split: option.splits)

lemma sentinel_score_bounds:
  "0 \<le> fst (get_score (calculate_sentinel_scores sen) ''ndvi'')"
  "fst (get_score (calculate_sentinel_scores sen) ''ndvi'') \<le> 1"
  "0 \<le> fst (get_score (calculate_sentinel_scores sen) ''nbr'')"
  "fst (get_score (calculate_sentinel_scores sen) ''nbr'') \<le> 1"
  "0 \<le> fst (get_score (calculate_sentinel_scores sen) ''burn'')"
  "fst (get_score (calculate_sentinel_scores sen) ''burn'') \<le> 1"
  using ndvi_score_bounds nbr_score_bounds burn_score_bounds
  by (simp_all add: sentinel_get_score split: option.splits)

lemma suspect_infra_filter: "suspect_infra infrastructure s = filter (name_matches s) infrastructure"
  by (simp add: suspect_infra_def name_matches_def [abs_def])

lemma suspect_spatial_eq:
  "suspect_spatial infrastructure (aoi_alerts gl rd fi) (aoi_spatial infrastructure gl rd fi) s =
     run_spatial infrastructure gl rd fi s"
  by (simp add: suspect_spatial_def run_spatial_def Let_def suspect_infra_filter)

lemma run_spatial_bounds:
  "0 \<le> fst (run_spatial infrastructure gl rd fi s)"
  "fst (run_spatial infrastructure gl rd fi s) \<le> 1"
proof -
  have b: "0 \<le> fst (aoi_spatial infrastructure gl rd fi)"
    "fst (aoi_spatial infrastructure gl rd fi) \<le> 1"
    by (simp_all add: aoi_spatial_def spatial_score_bounds)
  show "0 \<le> fst (run_spatial infrastructure gl rd fi s)"
    using b by (simp add: run_spatial_def spatial_score_bounds)
  show "fst (run_spatial infrastructure gl rd fi s) \<le> 1"
    using b by (simp add: run_spatial_def spatial_score_bounds)
qed

lemma aoi_temporal_bounds:
  "0 \<le> fst (aoi_temporal gl rd fi)" "fst (aoi_temporal gl rd fi) \<le> 1"
  using rounded_temporal_score_bounds [of TEMPORAL_WINDOW_DAYS fi "aoi_deforestation gl rd"]
  by (simp_all add: aoi_temporal_def TEMPORAL_WINDOW_DAYS_def)

lemma suspect_chain_eq:
  "suspect_chain infrastructure (aoi_alerts gl rd fi) (aoi_spatial infrastructure gl rd fi)
     (aoi_temporal gl rd fi) (calculate_sentinel_scores sen)
     (calculate_alert_density_score gl rd fi box) (calculate_sentiment_score sent) s =
   Inr (run_chain box gl rd fi sen infrastructure sent s)"
  unfolding suspect_chain_def Let_def suspect_spatial_eq run_chain_def chain_value_def
  by (rule build_evidence_chain_Inr)
     (simp_all add: run_spatial_bounds aoi_temporal_bounds sentinel_score_bounds
        density_score_bounds sentiment_score_le)

lemma collect_chains_map:
  "(\<And>s. body s = Inr (f s)) \<Longrightarrow> collect_chains body ss acc = Inr (acc @ map f ss)"
  by (induction ss arbitrary: acc) (simp_all add: bind_exn_def)

lemma correlate_events_eq:
  "correlate_events box tf hs gl rd fi sen infrastructure ss sent =
     Inr (sort_by_total_weight_desc (map (run_chain box gl rd fi sen infrastructure sent) ss),
          py_round (min 100 (run_base box hs gl rd fi sen infrastructure sent)) 1)"
proof -
  have w: "TEMPORAL_WINDOW_DAYS \<noteq> 0" by (simp add: TEMPORAL_WINDOW_DAYS_def)
  have t: "calculate_temporal_correlation_score fi (map Glad gl @ map Radd rd)
             TEMPORAL_WINDOW_DAYS = Inr (aoi_temporal gl rd fi)"
    by (simp add: temporal_score_eq [OF w] aoi_temporal_def aoi_deforestation_def)
  have c: "collect_chains
             (suspect_chain infrastructure (aoi_alerts gl rd fi)
                (aoi_spatial infrastructure gl rd fi) (aoi_temporal gl rd fi)
                (calculate_sentinel_scores sen) (calculate_alert_density_score gl rd fi box)
                (calculate_sentiment_score sent)) ss [] =
           Inr (map (run_chain box gl rd fi sen infrastructure sent) ss)"
    using collect_chains_map [of _ "run_chain box gl rd fi sen infrastructure sent" ss "[]"]
    by (simp add: suspect_chain_eq)
  have a: "(map Glad gl @ map Radd rd) @ map Fire fi = aoi_alerts gl rd fi"
    by (simp add: aoi_alerts_def aoi_deforestation_def)
  show ?thesis
    unfolding correlate_events_def Let_def t a bind_exn_def
    using c
    by (simp add: aoi_spatial_def [symmetric] run_base_def)
qed

section \<open>Confidence aggregator\<close>

lemma presence_bonus_closed:
  "presence_bonus hs gl rd fi sen infrastructure sent =
     (if gl \<noteq> [] \<or> rd \<noteq> [] then 15 else 0)
     + (if fi \<noteq> [] then 10 else 0)
     + (if (case sen of None \<Rightarrow> False | Some s \<Rightarrow> truthy_float (ndvi s) \<or> truthy_float (nbr s))
        then 15 else 0)
     + (if (case hs of None \<Rightarrow> False | Some h \<Rightarrow> 0 < total_loss_ha h) then 10 else 0)
     + (if infrastructure \<noteq> [] then 10 else 0)
     + (if sent \<noteq> None then 5 else 0)"
  by (simp add: presence_bonus_def Let_def)

lemma presence_bonus_nonneg: "0 \<le> presence_bonus hs gl rd fi sen infrastructure sent"
  unfolding presence_bonus_closed by (intro add_nonneg_nonneg) simp_all

lemma base_confidence_sentinel:
  "base_confidence bonus sp tp dn (calculate_sentinel_scores sen) =
     bonus + sp * 15 + tp * 10 + dn * 10
     + fst (get_score (calculate_sentinel_scores sen) ''ndvi'') * 5
     + fst (get_score (calculate_sentinel_scores sen) ''nbr'') * 5
     + fst (get_score (calculate_sentinel_scores sen) ''burn'') * 5"
  by (cases sen)
     (simp_all add: base_confidence_def calculate_sentinel_scores_def get_score_def
        case_prod_beta)

lemma run_base_nonneg: "0 \<le> run_base box hs gl rd fi sen infrastructure sent"
proof -
  have "0 \<le> fst (aoi_spatial infrastructure gl rd fi)"
    by (simp add: aoi_spatial_def spatial_score_bounds)
  moreover have "0 \<le> fst (calculate_alert_density_score gl rd fi box)"
    using density_score_bounds by blast
  ultimately show ?thesis
    unfolding run_base_def base_confidence_sentinel
    using presence_bonus_nonneg [of hs gl rd fi sen infrastructure sent]
      aoi_temporal_bounds(1) [of gl rd fi] sentinel_score_bounds(1,3,5) [of sen]
    by (intro add_nonneg_nonneg mult_nonneg_nonneg) simp_all
qed

lemma run_confidence_bounds:
  "0 \<le> py_round (min 100 (run_base box hs gl rd fi sen infrastructure sent)) 1"
  "py_round (min 100 (run_base box hs gl rd fi sen infrastructure sent)) 1 \<le> 100"
  using py_round_ge [of 0 "min 100 (run_base box hs gl rd fi sen infrastructure sent)" 1]
    py_round_le [of "min 100 (run_base box hs gl rd fi sen infrastructure sent)" 100 1]
    run_base_nonneg [of box hs gl rd fi sen infrastructure sent]
  by simp_all

text \<open>The scores of the full bundle.\<close>

lemma close_pairs_all:
  "(\<And>a. a \<in> set as \<Longrightarrow> within_distance d n a) \<Longrightarrow> length (close_pairs [n] as d) = length as"
  by (simp add: close_pairs_def filter_map o_def)

lemma example_fire_within: "within_distance 5000 example_node (Fire (example_fire t))"
  by (simp add: within_distance_def example_node_def example_fire_def
      great_circle_distance_def central_angle_def radians_def)

lemma full_spatial: "fst (aoi_spatial [example_node] full_glad [] [example_fire 0]) = 1"
proof -
  have "length (close_pairs [example_node] (aoi_alerts full_glad [] [example_fire 0]) 5000) = 26"
    by (subst close_pairs_all)
       (auto simp: aoi_alerts_def aoi_deforestation_def full_glad_def example_within
          example_fire_within)
  then show ?thesis
    by (simp add: aoi_spatial_def spatial_score_curve MAX_PROXIMITY_DISTANCE_M_def
        spec_spatial_curve_def)
qed

lemma fire_matches_replicate:
  "days_between t (glad_date g) \<le> w \<Longrightarrow>
   fire_matches w t (map Glad (replicate n g)) = replicate n (t, glad_date g)"
  by (induction n) (simp_all add: fire_matches_def)

lemma full_temporal: "fst (aoi_temporal full_glad [] [example_fire 0]) = 1"
proof -
  have d: "days_between 0 (glad_date (example_glad 0)) \<le> TEMPORAL_WINDOW_DAYS"
    by (simp add: days_between_def timedelta_days_def example_glad_def
        TEMPORAL_WINDOW_DAYS_def)
  have m: "temporal_matches [example_fire 0] (aoi_deforestation full_glad [])
             TEMPORAL_WINDOW_DAYS = replicate 25 (0, 0)"
    using fire_matches_replicate [OF d, of 25]
    by (simp add: temporal_matches_def aoi_deforestation_def full_glad_def example_fire_def
        example_glad_def)
  have s: "py_round (match_strength TEMPORAL_WINDOW_DAYS (0, 0)) 2 = 1"
    by (simp add: match_strength_def days_between_def timedelta_days_def
        TEMPORAL_WINDOW_DAYS_def py_round_def round_half_even_def)
  show ?thesis
    by (simp add: aoi_temporal_def rounded_temporal_score_def m Let_def map_replicate_const s
        sum_list_replicate)
qed

lemma full_density:
  "fst (calculate_alert_density_score full_glad [] [example_fire 0] full_box) = 1"
  by (simp add: calculate_alert_density_score_def full_glad_def full_box_def Let_def
      cos_deg_def radians_def)

lemma full_sentinel_scores_one:
  "fst (get_score (calculate_sentinel_scores (Some full_sentinel)) ''ndvi'') = 1"
  "fst (get_score (calculate_sentinel_scores (Some full_sentinel)) ''nbr'') = 1"
  "fst (get_score (calculate_sentinel_scores (Some full_sentinel)) ''burn'') = 1"
  by (simp_all add: sentinel_get_score full_sentinel_def ndvi_score_def nbr_score_def
      burn_score_def BURN_INDEX_THRESHOLD_def Let_def)

lemma full_presence:
  "presence_bonus (Some full_hansen) full_glad [] [example_fire 0] (Some full_sentinel)
     [example_node] (Some example_sentiment) = 65"
  by (simp add: presence_bonus_closed full_glad_def full_sentinel_def full_hansen_def
      truthy_float_def)

lemma full_base:
  "run_base full_box (Some full_hansen) full_glad [] [example_fire 0] (Some full_sentinel)
     [example_node] (Some example_sentiment) = 115"
  by (simp add: run_base_def base_confidence_sentinel full_presence full_spatial full_temporal
      full_density full_sentinel_scores_one)

text \<open>
  C1: for every evidence bundle \<open>correlate_events\<close> returns, and its confidence score,
  the base capped at 100 and rounded to one decimal, lies in [0,100]; for the bundle with
  every presence bonus (65) and every category score 1 the uncapped base is 115 and the
  score returned is 100.
\<close>

theorem confidence_score_in_range:
  "(\<exists>chains.
      correlate_events box tf hs gl rd fi sen infrastructure ss sent =
        Inr (chains, py_round (min 100 (run_base box hs gl rd fi sen infrastructure sent)) 1))
   \<and> 0 \<le> py_round (min 100 (run_base box hs gl rd fi sen infrastructure sent)) 1
   \<and> py_round (min 100 (run_base box hs gl rd fi sen infrastructure sent)) 1 \<le> 100
   \<and> presence_bonus (Some full_hansen) full_glad [] [example_fire 0] (Some full_sentinel)
        [example_node] (Some example_sentiment) = 65
   \<and> run_base full_box (Some full_hansen) full_glad [] [example_fire 0] (Some full_sentinel)
        [example_node] (Some example_sentiment) = 115
   \<and> py_round (min 100 (run_base full_box (Some full_hansen) full_glad [] [example_fire 0]
        (Some full_sentinel) [example_node] (Some example_sentiment))) 1 = 100"
proof (intro conjI)
  show "\<exists>chains.
      correlate_events box tf hs gl rd fi sen infrastructure ss sent =
        Inr (chains, py_round (min 100 (run_base box hs gl rd fi sen infrastructure sent)) 1)"
    unfolding correlate_events_eq by blast
  show "0 \<le> py_round (min 100 (run_base box hs gl rd fi sen infrastructure sent)) 1"
    by (rule run_confidence_bounds)
  show "py_round (min 100 (run_base box hs gl rd fi sen infrastructure sent)) 1 \<le> 100"
    by (rule run_confidence_bounds)
  show "presence_bonus (Some full_hansen) full_glad [] [example_fire 0] (Some full_sentinel)
        [example_node] (Some example_sentiment) = 65"
    by (rule full_presence)
  show "run_base full_box (Some full_hansen) full_glad [] [example_fire 0] (Some full_sentinel)
        [example_node] (Some example_sentiment) = 115"
    by (rule full_base)
  show "py_round (min 100 (run_base full_box (Some full_hansen) full_glad [] [example_fire 0]
        (Some full_sentinel) [example_node] (Some example_sentiment))) 1 = 100"
    unfolding full_base by (simp add: py_round_def round_half_even_def)
qed

theorem confidence_score_in_range_witness:
  "\<exists>chains.
     correlate_events full_box (0, 0) (Some full_hansen) full_glad [] [example_fire 0]
       (Some full_sentinel) [example_node] [example_company ''Test Factory'']
       (Some example_sentiment) = Inr (chains, 100)"
proof -
  note t = confidence_score_in_range
    [of full_box "(0, 0)" "Some full_hansen" full_glad "[]" "[example_fire 0]"
        "Some full_sentinel" "[example_node]" "[example_company ''Test Factory'']"
        "Some example_sentiment"]
  from t obtain chains where c:
    "correlate_events full_box (0, 0) (Some full_hansen) full_glad [] [example_fire 0]
       (Some full_sentinel) [example_node] [example_company ''Test Factory'']
       (Some example_sentiment) =
     Inr (chains, py_round (min 100 (run_base full_box (Some full_hansen) full_glad []
        [example_fire 0] (Some full_sentinel) [example_node] (Some example_sentiment))) 1)"
    by blast
  from t have "py_round (min 100 (run_base full_box (Some full_hansen) full_glad []
        [example_fire 0] (Some full_sentinel) [example_node] (Some example_sentiment))) 1 = 100"
    by blast
  with c show ?thesis by (intro exI [of _ chains]) (simp only:)
qed

text \<open>
  C4: the bonus for imagery is decided by the truthiness of \<open>ndvi\<close> and \<open>nbr\<close>, so an
  imagery signal whose NDVI is present and equal to 0 earns no bonus: the presence bonus
  of such a bundle is 0, and its confidence is 4.5 (the NDVI score 0.9 times 5).
\<close>

theorem zero_ndvi_earns_no_imagery_bonus:
  "ndvi zero_ndvi_sentinel = Some 0
   \<and> fst (get_score (calculate_sentinel_scores (Some zero_ndvi_sentinel)) ''ndvi'') = 9 / 10
   \<and> presence_bonus None [] [] [] (Some zero_ndvi_sentinel) [] None = 0
   \<and> correlate_events full_box (0, 0) None [] [] [] (Some zero_ndvi_sentinel) [] [] None =
       Inr ([], 45 / 10)"
proof -
  have b: "run_base full_box None [] [] [] (Some zero_ndvi_sentinel) [] None = 45 / 10"
    by (simp add: run_base_def base_confidence_sentinel presence_bonus_closed
        sentinel_get_score zero_ndvi_sentinel_def truthy_float_def ndvi_score_def Let_def
        aoi_spatial_def calculate_spatial_proximity_score_def aoi_temporal_def
        rounded_temporal_score_def temporal_matches_def calculate_alert_density_score_def)
  have r: "py_round (min 100 (run_base full_box None [] [] [] (Some zero_ndvi_sentinel) []
             None)) 1 = 45 / 10"
    unfolding b by (simp add: py_round_def round_half_even_def)
  show ?thesis
  proof (intro conjI)
    show "ndvi zero_ndvi_sentinel = Some 0" by (simp add: zero_ndvi_sentinel_def)
    show "fst (get_score (calculate_sentinel_scores (Some zero_ndvi_sentinel)) ''ndvi'') = 9 / 10"
      by (simp add: sentinel_get_score zero_ndvi_sentinel_def ndvi_score_def Let_def)
    show "presence_bonus None [] [] [] (Some zero_ndvi_sentinel) [] None = 0"
      by (simp add: presence_bonus_closed zero_ndvi_sentinel_def truthy_float_def)
    show "correlate_events full_box (0, 0) None [] [] [] (Some zero_ndvi_sentinel) [] [] None =
       Inr ([], 45 / 10)"
      unfolding correlate_events_eq r by (simp add: sort_by_total_weight_desc_def)
  qed
qed

theorem zero_ndvi_earns_no_imagery_bonus_witness:
  "presence_bonus None [] [] [] (Some zero_ndvi_sentinel) [] None = 0
   \<and> correlate_events full_box (0, 0) None [] [] [] (Some zero_ndvi_sentinel) [] [] None =
       Inr ([], 45 / 10)"
  using zero_ndvi_earns_no_imagery_bonus by blast

section \<open>Chains of the suspects\<close>

lemma run_chain_suspect: "suspect (run_chain box gl rd fi sen infrastructure sent s) = s"
  by (simp add: run_chain_def chain_value_def)

lemma run_chain_link_weights:
  "link_weights (links (run_chain box gl rd fi sen infrastructure sent s)) =
     emitted_weights
       (category_scores (fst (run_spatial infrastructure gl rd fi s))
          (fst (aoi_temporal gl rd fi)) (calculate_sentinel_scores sen)
          (fst (calculate_alert_density_score gl rd fi box))
          (fst (calculate_sentiment_score sent)))"
  by (simp add: run_chain_def chain_value_def chain_links_weights)

lemma run_chain_total_weight:
  "total_weight (run_chain box gl rd fi sen infrastructure sent s) =
     py_round (sum_list (map snd (link_weights
       (links (run_chain box gl rd fi sen infrastructure sent s))))) 3"
  by (simp add: run_chain_def chain_value_def link_weights_def o_def)

lemma run_chain_build:
  "build_evidence_chain s (fst (run_spatial infrastructure gl rd fi s))
     (snd (run_spatial infrastructure gl rd fi s))
     (fst (aoi_temporal gl rd fi)) (snd (aoi_temporal gl rd fi))
     (calculate_sentinel_scores sen)
     (fst (calculate_alert_density_score gl rd fi box))
     (snd (calculate_alert_density_score gl rd fi box))
     (fst (calculate_sentiment_score sent)) (snd (calculate_sentiment_score sent)) =
   Inr (run_chain box gl rd fi sen infrastructure sent s)"
  using suspect_chain_eq [of infrastructure gl rd fi sen box sent s]
  by (simp add: suspect_chain_def Let_def suspect_spatial_eq)

lemma filter_emitted_weights:
  "filter (\<lambda>kv. fst kv \<noteq> k) (emitted_weights cats) =
     emitted_weights (filter (\<lambda>kv. fst kv \<noteq> k) cats)"
  by (induction cats) (auto simp: emitted_weights_def)

lemma other_links_shared:
  "filter (\<lambda>kv. fst kv \<noteq> ''spatial_proximity'')
     (link_weights (links (run_chain box gl rd fi sen infrastructure sent s))) =
   filter (\<lambda>kv. fst kv \<noteq> ''spatial_proximity'')
     (link_weights (links (run_chain box gl rd fi sen infrastructure sent s')))"
proof -
  have "filter (\<lambda>kv. fst kv \<noteq> ''spatial_proximity'') (category_scores sp tp ss dn sn) =
        filter (\<lambda>kv. fst kv \<noteq> ''spatial_proximity'') (category_scores sp' tp ss dn sn)"
    for sp sp' tp ss dn sn
    by (simp add: category_scores_def)
  then show ?thesis
    unfolding run_chain_link_weights filter_emitted_weights by (rule arg_cong)
qed

text \<open>The example run.\<close>

lemma example_density:
  "fst (calculate_alert_density_score [example_glad 0] [] [] example_box) = 2 / 4107"
  by (simp add: calculate_alert_density_score_def example_box_def Let_def cos_deg_def
      radians_def)

lemma example_aoi_spatial:
  "fst (aoi_spatial [example_node] [example_glad 0] [] []) = 15 / 100"
proof -
  have "length (close_pairs [example_node] (aoi_alerts [example_glad 0] [] []) 5000) = 1"
    by (subst close_pairs_all)
       (auto simp: aoi_alerts_def aoi_deforestation_def example_within)
  then show ?thesis
    by (simp add: aoi_spatial_def spatial_score_curve MAX_PROXIMITY_DISTANCE_M_def
        spec_spatial_curve_def)
qed

lemma example_matches:
  "name_matches (example_company n) example_node = (n = ''Test Factory'')"
  by (auto simp: name_matches_def example_company_def example_node_def)

lemma example_run_spatial:
  "fst (run_spatial [example_node] [example_glad 0] [] [] (example_company n)) =
     (if n = ''Test Factory'' then 15 / 100 else 75 / 1000)"
  using example_aoi_spatial
  by (simp add: run_spatial_def example_matches aoi_spatial_def)

lemma example_link_weights:
  "link_weights (links (run_chain example_box [example_glad 0] [] [] None [example_node] None
     (example_company n))) =
   [(''spatial_proximity'', (if n = ''Test Factory'' then 15 / 100 else 75 / 1000) * (25 / 100)),
    (''alert_density'', 2 / 4107 * (10 / 100))]"
  by (simp add: run_chain_link_weights emitted_weights_def category_scores_def
      example_run_spatial example_density sentinel_get_score calculate_sentiment_score_def
      aoi_temporal_def rounded_temporal_score_def temporal_matches_def
      category_weight_values)

lemma example_total_weight:
  "total_weight (run_chain example_box [example_glad 0] [] [] None [example_node] None
     (example_company n)) = (if n = ''Test Factory'' then 38 / 1000 else 19 / 1000)"
  unfolding run_chain_total_weight example_link_weights
  by (simp add: py_round_def round_half_even_def)

lemma example_sorted:
  "sort_by_total_weight_desc
     (map (run_chain example_box [example_glad 0] [] [] None [example_node] None)
        example_suspects) =
   map (run_chain example_box [example_glad 0] [] [] None [example_node] None)
     [example_company ''Test Factory'', example_company ''Acme'', example_company ''Zenith'']"
  by (simp add: sort_by_total_weight_desc_def example_suspects_def example_total_weight)

text \<open>
  C8: the chains returned are those of the suspects, sorted; the chain of a suspect is
  built from the spatial score of the nodes whose name, operator tag or company tag equals
  the suspect's name exactly, or, when there is no such node, from half the spatial score
  of the whole area with its details; the temporal, imagery, density and sentiment scores
  passed to the builder do not depend on the suspect, so all links but the spatial one are
  the same for every suspect.
\<close>

theorem suspect_specific_spatial_score:
  "(\<exists>conf. correlate_events box tf hs gl rd fi sen infrastructure ss sent =
       Inr (sort_by_total_weight_desc
              (map (run_chain box gl rd fi sen infrastructure sent) ss), conf))
   \<and> (\<forall>s. build_evidence_chain s
           (fst (run_spatial infrastructure gl rd fi s))
           (snd (run_spatial infrastructure gl rd fi s))
           (fst (aoi_temporal gl rd fi)) (snd (aoi_temporal gl rd fi))
           (calculate_sentinel_scores sen)
           (fst (calculate_alert_density_score gl rd fi box))
           (snd (calculate_alert_density_score gl rd fi box))
           (fst (calculate_sentiment_score sent)) (snd (calculate_sentiment_score sent)) =
         Inr (run_chain box gl rd fi sen infrastructure sent s))
   \<and> (\<forall>s. run_spatial infrastructure gl rd fi s =
         (if filter (\<lambda>n. infra_name n = Some (company_name s)
                          \<or> tags n ''operator'' = Some (company_name s)
                          \<or> tags n ''company'' = Some (company_name s)) infrastructure \<noteq> []
          then calculate_spatial_proximity_score
                 (filter (\<lambda>n. infra_name n = Some (company_name s)
                               \<or> tags n ''operator'' = Some (company_name s)
                               \<or> tags n ''company'' = Some (company_name s)) infrastructure)
                 (map Glad gl @ map Radd rd @ map Fire fi) 5000
          else (fst (calculate_spatial_proximity_score infrastructure
                       (map Glad gl @ map Radd rd @ map Fire fi) 5000) * (1 / 2),
                snd (calculate_spatial_proximity_score infrastructure
                       (map Glad gl @ map Radd rd @ map Fire fi) 5000))))
   \<and> (\<forall>s s'. filter (\<lambda>kv. fst kv \<noteq> ''spatial_proximity'')
                 (link_weights (links (run_chain box gl rd fi sen infrastructure sent s))) =
               filter (\<lambda>kv. fst kv \<noteq> ''spatial_proximity'')
                 (link_weights (links (run_chain box gl rd fi sen infrastructure sent s'))))"
proof (intro conjI allI)
  show "\<exists>conf. correlate_events box tf hs gl rd fi sen infrastructure ss sent =
       Inr (sort_by_total_weight_desc
              (map (run_chain box gl rd fi sen infrastructure sent) ss), conf)"
    unfolding correlate_events_eq by blast
next
  fix s
  show "build_evidence_chain s
           (fst (run_spatial infrastructure gl rd fi s))
           (snd (run_spatial infrastructure gl rd fi s))
           (fst (aoi_temporal gl rd fi)) (snd (aoi_temporal gl rd fi))
           (calculate_sentinel_scores sen)
           (fst (calculate_alert_density_score gl rd fi box))
           (snd (calculate_alert_density_score gl rd fi box))
           (fst (calculate_sentiment_score sent)) (snd (calculate_sentiment_score sent)) =
         Inr (run_chain box gl rd fi sen infrastructure sent s)"
    by (rule run_chain_build)
next
  fix s
  show "run_spatial infrastructure gl rd fi s =
         (if filter (\<lambda>n. infra_name n = Some (company_name s)
                          \<or> tags n ''operator'' = Some (company_name s)
                          \<or> tags n ''company'' = Some (company_name s)) infrastructure \<noteq> []
          then calculate_spatial_proximity_score
                 (filter (\<lambda>n. infra_name n = Some (company_name s)
                               \<or> tags n ''operator'' = Some (company_name s)
                               \<or> tags n ''company'' = Some (company_name s)) infrastructure)
                 (map Glad gl @ map Radd rd @ map Fire fi) 5000
          else (fst (calculate_spatial_proximity_score infrastructure
                       (map Glad gl @ map Radd rd @ map Fire fi) 5000) * (1 / 2),
                snd (calculate_spatial_proximity_score infrastructure
                       (map Glad gl @ map Radd rd @ map Fire fi) 5000)))"
    by (simp add: run_spatial_def name_matches_def [abs_def] aoi_spatial_def aoi_alerts_def
        aoi_deforestation_def MAX_PROXIMITY_DISTANCE_M_def)
next
  fix s s'
  show "filter (\<lambda>kv. fst kv \<noteq> ''spatial_proximity'')
                 (link_weights (links (run_chain box gl rd fi sen infrastructure sent s))) =
               filter (\<lambda>kv. fst kv \<noteq> ''spatial_proximity'')
                 (link_weights (links (run_chain box gl rd fi sen infrastructure sent s')))"
    by (rule other_links_shared)
qed

theorem suspect_specific_spatial_score_witness:
  "(\<exists>conf. correlate_events example_box (0, 0) None [example_glad 0] [] [] None
       [example_node] example_suspects None =
       Inr (map (run_chain example_box [example_glad 0] [] [] None [example_node] None)
              [example_company ''Test Factory'', example_company ''Acme'',
               example_company ''Zenith''], conf))
   \<and> link_weights (links (run_chain example_box [example_glad 0] [] [] None [example_node]
        None (example_company ''Test Factory''))) =
       [(''spatial_proximity'', 15 / 100 * (25 / 100)), (''alert_density'', 2 / 4107 * (10 / 100))]
   \<and> link_weights (links (run_chain example_box [example_glad 0] [] [] None [example_node]
        None (example_company ''Acme''))) =
       [(''spatial_proximity'', 75 / 1000 * (25 / 100)), (''alert_density'', 2 / 4107 * (10 / 100))]"
proof -
  note t = suspect_specific_spatial_score
    [of example_box "(0, 0)" None "[example_glad 0]" "[]" "[]" None "[example_node]"
        example_suspects None]
  from t obtain conf where
    "correlate_events example_box (0, 0) None [example_glad 0] [] [] None
       [example_node] example_suspects None =
     Inr (sort_by_total_weight_desc
            (map (run_chain example_box [example_glad 0] [] [] None [example_node] None)
               example_suspects), conf)"
    by blast
  then have "\<exists>conf. correlate_events example_box (0, 0) None [example_glad 0] [] [] None
       [example_node] example_suspects None =
       Inr (map (run_chain example_box [example_glad 0] [] [] None [example_node] None)
              [example_company ''Test Factory'', example_company ''Acme'',
               example_company ''Zenith''], conf)"
    unfolding example_sorted by blast
  then show ?thesis
    by (simp add: example_link_weights)
qed

text \<open>
  C9: the chains returned are sorted by descending total weight, and the chains of any one
  weight keep the order of the list built in the order of the input suspects.
\<close>

theorem evidence_chains_sorted_stable:
  "\<exists>pre chains conf.
     correlate_events box tf hs gl rd fi sen infrastructure ss sent = Inr (chains, conf)
     \<and> map suspect pre = ss
     \<and> sorted_wrt (\<lambda>a b. total_weight b \<le> total_weight a) chains
     \<and> (\<forall>w. filter (\<lambda>c. total_weight c = w) chains = filter (\<lambda>c. total_weight c = w) pre)"
proof -
  let ?pre = "map (run_chain box gl rd fi sen infrastructure sent) ss"
  have "map suspect ?pre = ss"
    by (simp add: o_def run_chain_suspect)
  then show ?thesis
    using correlate_events_eq [of box tf hs gl rd fi sen infrastructure ss sent]
      sorted_sort_desc [of ?pre] sort_desc_stable [of _ ?pre]
    by blast
qed

theorem evidence_chains_sorted_stable_witness:
  "\<exists>pre chains conf.
     correlate_events example_box (0, 0) None [example_glad 0] [] [] None [example_node]
       example_suspects None = Inr (chains, conf)
     \<and> map suspect pre = example_suspects
     \<and> sorted_wrt (\<lambda>a b. total_weight b \<le> total_weight a) chains
     \<and> (\<forall>w. filter (\<lambda>c. total_weight c = w) chains = filter (\<lambda>c. total_weight c = w) pre)
     \<and> map suspect chains =
         [example_company ''Test Factory'', example_company ''Acme'', example_company ''Zenith'']
     \<and> map total_weight chains = [38 / 1000, 19 / 1000, 19 / 1000]"
proof -
  from evidence_chains_sorted_stable
    [of example_box "(0, 0)" None "[example_glad 0]" "[]" "[]" None "[example_node]"
        example_suspects None]
  obtain pre chains conf where p:
    "correlate_events example_box (0, 0) None [example_glad 0] [] [] None [example_node]
       example_suspects None = Inr (chains, conf)"
    "map suspect pre = example_suspects"
    "sorted_wrt (\<lambda>a b. total_weight b \<le> total_weight a) chains"
    "\<forall>w. filter (\<lambda>c. total_weight c = w) chains = filter (\<lambda>c. total_weight c = w) pre"
    by blast
  have "chains = map (run_chain example_box [example_glad 0] [] [] None [example_node] None)
         [example_company ''Test Factory'', example_company ''Acme'', example_company ''Zenith'']"
    using p(1) unfolding correlate_events_eq example_sorted by simp
  then have m: "map suspect chains =
         [example_company ''Test Factory'', example_company ''Acme'', example_company ''Zenith'']"
    "map total_weight chains = [38 / 1000, 19 / 1000, 19 / 1000]"
    by (simp_all add: run_chain_suspect example_total_weight)
  show ?thesis
    by (intro exI [of _ pre] exI [of _ chains] exI [of _ conf] conjI) (rule p m)+
qed

section \<open>Combined sentiment\<close>

lemma sentiment_step_absent:
  "\<not> has_samples (snd ws) \<Longrightarrow> sentiment_step ws st = st"
  by (simp add: sentiment_step_def has_samples_def split: option.splits)

lemma sentiment_step_present:
  "snd ws = Some sc \<Longrightarrow> 0 < count sc \<Longrightarrow>
   sentiment_step ws (a, b, c) =
     (double_of (a + double_of (score sc * fst ws)), double_of (b + fst ws), c + count sc)"
  by (simp add: sentiment_step_def)

lemma present_of_Cons:
  "present_of (p # srcs) =
     (case snd p of None \<Rightarrow> [] | Some sc \<Rightarrow> if 0 < count sc then [(fst p, sc)] else [])
     @ present_of srcs"
  by (simp add: present_of_def)

lemma present_of_absent:
  "\<not> has_samples (snd p) \<Longrightarrow> present_of (p # srcs) = present_of srcs"
  by (auto simp: present_of_Cons has_samples_def split: option.splits)

lemma present_of_present:
  "snd p = Some sc \<Longrightarrow> 0 < count sc \<Longrightarrow> present_of (p # srcs) = (fst p, sc) # present_of srcs"
  by (simp add: present_of_Cons)

lemma weighted_step_error:
  fixes a A b B e W s :: real
  assumes a: "\<bar>a - A\<bar> \<le> e" and b: "\<bar>b - B\<bar> \<le> e" and AB: "\<bar>A\<bar> \<le> B"
    and e: "0 \<le> e" "e \<le> 1 / 2" and W: "0 < W" "B + W \<le> 1" and s: "- 1 \<le> s" "s \<le> 1"
  shows "\<bar>double_of (a + double_of (s * double_of W)) - (A + W * s)\<bar> \<le> e + 4 * unit_roundoff"
    and "\<bar>double_of (b + double_of W) - (B + W)\<bar> \<le> e + 4 * unit_roundoff"
    and "\<bar>A + W * s\<bar> \<le> B + W"
proof -
  define u where "u = unit_roundoff"
  have u: "0 < u" "u \<le> 1 / 8" using unit_roundoff_bounds by (simp_all add: u_def)
  define w where "w = double_of W"
  have W1: "\<bar>W\<bar> \<le> 1" using W AB by linarith
  have w: "\<bar>w - W\<bar> \<le> u" "\<bar>w\<bar> \<le> 1" "0 \<le> w"
    using double_of_unit [OF W1] double_of_nonneg [of W] W by (simp_all add: w_def u_def)
  have s1: "\<bar>s\<bar> \<le> 1" using s by linarith
  have sw: "\<bar>s * w\<bar> \<le> 1"
    unfolding abs_mult using s1 w(2) by (intro mult_le_one) simp_all
  define t where "t = double_of (s * w)"
  have t: "\<bar>t - s * w\<bar> \<le> u" using double_of_unit(1) [OF sw] by (simp add: t_def u_def)
  have "\<bar>s * w - W * s\<bar> = \<bar>s\<bar> * \<bar>w - W\<bar>" by (simp add: abs_mult [symmetric] algebra_simps)
  also have "\<dots> \<le> 1 * u" using s1 w(1) by (intro mult_mono) simp_all
  finally have d: "\<bar>s * w - W * s\<bar> \<le> u" by simp
  have "\<bar>W * s\<bar> = W * \<bar>s\<bar>" using W by (simp add: abs_mult)
  also have "\<dots> \<le> W * 1" using s1 W by (intro mult_left_mono) simp_all
  finally have Ws: "\<bar>W * s\<bar> \<le> W" by simp
  show "\<bar>A + W * s\<bar> \<le> B + W" using AB Ws by linarith
  have "\<bar>a + t\<bar> \<le> 2" using a AB e W t d Ws u by linarith
  then have "\<bar>double_of (a + t) - (a + t)\<bar> \<le> 2 * u"
    using double_of_two [of "a + t"] by (simp add: u_def)
  then have "\<bar>double_of (a + t) - (A + W * s)\<bar> \<le> e + 4 * u" using a t d by linarith
  then show "\<bar>double_of (a + double_of (s * double_of W)) - (A + W * s)\<bar> \<le> e + 4 * unit_roundoff"
    by (simp add: t_def w_def u_def)
  have "\<bar>b + w\<bar> \<le> 2" using b AB e W w u by linarith
  then have "\<bar>double_of (b + w) - (b + w)\<bar> \<le> 2 * u"
    using double_of_two [of "b + w"] by (simp add: u_def)
  then have "\<bar>double_of (b + w) - (B + W)\<bar> \<le> e + 4 * u" using b w u by linarith
  then show "\<bar>double_of (b + double_of W) - (B + W)\<bar> \<le> e + 4 * unit_roundoff"
    by (simp add: w_def u_def)
qed

lemma fold_sentiment_step_error:
  assumes "\<And>p. p \<in> set srcs \<Longrightarrow> 0 < fst p \<and> valid_sentiment (snd p)"
    and "B + sum_list (map fst srcs) \<le> 1"
    and "\<bar>a - A\<bar> \<le> e" and "\<bar>b - B\<bar> \<le> e" and "\<bar>A\<bar> \<le> B" and "0 \<le> e"
    and "e + 4 * real (length srcs) * unit_roundoff \<le> 1 / 2"
  shows "\<exists>a' b'.
      fold sentiment_step (map (\<lambda>p. (double_of (fst p), snd p)) srcs) (a, b, c) =
        (a', b', c + sum_list (map (\<lambda>p. count (snd p)) (present_of srcs)))
      \<and> \<bar>a' - (A + sum_list (map (\<lambda>p. fst p * score (snd p)) (present_of srcs)))\<bar>
          \<le> e + 4 * real (length srcs) * unit_roundoff
      \<and> \<bar>b' - (B + sum_list (map fst (present_of srcs)))\<bar>
          \<le> e + 4 * real (length srcs) * unit_roundoff
      \<and> \<bar>A + sum_list (map (\<lambda>p. fst p * score (snd p)) (present_of srcs))\<bar>
          \<le> B + sum_list (map fst (present_of srcs))"
  using assms
proof (induction srcs arbitrary: a b c A B e)
  case Nil
  then show ?case by (simp add: present_of_def)
next
  case (Cons p srcs)
  have pos: "0 < fst p" using Cons.prems(1) [of p] by simp
  have rest: "0 < fst q \<and> valid_sentiment (snd q)" if "q \<in> set srcs" for q
    using Cons.prems(1) [of q] that by simp
  have nn: "0 \<le> sum_list (map fst srcs)"
    by (rule sum_list_nonneg) (use rest in force)
  have len: "e + 4 * real (length srcs) * unit_roundoff + 4 * unit_roundoff =
      e + 4 * real (length (p # srcs)) * unit_roundoff"
    by (simp add: field_simps)
  show ?case
  proof (cases "has_samples (snd p)")
    case False
    have w: "B + sum_list (map fst srcs) \<le> 1" using Cons.prems(2) pos by simp
    have l: "e + 4 * real (length srcs) * unit_roundoff \<le> 1 / 2"
      using Cons.prems(7) len unit_roundoff_bounds(1) by linarith
    obtain a' b' where r:
      "fold sentiment_step (map (\<lambda>p. (double_of (fst p), snd p)) srcs) (a, b, c) =
         (a', b', c + sum_list (map (\<lambda>p. count (snd p)) (present_of srcs)))"
      "\<bar>a' - (A + sum_list (map (\<lambda>p. fst p * score (snd p)) (present_of srcs)))\<bar>
          \<le> e + 4 * real (length srcs) * unit_roundoff"
      "\<bar>b' - (B + sum_list (map fst (present_of srcs)))\<bar>
          \<le> e + 4 * real (length srcs) * unit_roundoff"
      "\<bar>A + sum_list (map (\<lambda>p. fst p * score (snd p)) (present_of srcs))\<bar>
          \<le> B + sum_list (map fst (present_of srcs))"
      using Cons.IH [OF rest w Cons.prems(3) Cons.prems(4) Cons.prems(5) Cons.prems(6) l, of c]
      by blast
    have st: "sentiment_step (double_of (fst p), snd p) (a, b, c) = (a, b, c)"
      using False by (intro sentiment_step_absent) simp
    have m: "e + 4 * real (length srcs) * unit_roundoff
        \<le> e + 4 * real (length (p # srcs)) * unit_roundoff"
      using len unit_roundoff_bounds(1) by linarith
    note r2 = order_trans [OF r(2) m] and r3 = order_trans [OF r(3) m]
    show ?thesis
      unfolding present_of_absent [OF False]
      by (rule exI [of _ a'], rule exI [of _ b'], intro conjI)
        (simp add: st r(1), rule r2, rule r3, rule r(4))
  next
    case True
    then obtain sc where sc: "snd p = Some sc" "0 < count sc"
      by (auto simp: has_samples_def split: option.splits)
    have v: "- 1 \<le> score sc" "score sc \<le> 1"
      using Cons.prems(1) [of p] sc by (simp_all add: valid_sentiment_def)
    have BW: "B + fst p \<le> 1" using Cons.prems(2) nn by simp
    have "0 \<le> 4 * real (length (p # srcs)) * unit_roundoff"
      using unit_roundoff_bounds(1) by simp
    then have e2: "e \<le> 1 / 2" using Cons.prems(7) by linarith
    note step = weighted_step_error [OF Cons.prems(3) Cons.prems(4) Cons.prems(5) Cons.prems(6)
        e2 pos BW v]
    define a1 where "a1 = double_of (a + double_of (score sc * double_of (fst p)))"
    define b1 where "b1 = double_of (b + double_of (fst p))"
    have w: "B + fst p + sum_list (map fst srcs) \<le> 1" using Cons.prems(2) by simp
    have e0: "0 \<le> e + 4 * unit_roundoff"
      using Cons.prems(6) unit_roundoff_bounds(1) by simp
    have l: "e + 4 * unit_roundoff + 4 * real (length srcs) * unit_roundoff \<le> 1 / 2"
      using Cons.prems(7) len by linarith
    obtain a' b' where r:
      "fold sentiment_step (map (\<lambda>p. (double_of (fst p), snd p)) srcs) (a1, b1, c + count sc) =
         (a', b', c + count sc + sum_list (map (\<lambda>p. count (snd p)) (present_of srcs)))"
      "\<bar>a' - (A + fst p * score sc
           + sum_list (map (\<lambda>p. fst p * score (snd p)) (present_of srcs)))\<bar>
          \<le> e + 4 * unit_roundoff + 4 * real (length srcs) * unit_roundoff"
      "\<bar>b' - (B + fst p + sum_list (map fst (present_of srcs)))\<bar>
          \<le> e + 4 * unit_roundoff + 4 * real (length srcs) * unit_roundoff"
      "\<bar>A + fst p * score sc + sum_list (map (\<lambda>p. fst p * score (snd p)) (present_of srcs))\<bar>
          \<le> B + fst p + sum_list (map fst (present_of srcs))"
      using Cons.IH [OF rest w step(1) [folded a1_def] step(2) [folded b1_def] step(3) e0 l,
          of "c + count sc"]
      by blast
    have st: "sentiment_step (double_of (fst p), snd p) (a, b, c) = (a1, b1, c + count sc)"
      using sc by (simp add: sentiment_step_present a1_def b1_def)
    have m: "e + 4 * unit_roundoff + 4 * real (length srcs) * unit_roundoff
        = e + 4 * real (length (p # srcs)) * unit_roundoff"
      using len by linarith
    have r2: "\<bar>a' - (A + (fst p * score sc
           + sum_list (map (\<lambda>p. fst p * score (snd p)) (present_of srcs))))\<bar>
          \<le> e + 4 * real (length (p # srcs)) * unit_roundoff"
      using r(2) m by linarith
    have r3: "\<bar>b' - (B + (fst p + sum_list (map fst (present_of srcs))))\<bar>
          \<le> e + 4 * real (length (p # srcs)) * unit_roundoff"
      using r(3) m by linarith
    have r4: "\<bar>A + (fst p * score sc
           + sum_list (map (\<lambda>p. fst p * score (snd p)) (present_of srcs)))\<bar>
          \<le> B + (fst p + sum_list (map fst (present_of srcs)))"
      using r(4) by linarith
    have f: "fold sentiment_step (map (\<lambda>p. (double_of (fst p), snd p)) (p # srcs)) (a, b, c) =
        (a', b', c + sum_list (map (\<lambda>p. count (snd p)) ((fst p, sc) # present_of srcs)))"
      by (simp add: st r(1) add.assoc)
    show ?thesis
      unfolding present_of_present [OF sc]
      apply (rule exI [of _ a'], rule exI [of _ b'], intro conjI)
         apply (rule f)
        apply (simp only: list.map sum_list.Cons fst_conv snd_conv)
        apply (rule r2)
       apply (simp only: list.map sum_list.Cons fst_conv snd_conv)
       apply (rule r3)
      apply (simp only: list.map sum_list.Cons fst_conv snd_conv)
      apply (rule r4)
      done
  qed
qed

lemma fold_sentiment_step_none:
  "present_of srcs = [] \<Longrightarrow>
   fold sentiment_step (map (\<lambda>p. (f (fst p), snd p)) srcs) st = st"
proof (induction srcs)
  case Nil
  show ?case by simp
next
  case (Cons p srcs)
  have a: "\<not> has_samples (snd p)" and r: "present_of srcs = []"
    using Cons.prems by (auto simp: present_of_Cons has_samples_def split: option.splits if_splits)
  show ?case using a r Cons.IH by (simp add: sentiment_step_absent)
qed

lemma present_of_Nil: "present_of [] = []"
  by (simp add: present_of_def)

lemma length_filter_has_samples:
  "length (filter (\<lambda>ws. has_samples (snd ws)) (map (\<lambda>p. (f (fst p), snd p)) srcs)) =
     length (present_of srcs)"
  by (induction srcs)
     (simp_all add: present_of_Nil present_of_Cons has_samples_def split: option.splits)

lemma fold_sentiment_step_count:
  "snd (snd (fold sentiment_step (map (\<lambda>p. (f (fst p), snd p)) srcs) (a, b, c))) =
     c + sum_list (map (\<lambda>p. count (snd p)) (present_of srcs))"
proof (induction srcs arbitrary: a b c)
  case Nil
  show ?case by (simp add: present_of_Nil)
next
  case (Cons p srcs)
  show ?case
  proof (cases "has_samples (snd p)")
    case False
    then show ?thesis
      by (simp add: sentiment_step_absent present_of_absent Cons.IH)
  next
    case True
    then obtain sc where sc: "snd p = Some sc" "0 < count sc"
      by (auto simp: has_samples_def split: option.splits)
    show ?thesis
      by (simp add: sentiment_step_present [OF _ sc(2)] sc(1) present_of_present [OF sc] Cons.IH)
  qed
qed

lemma quotient_error:
  fixes a A b B e :: real
  assumes a: "\<bar>a - A\<bar> \<le> e" and b: "\<bar>b - B\<bar> \<le> e" and AB: "\<bar>A\<bar> \<le> B"
    and B: "2 / 10 \<le> B" and e: "0 \<le> e" "e \<le> 1 / 100"
  shows "\<bar>a / b - A / B\<bar> \<le> 11 * e" and "0 < b"
proof -
  show p: "0 < b" using b B e by linarith
  have b19: "19 / 100 \<le> b" using b B e by linarith
  have Bp: "0 < B" using B by simp
  have q: "a / b - A / B = ((a - A) * B - A * (b - B)) / (b * B)"
    using p Bp by (simp add: field_simps)
  have "\<bar>(a - A) * B\<bar> \<le> e * B"
    unfolding abs_mult using a Bp by (intro mult_mono) simp_all
  moreover have "\<bar>A * (b - B)\<bar> \<le> B * e"
    unfolding abs_mult using AB b e by (intro mult_mono) simp_all
  then have "\<bar>A * (b - B)\<bar> \<le> e * B" by (simp add: mult.commute)
  ultimately have n: "\<bar>(a - A) * B - A * (b - B)\<bar> \<le> e * B + e * B" by linarith
  have "\<bar>a / b - A / B\<bar> = \<bar>(a - A) * B - A * (b - B)\<bar> / (b * B)"
    unfolding q using p Bp by (simp add: abs_mult)
  also have "\<dots> \<le> (e * B + e * B) / (b * B)"
    using n p Bp by (intro divide_right_mono) simp_all
  also have "\<dots> = 2 * e / b" using Bp p by (simp add: field_simps)
  also have "\<dots> \<le> 11 * e"
  proof -
    have "2 * e \<le> 11 * e * (19 / 100)" using e by simp
    also have "\<dots> \<le> 11 * e * b" using b19 e by (intro mult_left_mono) simp_all
    finally show ?thesis using p by (simp add: pos_divide_le_eq)
  qed
  finally show "\<bar>a / b - A / B\<bar> \<le> 11 * e" .
qed

lemma three_decimals:
  fixes x y :: real
  assumes "\<bar>x - y\<bar> \<le> 134 * unit_roundoff" and "\<bar>y\<bar> \<le> 1"
  defines "k \<equiv> round_half_even (x * 1000)"
  shows "py_round x 3 = of_int k / 1000"
    and "\<bar>of_int k / 1000 - y\<bar> \<le> 1 / 2000 + 1 / 10 ^ 12"
    and "\<bar>double_of (py_round x 3)\<bar> \<le> 1"
    and "0 \<le> y \<Longrightarrow> 0 \<le> double_of (py_round x 3)"
proof -
  have u: "134 * unit_roundoff \<le> 1 / 10 ^ 12"
    by (simp add: unit_roundoff_def)
  show p: "py_round x 3 = of_int k / 1000" by (simp add: py_round_def k_def)
  have r: "\<bar>of_int k - x * 1000\<bar> \<le> 1 / 2"
    unfolding k_def by (rule round_half_even_error)
  then have c: "\<bar>of_int k / 1000 - x\<bar> \<le> 1 / 2000" by (simp add: field_simps abs_le_iff)
  show d: "\<bar>of_int k / 1000 - y\<bar> \<le> 1 / 2000 + 1 / 10 ^ 12"
    using c assms(1) u by linarith
  define z :: real where "z = of_int k / 1000"
  have small: "(1 :: real) / 10 ^ 12 < 1 / 2000" by simp
  have "\<bar>z\<bar> < 1001 / 1000" using d assms(2) small unfolding z_def [symmetric] by linarith
  moreover have "real_of_int k = z * 1000" by (simp add: z_def)
  ultimately have "\<bar>real_of_int k\<bar> < 1001" by linarith
  then have "\<bar>k\<bar> < 1001" by linarith
  then have "\<bar>k\<bar> \<le> 1000" by simp
  then have "\<bar>real_of_int k\<bar> \<le> 1000" by linarith
  then have "\<bar>of_int k / 1000 :: real\<bar> \<le> 1" by simp
  then show "\<bar>double_of (py_round x 3)\<bar> \<le> 1" unfolding p by (rule double_of_unit)
  show "0 \<le> double_of (py_round x 3)" if "0 \<le> y"
  proof -
    have "- 1 / 1000 < z" using d that small unfolding z_def [symmetric] by linarith
    then have "real_of_int (- 1) < of_int k" by (simp add: z_def)
    then have "0 \<le> k" by linarith
    then show ?thesis unfolding p by (intro double_of_nonneg) simp
  qed
qed

lemma scaled_error:
  fixes x X c :: real
  assumes "\<bar>x - X\<bar> \<le> unit_roundoff" and "0 \<le> x" and "x \<le> 1" and "0 \<le> c" and "c \<le> 1"
  shows "\<bar>double_of (x * double_of c) - c * X\<bar> \<le> 3 * unit_roundoff"
    and "0 \<le> double_of (x * double_of c)"
proof -
  define u where "u = unit_roundoff"
  define k where "k = double_of c"
  have c1: "\<bar>c\<bar> \<le> 1" using assms by simp
  have k: "\<bar>k - c\<bar> \<le> u" "\<bar>k\<bar> \<le> 1" "0 \<le> k"
    using double_of_unit [OF c1] double_of_nonneg [OF assms(4)] by (simp_all add: k_def u_def)
  have xk: "\<bar>x * k\<bar> \<le> 1"
    unfolding abs_mult using assms k by (intro mult_le_one) simp_all
  have e1: "\<bar>double_of (x * k) - x * k\<bar> \<le> u"
    using double_of_unit(1) [OF xk] by (simp add: u_def)
  have "x * k - c * X = x * (k - c) + c * (x - X)" by (simp add: algebra_simps)
  moreover have "\<bar>x * (k - c)\<bar> \<le> 1 * u"
    unfolding abs_mult using assms k by (intro mult_mono) simp_all
  moreover have "\<bar>c * (x - X)\<bar> \<le> 1 * u"
    unfolding abs_mult using assms by (intro mult_mono) (simp_all add: u_def)
  ultimately have "\<bar>x * k - c * X\<bar> \<le> 2 * u" by linarith
  then show "\<bar>double_of (x * double_of c) - c * X\<bar> \<le> 3 * unit_roundoff"
    using e1 by (simp add: k_def u_def)
  show "0 \<le> double_of (x * double_of c)"
    using assms k by (intro double_of_nonneg mult_nonneg_nonneg) (simp_all add: k_def)
qed

lemma sample_confidence_error:
  fixes x :: real
  assumes "0 \<le> x"
  shows "\<bar>min 1 (double_of x) - min 1 x\<bar> \<le> unit_roundoff"
    and "0 \<le> min 1 (double_of x)" and "min 1 (double_of x) \<le> 1"
proof -
  show "0 \<le> min 1 (double_of x)" using double_of_nonneg [OF assms] by simp
  show "min 1 (double_of x) \<le> 1" by simp
  show "\<bar>min 1 (double_of x) - min 1 x\<bar> \<le> unit_roundoff"
  proof (cases "x \<le> 1")
    case True
    then have "\<bar>double_of x - x\<bar> \<le> unit_roundoff"
      using assms by (intro double_of_unit) simp
    then show ?thesis by (simp add: min_def) linarith
  next
    case False
    then have "1 \<le> double_of x" by (intro double_of_ge_one) simp
    then show ?thesis using False unit_roundoff_bounds(1) by (simp add: min_def)
  qed
qed

lemma confidence_error:
  fixes x y :: real
  assumes "0 \<le> x" and "0 \<le> y" and "y \<le> 1"
  shows "\<bar>double_of (double_of (min 1 (double_of x) * double_of (6 / 10))
                     + double_of (double_of y * double_of (4 / 10)))
          - (6 / 10 * min 1 x + 4 / 10 * y)\<bar> \<le> 8 * unit_roundoff"
proof -
  define u where "u = unit_roundoff"
  have u: "0 < u" "u \<le> 1 / 100" using unit_roundoff_bounds by (simp_all add: u_def)
  define p where "p = double_of (min 1 (double_of x) * double_of (6 / 10))"
  define q where "q = double_of (double_of y * double_of (4 / 10))"
  have p: "\<bar>p - 6 / 10 * min 1 x\<bar> \<le> 3 * u"
    unfolding p_def u_def
    by (rule scaled_error(1) [OF sample_confidence_error [OF assms(1)]]) simp_all
  have y: "\<bar>double_of y - y\<bar> \<le> unit_roundoff" "\<bar>double_of y\<bar> \<le> 1" "0 \<le> double_of y"
    using double_of_unit [of y] double_of_nonneg [OF assms(2)] assms by simp_all
  have q: "\<bar>q - 4 / 10 * y\<bar> \<le> 3 * u"
    unfolding q_def u_def
    using y by (intro scaled_error(1)) simp_all
  have m: "0 \<le> min 1 x" "min 1 x \<le> 1" using assms(1) by simp_all
  have "\<bar>p + q\<bar> \<le> 2" using p q m assms u by linarith
  then have "\<bar>double_of (p + q) - (p + q)\<bar> \<le> 2 * u"
    unfolding u_def by (rule double_of_two)
  then have "\<bar>double_of (p + q) - (6 / 10 * min 1 x + 4 / 10 * y)\<bar> \<le> 8 * u"
    using p q by linarith
  then show ?thesis by (simp add: p_def q_def u_def)
qed

lemma present_sources_weight:
  "present_sources g d r \<noteq> [] \<Longrightarrow> 2 / 10 \<le> sum_list (map fst (present_sources g d r))"
  by (auto simp: present_sources_def present_of_def split: option.splits if_splits)

lemma total_samples_nonneg: "0 \<le> total_samples g d r"
  unfolding total_samples_def
  by (rule sum_list_nonneg)
     (auto simp: present_sources_def present_of_def split: option.splits if_splits)

lemma present_sources_length: "length (present_sources g d r) \<le> 3"
  by (simp add: present_sources_def present_of_def split: option.splits)

lemma weighted_sum_result:
  assumes "valid_sentiment g" and "valid_sentiment d" and "valid_sentiment r"
  shows "\<exists>ws tw.
      fold sentiment_step
        [(double_of (5 / 10), g), (double_of (3 / 10), d), (double_of (2 / 10), r)] (0, 0, 0) =
        (ws, tw, total_samples g d r)
      \<and> \<bar>(if 0 < tw then double_of (ws / tw) else 0) - spec_final_polarity g d r\<bar>
          \<le> 134 * unit_roundoff"
proof (cases "present_sources g d r = []")
  case True
  have "fold sentiment_step
      (map (\<lambda>p. (double_of (fst p), snd p)) [(5 / 10, g), (3 / 10, d), (2 / 10, r)]) (0, 0, 0)
      = (0, 0, 0)"
    using True unfolding present_sources_def by (rule fold_sentiment_step_none)
  then show ?thesis
    using True unit_roundoff_bounds(1)
    by (intro exI [of _ 0]) (simp add: total_samples_def spec_final_polarity_def)
next
  case False
  let ?srcs = "[(5 / 10, g), (3 / 10, d), (2 / 10, r)] :: (real \<times> SentimentScore option) list"
  define WS where "WS = sum_list (map (\<lambda>p. fst p * score (snd p)) (present_sources g d r))"
  define TW where "TW = sum_list (map fst (present_sources g d r))"
  have v: "0 < fst p \<and> valid_sentiment (snd p)" if "p \<in> set ?srcs" for p
    using that assms by auto
  have l: "(0 :: real) + 4 * real (length ?srcs) * unit_roundoff \<le> 1 / 2"
    using unit_roundoff_bounds by simp
  obtain ws tw where f:
    "fold sentiment_step (map (\<lambda>p. (double_of (fst p), snd p)) ?srcs) (0, 0, 0) =
       (ws, tw, 0 + sum_list (map (\<lambda>p. count (snd p)) (present_of ?srcs)))"
    "\<bar>ws - (0 + sum_list (map (\<lambda>p. fst p * score (snd p)) (present_of ?srcs)))\<bar>
       \<le> 0 + 4 * real (length ?srcs) * unit_roundoff"
    "\<bar>tw - (0 + sum_list (map fst (present_of ?srcs)))\<bar>
       \<le> 0 + 4 * real (length ?srcs) * unit_roundoff"
    "\<bar>0 + sum_list (map (\<lambda>p. fst p * score (snd p)) (present_of ?srcs))\<bar>
       \<le> 0 + sum_list (map fst (present_of ?srcs))"
    using fold_sentiment_step_error [of ?srcs 0 0 0 0 0 0, OF v _ _ _ _ _ l] by auto
  have a: "\<bar>ws - WS\<bar> \<le> 12 * unit_roundoff" and b: "\<bar>tw - TW\<bar> \<le> 12 * unit_roundoff"
    and c: "\<bar>WS\<bar> \<le> TW"
    using f(2) f(3) f(4) by (simp_all add: WS_def TW_def present_sources_def)
  have B: "2 / 10 \<le> TW" unfolding TW_def using False by (rule present_sources_weight)
  have e: "0 \<le> 12 * unit_roundoff" "12 * unit_roundoff \<le> 1 / 100"
    using unit_roundoff_bounds by simp_all
  note q = quotient_error [OF a b c B e]
  have "\<bar>WS / TW\<bar> \<le> 1" using c B by (simp add: abs_le_iff field_simps)
  then have "\<bar>ws / tw\<bar> \<le> 2" using q(1) e by linarith
  then have "\<bar>double_of (ws / tw) - ws / tw\<bar> \<le> 2 * unit_roundoff" by (rule double_of_two)
  then have "\<bar>double_of (ws / tw) - WS / TW\<bar> \<le> 134 * unit_roundoff" using q(1) by linarith
  then have "\<bar>(if 0 < tw then double_of (ws / tw) else 0) - spec_final_polarity g d r\<bar>
      \<le> 134 * unit_roundoff"
    using q(2) False by (simp add: spec_final_polarity_def WS_def TW_def Let_def)
  moreover have "fold sentiment_step
        [(double_of (5 / 10), g), (double_of (3 / 10), d), (double_of (2 / 10), r)] (0, 0, 0) =
        (ws, tw, total_samples g d r)"
    using f(1) by (simp add: total_samples_def present_sources_def)
  ultimately show ?thesis by blast
qed

lemma overflow_threshold: "(1 :: real) < 2 ^ 1024 - 2 ^ 970"
  by simp

lemma present_of_weights:
  "(\<And>ws. ws \<in> set srcs \<Longrightarrow> 0 < fst ws) \<Longrightarrow> p \<in> set (present_of srcs) \<Longrightarrow> 0 < fst p"
  by (auto simp: present_of_def split: option.splits if_splits)

lemma present_of_valid:
  "(\<And>ws. ws \<in> set srcs \<Longrightarrow> valid_sentiment (snd ws)) \<Longrightarrow> p \<in> set (present_of srcs) \<Longrightarrow>
   - 1 \<le> score (snd p) \<and> score (snd p) \<le> 1"
  by (fastforce simp: present_of_def valid_sentiment_def split: option.splits if_splits)

lemma present_of_count: "p \<in> set (present_of srcs) \<Longrightarrow> 0 < count (snd p)"
  by (auto simp: present_of_def split: option.splits if_splits)

lemma weighted_sum_bounds:
  "(\<And>p. p \<in> set ps \<Longrightarrow> 0 < fst p \<and> - 1 \<le> score (snd p) \<and> score (snd p) \<le> 1) \<Longrightarrow>
   - sum_list (map fst ps) \<le> sum_list (map (\<lambda>p. fst p * score (snd p)) ps)
   \<and> sum_list (map (\<lambda>p. fst p * score (snd p)) ps) \<le> sum_list (map fst ps)"
proof (induction ps)
  case Nil
  show ?case by simp
next
  case (Cons p ps)
  have h: "0 < fst p" "- 1 \<le> score (snd p)" "score (snd p) \<le> 1"
    using Cons.prems [of p] by simp_all
  have "fst p * score (snd p) \<le> fst p * 1"
    using h by (intro mult_left_mono) simp_all
  moreover have "fst p * (- 1) \<le> fst p * score (snd p)"
    using h by (intro mult_left_mono) simp_all
  moreover have "- sum_list (map fst ps) \<le> sum_list (map (\<lambda>p. fst p * score (snd p)) ps)
    \<and> sum_list (map (\<lambda>p. fst p * score (snd p)) ps) \<le> sum_list (map fst ps)"
    using Cons.prems by (intro Cons.IH) simp
  ultimately show ?case by simp
qed

lemma weights_sum_pos:
  fixes ps :: "(real \<times> 'a) list"
  assumes "ps \<noteq> []" and "\<And>p. p \<in> set ps \<Longrightarrow> 0 < fst p"
  shows "0 < sum_list (map fst ps)"
proof -
  obtain q qs where ps: "ps = q # qs" using assms(1) by (cases ps) auto
  have "0 < fst q" using assms(2) ps by simp
  moreover have "0 \<le> sum_list (map fst qs)"
  proof (rule sum_list_nonneg)
    fix x assume "x \<in> set (map fst qs)"
    then obtain p where "p \<in> set qs" "x = fst p" by auto
    then show "0 \<le> x" using assms(2) [of p] ps by simp
  qed
  ultimately show ?thesis by (simp add: ps)
qed

lemma spec_final_polarity_bounds:
  assumes "valid_sentiment g" "valid_sentiment d" "valid_sentiment r"
  shows "- 1 \<le> spec_final_polarity g d r \<and> spec_final_polarity g d r \<le> 1"
proof (cases "present_sources g d r = []")
  case True
  then show ?thesis by (simp add: spec_final_polarity_def)
next
  case False
  let ?ps = "present_sources g d r"
  have w: "0 < fst p" if "p \<in> set ?ps" for p
    using that unfolding present_sources_def by (rule present_of_weights [rotated]) auto
  have v: "- 1 \<le> score (snd p) \<and> score (snd p) \<le> 1" if "p \<in> set ?ps" for p
    using that assms unfolding present_sources_def
    by (intro present_of_valid [of "[(5 / 10, g), (3 / 10, d), (2 / 10, r)]"]) auto
  have pos: "0 < sum_list (map fst ?ps)" using False w by (rule weights_sum_pos)
  have b: "- sum_list (map fst ?ps) \<le> sum_list (map (\<lambda>p. fst p * score (snd p)) ?ps)
    \<and> sum_list (map (\<lambda>p. fst p * score (snd p)) ?ps) \<le> sum_list (map fst ?ps)"
    using w v by (intro weighted_sum_bounds) simp
  show ?thesis
    using False pos b
    by (simp add: spec_final_polarity_def Let_def pos_le_divide_eq pos_divide_le_eq)
qed

lemma spec_confidence_bounds: "0 \<le> spec_confidence g d r \<and> spec_confidence g d r \<le> 1"
proof -
  let ?ps = "present_sources g d r"
  have "0 \<le> sum_list (map (\<lambda>p. count (snd p)) ?ps)"
    by (rule sum_list_nonneg) (auto simp: present_sources_def dest: present_of_count)
  then have a: "0 \<le> min 1 (real_of_int (sum_list (map (\<lambda>p. count (snd p)) ?ps)) / 50)"
    by simp
  have b: "min 1 (real_of_int (sum_list (map (\<lambda>p. count (snd p)) ?ps)) / 50) \<le> 1"
    by simp
  have c: "real (length ?ps) / 3 \<le> 1" using present_sources_length [of g d r] by simp
  have d: "0 \<le> real (length ?ps) / 3" by simp
  show ?thesis
    unfolding spec_confidence_def Let_def using a b c d by linarith
qed

lemma int_true_divide_small:
  "b \<noteq> 0 \<Longrightarrow> \<bar>of_int a / of_int b :: real\<bar> < 2 ^ 1024 - 2 ^ 970 \<Longrightarrow>
   int_true_divide a b = Inr (double_of (of_int a / of_int b))"
  by (simp add: int_true_divide_def)

lemma keywords_of_sources:
  "concat (map (\<lambda>ws. case snd ws of None \<Rightarrow> [] | Some sc \<Rightarrow> keyword_list sc)
             [(a :: real, g), (b, d), (c, r)]) =
   concat (map (\<lambda>s. case s of None \<Rightarrow> [] | Some sc \<Rightarrow> keyword_list sc) [g, d, r])"
  by simp

lemma combined_sentiment_result:
  assumes v: "valid_sentiment g" "valid_sentiment d" "valid_sentiment r"
    and n: "total_samples g d r < 50 * (2 ^ 1024 - 2 ^ 970)"
  shows "\<exists>k m.
      compute_combined_sentiment g d r =
        Inr \<lparr>google = g, gdelt = d, reddit = r,
             final_score = double_of (of_int k / 1000),
             confidence = double_of (of_int m / 1000),
             dominant_narrative = most_common_keyword
               (concat (map (\<lambda>s. case s of None \<Rightarrow> [] | Some sc \<Rightarrow> keyword_list sc)
                          [g, d, r]))\<rparr>
      \<and> \<bar>of_int k / 1000 - spec_final_polarity g d r\<bar> \<le> 1 / 2000 + 1 / 10 ^ 12
      \<and> \<bar>of_int m / 1000 - spec_confidence g d r\<bar> \<le> 1 / 2000 + 1 / 10 ^ 12
      \<and> (present_sources g d r = [] \<longrightarrow> k = 0 \<and> m = 0)"
proof -
  obtain ws tw where f:
    "fold sentiment_step
       [(double_of (5 / 10), g), (double_of (3 / 10), d), (double_of (2 / 10), r)] (0, 0, 0) =
       (ws, tw, total_samples g d r)"
    "\<bar>(if 0 < tw then double_of (ws / tw) else 0) - spec_final_polarity g d r\<bar>
       \<le> 134 * unit_roundoff"
    using weighted_sum_result [OF v] by blast
  define fs where "fs = (if 0 < tw then double_of (ws / tw) else 0)"
  define x :: real where "x = of_int (total_samples g d r) / 50"
  define y :: real where "y = real (length (present_sources g d r)) / 3"
  define conf where
    "conf = double_of (double_of (min 1 (double_of x) * double_of (6 / 10))
                       + double_of (double_of y * double_of (4 / 10)))"
  define k where "k = round_half_even (fs * 1000)"
  define m where "m = round_half_even (conf * 1000)"
  have x: "0 \<le> x" "x < 2 ^ 1024 - 2 ^ 970"
    using total_samples_nonneg [of g d r] n by (simp_all add: x_def)
  have y: "0 \<le> y" "y \<le> 1" using present_sources_length [of g d r] by (simp_all add: y_def)
  have spec_final_abs: "\<bar>spec_final_polarity g d r\<bar> \<le> 1"
    using spec_final_polarity_bounds [OF v] by (simp add: abs_le_iff)
  note fs = three_decimals [OF f(2) [folded fs_def] spec_final_abs,
      folded k_def]
  have "\<bar>conf - (6 / 10 * min 1 x + 4 / 10 * y)\<bar> \<le> 8 * unit_roundoff"
    unfolding conf_def using x(1) y by (rule confidence_error)
  then have c: "\<bar>conf - spec_confidence g d r\<bar> \<le> 134 * unit_roundoff"
    using unit_roundoff_bounds(1)
    by (simp add: spec_confidence_def Let_def x_def y_def total_samples_def)
  have sb: "\<bar>spec_confidence g d r\<bar> \<le> 1" "0 \<le> spec_confidence g d r"
    using spec_confidence_bounds [of g d r] by simp_all
  note cf = three_decimals [OF c sb(1), folded m_def]
  have d1: "int_true_divide (total_samples g d r) 50 = Inr (double_of x)"
    using x by (simp add: int_true_divide_small x_def)
  have d2: "int_true_divide (int (length (present_sources g d r))) 3 = Inr (double_of y)"
    using y overflow_threshold by (simp add: int_true_divide_small y_def)
  have len: "length (filter (\<lambda>ws. has_samples (snd ws))
      [(double_of (5 / 10), g), (double_of (3 / 10), d), (double_of (2 / 10), r)]) =
      length (present_sources g d r)"
    using length_filter_has_samples [of double_of "[(5 / 10, g), (3 / 10, d), (2 / 10, r)]"]
    by (simp add: present_sources_def)
  have r: "compute_combined_sentiment g d r =
      new_CombinedSentiment g d r (double_of (py_round fs 3)) (double_of (py_round conf 3))
        (most_common_keyword
          (concat (map (\<lambda>s. case s of None \<Rightarrow> [] | Some sc \<Rightarrow> keyword_list sc) [g, d, r])))"
    unfolding compute_combined_sentiment_def Let_def f(1) len keywords_of_sources
    by (simp add: d1 d2 bind_exn_def fs_def conf_def)
  have ok: "- 1 \<le> double_of (py_round fs 3)" "double_of (py_round fs 3) \<le> 1"
    "0 \<le> double_of (py_round conf 3)" "double_of (py_round conf 3) \<le> 1"
    using fs(3) cf(3) cf(4) [OF sb(2)] by (simp_all add: abs_le_iff)
  have e: "k = 0 \<and> m = 0" if "present_sources g d r = []"
  proof -
    have "fold sentiment_step
        (map (\<lambda>p. (double_of (fst p), snd p)) [(5 / 10, g), (3 / 10, d), (2 / 10, r)]) (0, 0, 0)
        = (0, 0, 0)"
      using that unfolding present_sources_def by (rule fold_sentiment_step_none)
    then have "tw = 0" using f(1) by simp
    then have "fs = 0" by (simp add: fs_def)
    moreover have "conf = 0"
      using that by (simp add: conf_def x_def y_def total_samples_def double_of_zero)
    ultimately show ?thesis by (simp add: k_def m_def round_half_even_def)
  qed
  show ?thesis
    using ok fs(2) cf(2) e
    by (intro exI [of _ k] exI [of _ m])
       (simp add: r new_CombinedSentiment_def fs(1) cf(1))
qed

lemma combined_sentiment_overflow:
  assumes "50 * (2 ^ 1024 - 2 ^ 970) \<le> total_samples g d r"
  shows "compute_combined_sentiment g d r =
    Inl (Exn ''OverflowError'' ''integer division result too large for a float'')"
proof -
  have c: "snd (snd (fold sentiment_step
      [(double_of (5 / 10), g), (double_of (3 / 10), d), (double_of (2 / 10), r)] (0, 0, 0))) =
      total_samples g d r"
    using fold_sentiment_step_count [of double_of "[(5 / 10, g), (3 / 10, d), (2 / 10, r)]" 0 0 0]
    by (simp add: total_samples_def present_sources_def)
  have "real_of_int (50 * (2 ^ 1024 - 2 ^ 970)) \<le> of_int (total_samples g d r)"
    using assms by (simp only: of_int_le_iff)
  then have "(50 :: real) * (2 ^ 1024 - 2 ^ 970) \<le> of_int (total_samples g d r)"
    by simp
  then have "(2 :: real) ^ 1024 - 2 ^ 970 \<le> \<bar>of_int (total_samples g d r) / of_int 50\<bar>"
    by (simp add: field_simps)
  then have "int_true_divide (total_samples g d r) 50 =
      Inl (Exn ''OverflowError'' ''integer division result too large for a float'')"
    by (simp add: int_true_divide_def)
  then show ?thesis
    unfolding compute_combined_sentiment_def Let_def c by (simp add: bind_exn_def)
qed

lemmas double_eval = double_of_def binary_exponent.simps round_half_even_def

lemma double_of_values:
  "double_of (- (1 / 2)) = - (1 / 2)"
  "double_of (- (3 / 10)) = - (5404319552844595 / 18014398509481984)"
  "double_of (- (7 / 10)) = - (3152519739159347 / 4503599627370496)"
  "double_of (253 / 1000) = 2278821411449471 / 9007199254740992"
  by (simp_all add: double_eval)

lemma nearest_thousandth:
  fixes y :: real
  assumes "\<bar>of_int k / 1000 - y\<bar> \<le> 1 / 2000 + 1 / 10 ^ 12"
    and "\<bar>y - of_int j / 1000\<bar> \<le> 4 / 10000"
  shows "k = j"
proof -
  have small: "(1 :: real) / 10 ^ 12 < 1 / 10000" by simp
  define a :: real where "a = of_int k / 1000"
  define b :: real where "b = of_int j / 1000"
  have "\<bar>a - b\<bar> < 1 / 1000" using assms small unfolding a_def [symmetric] b_def [symmetric] by linarith
  moreover have "real_of_int k = a * 1000" "real_of_int j = b * 1000" by (simp_all add: a_def b_def)
  ultimately have "\<bar>real_of_int k - real_of_int j\<bar> < 1" by linarith
  then show ?thesis by linarith
qed

lemma three_sources:
  "present_sources (Some (sentiment_of 10 (double_of (- (5 / 10))) [''deforestation'']))
     (Some (sentiment_of 20 (double_of (- (3 / 10))) [''fire'']))
     (Some (sentiment_of 5 (double_of (- (7 / 10))) [''illegal''])) =
   [(5 / 10, sentiment_of 10 (double_of (- (5 / 10))) [''deforestation'']),
    (3 / 10, sentiment_of 20 (double_of (- (3 / 10))) [''fire'']),
    (2 / 10, sentiment_of 5 (double_of (- (7 / 10))) [''illegal''])]"
  by (simp add: present_sources_def present_of_def sentiment_of_def)

lemma one_source:
  "present_sources (Some (sentiment_of 10 (double_of (- (5 / 10))) [])) None None =
   [(5 / 10, sentiment_of 10 (double_of (- (5 / 10))) [])]"
  by (simp add: present_sources_def present_of_def sentiment_of_def)

lemma no_source: "present_sources None None None = []"
  by (simp add: present_sources_def present_of_def)

lemma three_sources_spec:
  "\<bar>spec_final_polarity (Some (sentiment_of 10 (double_of (- (5 / 10))) [''deforestation'']))
     (Some (sentiment_of 20 (double_of (- (3 / 10))) [''fire'']))
     (Some (sentiment_of 5 (double_of (- (7 / 10))) [''illegal''])) - of_int (- 480) / 1000\<bar>
     \<le> 4 / 10000"
  "\<bar>spec_confidence (Some (sentiment_of 10 (double_of (- (5 / 10))) [''deforestation'']))
     (Some (sentiment_of 20 (double_of (- (3 / 10))) [''fire'']))
     (Some (sentiment_of 5 (double_of (- (7 / 10))) [''illegal''])) - of_int 820 / 1000\<bar>
     \<le> 4 / 10000"
  "total_samples (Some (sentiment_of 10 (double_of (- (5 / 10))) [''deforestation'']))
     (Some (sentiment_of 20 (double_of (- (3 / 10))) [''fire'']))
     (Some (sentiment_of 5 (double_of (- (7 / 10))) [''illegal''])) = 35"
  unfolding spec_final_polarity_def spec_confidence_def total_samples_def three_sources Let_def
  by (simp_all add: sentiment_of_def double_of_values)

lemma one_source_spec:
  "\<bar>spec_final_polarity (Some (sentiment_of 10 (double_of (- (5 / 10))) [])) None None
     - of_int (- 500) / 1000\<bar> \<le> 4 / 10000"
  "\<bar>spec_confidence (Some (sentiment_of 10 (double_of (- (5 / 10))) [])) None None
     - of_int 253 / 1000\<bar> \<le> 4 / 10000"
  "spec_confidence (Some (sentiment_of 10 (double_of (- (5 / 10))) [])) None None = 19 / 75"
  "total_samples (Some (sentiment_of 10 (double_of (- (5 / 10))) [])) None None = 10"
  unfolding spec_final_polarity_def spec_confidence_def total_samples_def one_source Let_def
  by (simp_all add: sentiment_of_def double_of_values)

text \<open>
  Two runs in which the exact average lies halfway between two numbers of three
  decimals, 0.0005 and -0.4805: the result follows the double that the float arithmetic
  produces, 0.001 and -0.481.
\<close>

lemma tie_small:
  "compute_combined_sentiment (Some (sentiment_of 1 (double_of (1 / 1000)) []))
     (Some (sentiment_of 1 0 [])) (Some (sentiment_of 1 0 [])) =
   Inr \<lparr>google = Some (sentiment_of 1 (double_of (1 / 1000)) []),
        gdelt = Some (sentiment_of 1 0 []),
        reddit = Some (sentiment_of 1 0 []),
        final_score = double_of (1 / 1000), confidence = double_of (109 / 250),
        dominant_narrative = None\<rparr>"
proof -
  have d:
    "double_of (1 / 2) = 1 / 2"
    "double_of (3 / 10) = 5404319552844595 / 18014398509481984"
    "double_of (1 / 5) = 3602879701896397 / 18014398509481984"
    "double_of (1152921504606847 / 2305843009213693952) = 1152921504606847 / 2305843009213693952"
    "double_of (14411518807585587 / 18014398509481984) = 3602879701896397 / 4503599627370496"
    "double_of (18014398509481985 / 18014398509481984) = 1"
    "double_of (3 / 50) = 1080863910568919 / 18014398509481984"
    "double_of (3 / 5) = 5404319552844595 / 9007199254740992"
    "double_of (5841333965851680649751244142805 / 162259276829213363391578010288128) = 5188146770730811 / 144115188075855872"
    "double_of (2 / 5) = 3602879701896397 / 9007199254740992"
    "double_of (3602879701896397 / 9007199254740992) = 3602879701896397 / 9007199254740992"
    "double_of (62834222001073163 / 144115188075855872) = 7854277750134145 / 18014398509481984"
    "double_of (1 / 1000) = 1152921504606847 / 1152921504606846976"
    "double_of (109 / 250) = 7854277750134145 / 18014398509481984"
    by (simp_all add: double_eval)
  show ?thesis
    by (simp add: compute_combined_sentiment_def Let_def sentiment_step_def d double_of_zero
        double_of_one py_round_def round_half_even_def int_true_divide_def bind_exn_def
        new_CombinedSentiment_def has_samples_def most_common_keyword_def sentiment_of_def)
qed

lemma tie_three:
  "compute_combined_sentiment (Some (sentiment_of 1 (double_of (- (501 / 1000))) []))
     (Some (sentiment_of 1 (double_of (- (3 / 10))) [])) (Some (sentiment_of 1 (double_of (- (7 / 10))) [])) =
   Inr \<lparr>google = Some (sentiment_of 1 (double_of (- (501 / 1000))) []),
        gdelt = Some (sentiment_of 1 (double_of (- (3 / 10))) []),
        reddit = Some (sentiment_of 1 (double_of (- (7 / 10))) []),
        final_score = double_of (- (481 / 1000)), confidence = double_of (109 / 250),
        dominant_narrative = None\<rparr>"
proof -
  have d:
    "double_of (1 / 2) = 1 / 2"
    "double_of (3 / 10) = 5404319552844595 / 18014398509481984"
    "double_of (1 / 5) = 3602879701896397 / 18014398509481984"
    "double_of (- (4512606826625237 / 18014398509481984)) = - (4512606826625237 / 18014398509481984)"
    "double_of (- (29206669829258403248756220714025 / 324518553658426726783156020576256)) = - (3242591731706757 / 36028797018963968)"
    "double_of (- (12267805384957231 / 36028797018963968)) = - (766737836559827 / 2251799813685248)"
    "double_of (14411518807585587 / 18014398509481984) = 3602879701896397 / 4503599627370496"
    "double_of (- (11358149378044935347338468172759 / 81129638414606681695789005144064)) = - (5044031582654955 / 36028797018963968)"
    "double_of (- (17311836967612187 / 36028797018963968)) = - (4327959241903047 / 9007199254740992)"
    "double_of (18014398509481985 / 18014398509481984) = 1"
    "double_of (- (4327959241903047 / 9007199254740992)) = - (4327959241903047 / 9007199254740992)"
    "double_of (3 / 50) = 1080863910568919 / 18014398509481984"
    "double_of (3 / 5) = 5404319552844595 / 9007199254740992"
    "double_of (5841333965851680649751244142805 / 162259276829213363391578010288128) = 5188146770730811 / 144115188075855872"
    "double_of (2 / 5) = 3602879701896397 / 9007199254740992"
    "double_of (3602879701896397 / 9007199254740992) = 3602879701896397 / 9007199254740992"
    "double_of (62834222001073163 / 144115188075855872) = 7854277750134145 / 18014398509481984"
    "double_of (- (481 / 1000)) = - (4332462841530417 / 9007199254740992)"
    "double_of (109 / 250) = 7854277750134145 / 18014398509481984"
    "double_of (- (501 / 1000)) = - (4512606826625237 / 9007199254740992)"
    "double_of (- (3 / 10)) = - (5404319552844595 / 18014398509481984)"
    "double_of (- (7 / 10)) = - (3152519739159347 / 4503599627370496)"
    by (simp_all add: double_eval)
  show ?thesis
    by (simp add: compute_combined_sentiment_def Let_def sentiment_step_def d double_of_zero
        double_of_one py_round_def round_half_even_def int_true_divide_def bind_exn_def
        new_CombinedSentiment_def has_samples_def most_common_keyword_def sentiment_of_def)
qed

text \<open>
  C7, as amended: the arithmetic is binary64. For valid sub-signals with fewer than
  50 * (2^1024 - 2^970) samples in total, the combined sentiment is returned with the
  three sub-signals unchanged; its final polarity is the double nearest to a number of
  three decimals that lies within 0.0005 + 10^-12 of the weight-normalised average
  (weights 0.5, 0.3, 0.2) of the polarities of the sources with samples, and its
  confidence is the double nearest to a number of three decimals within 0.0005 + 10^-12
  of 0.6 * min(1, total samples / 50) + 0.4 * (sources with samples / 3); when no source
  has samples both are 0. From 50 * (2^1024 - 2^970) samples on, the division of the
  sample count raises OverflowError.
\<close>

theorem combined_sentiment_rounded:
  assumes "valid_sentiment g" and "valid_sentiment d" and "valid_sentiment r"
  shows "(total_samples g d r < 50 * (2 ^ 1024 - 2 ^ 970) \<longrightarrow>
           (\<exists>c k m. compute_combined_sentiment g d r = Inr c
              \<and> google c = g \<and> gdelt c = d \<and> reddit c = r
              \<and> final_score c = double_of (of_int k / 1000)
              \<and> \<bar>of_int k / 1000 - spec_final_polarity g d r\<bar> \<le> 1 / 2000 + 1 / 10 ^ 12
              \<and> confidence c = double_of (of_int m / 1000)
              \<and> \<bar>of_int m / 1000 - spec_confidence g d r\<bar> \<le> 1 / 2000 + 1 / 10 ^ 12
              \<and> (present_sources g d r = [] \<longrightarrow> final_score c = 0 \<and> confidence c = 0)))
       \<and> (50 * (2 ^ 1024 - 2 ^ 970) \<le> total_samples g d r \<longrightarrow>
            compute_combined_sentiment g d r =
              Inl (Exn ''OverflowError'' ''integer division result too large for a float''))"
proof (intro conjI impI)
  assume "total_samples g d r < 50 * (2 ^ 1024 - 2 ^ 970)"
  from combined_sentiment_result [OF assms this]
  obtain k m where r:
    "compute_combined_sentiment g d r =
        Inr \<lparr>google = g, gdelt = d, reddit = r,
             final_score = double_of (of_int k / 1000),
             confidence = double_of (of_int m / 1000),
             dominant_narrative = most_common_keyword
               (concat (map (\<lambda>s. case s of None \<Rightarrow> [] | Some sc \<Rightarrow> keyword_list sc)
                          [g, d, r]))\<rparr>"
    "\<bar>of_int k / 1000 - spec_final_polarity g d r\<bar> \<le> 1 / 2000 + 1 / 10 ^ 12"
    "\<bar>of_int m / 1000 - spec_confidence g d r\<bar> \<le> 1 / 2000 + 1 / 10 ^ 12"
    "present_sources g d r = [] \<longrightarrow> k = 0 \<and> m = 0"
    by blast
  show "\<exists>c k m. compute_combined_sentiment g d r = Inr c
              \<and> google c = g \<and> gdelt c = d \<and> reddit c = r
              \<and> final_score c = double_of (of_int k / 1000)
              \<and> \<bar>of_int k / 1000 - spec_final_polarity g d r\<bar> \<le> 1 / 2000 + 1 / 10 ^ 12
              \<and> confidence c = double_of (of_int m / 1000)
              \<and> \<bar>of_int m / 1000 - spec_confidence g d r\<bar> \<le> 1 / 2000 + 1 / 10 ^ 12
              \<and> (present_sources g d r = [] \<longrightarrow> final_score c = 0 \<and> confidence c = 0)"
    unfolding r(1)
    apply (rule exI, rule exI [of _ k], rule exI [of _ m])
    apply (intro conjI)
            apply (rule refl)
           apply simp
          apply simp
         apply simp
        apply simp
       apply (rule r(2))
      apply simp
     apply (rule r(3))
    using r(4) apply (simp add: double_of_zero)
    done
next
  assume "50 * (2 ^ 1024 - 2 ^ 970) \<le> total_samples g d r"
  then show "compute_combined_sentiment g d r =
      Inl (Exn ''OverflowError'' ''integer division result too large for a float'')"
    by (rule combined_sentiment_overflow)
qed

lemma example_doubles:
  "double_of (- (12 / 25)) = - (1080863910568919 / 2251799813685248)"
  "double_of (41 / 50) = 7385903388887613 / 9007199254740992"
  by (simp_all add: double_eval)

lemma sample_bound: "(35 :: int) < 50 * (2 ^ 1024 - 2 ^ 970)" "(10 :: int) < 50 * (2 ^ 1024 - 2 ^ 970)"
  "(0 :: int) < 50 * (2 ^ 1024 - 2 ^ 970)"
  by simp_all

lemma example_valid:
  "valid_sentiment (Some (sentiment_of 10 (double_of (- (5 / 10))) ks))"
  "valid_sentiment (Some (sentiment_of 20 (double_of (- (3 / 10))) ks))"
  "valid_sentiment (Some (sentiment_of 5 (double_of (- (7 / 10))) ks))"
  "valid_sentiment None"
  by (simp_all add: valid_sentiment_def sentiment_of_def double_of_values)

theorem combined_sentiment_rounded_witness:
  "(\<exists>c. compute_combined_sentiment
           (Some (sentiment_of 10 (double_of (- (5 / 10))) [''deforestation'']))
           (Some (sentiment_of 20 (double_of (- (3 / 10))) [''fire'']))
           (Some (sentiment_of 5 (double_of (- (7 / 10))) [''illegal''])) = Inr c
        \<and> final_score c = double_of (- (48 / 100)) \<and> confidence c = double_of (82 / 100)
        \<and> 1 / 2 < confidence c)
   \<and> (\<exists>c. compute_combined_sentiment
              (Some (sentiment_of 10 (double_of (- (5 / 10))) [])) None None = Inr c
        \<and> final_score c = - (1 / 2) \<and> confidence c = double_of (253 / 1000)
        \<and> confidence c < 1 / 2)
   \<and> (\<exists>c. compute_combined_sentiment None None None = Inr c
        \<and> final_score c = 0 \<and> confidence c = 0)"
proof (intro conjI)
  let ?g = "Some (sentiment_of 10 (double_of (- (5 / 10))) [''deforestation''])"
  let ?d = "Some (sentiment_of 20 (double_of (- (3 / 10))) [''fire''])"
  let ?r = "Some (sentiment_of 5 (double_of (- (7 / 10))) [''illegal''])"
  obtain c k m where a: "compute_combined_sentiment ?g ?d ?r = Inr c"
    "final_score c = double_of (of_int k / 1000)"
    "\<bar>of_int k / 1000 - spec_final_polarity ?g ?d ?r\<bar> \<le> 1 / 2000 + 1 / 10 ^ 12"
    "confidence c = double_of (of_int m / 1000)"
    "\<bar>of_int m / 1000 - spec_confidence ?g ?d ?r\<bar> \<le> 1 / 2000 + 1 / 10 ^ 12"
    using combined_sentiment_rounded [OF example_valid(1) example_valid(2) example_valid(3),
        of "[''deforestation'']" "[''fire'']" "[''illegal'']"]
      sample_bound(1)
    unfolding three_sources_spec(3) by blast
  have "k = - 480" using a(3) three_sources_spec(1) by (rule nearest_thousandth)
  moreover have "m = 820" using a(5) three_sources_spec(2) by (rule nearest_thousandth)
  ultimately show "\<exists>c. compute_combined_sentiment ?g ?d ?r = Inr c
        \<and> final_score c = double_of (- (48 / 100)) \<and> confidence c = double_of (82 / 100)
        \<and> 1 / 2 < confidence c"
    using a(1) a(2) a(4) by (intro exI [of _ c]) (simp add: example_doubles)
next
  let ?g = "Some (sentiment_of 10 (double_of (- (5 / 10))) [])"
  obtain c k m where a: "compute_combined_sentiment ?g None None = Inr c"
    "final_score c = double_of (of_int k / 1000)"
    "\<bar>of_int k / 1000 - spec_final_polarity ?g None None\<bar> \<le> 1 / 2000 + 1 / 10 ^ 12"
    "confidence c = double_of (of_int m / 1000)"
    "\<bar>of_int m / 1000 - spec_confidence ?g None None\<bar> \<le> 1 / 2000 + 1 / 10 ^ 12"
    using combined_sentiment_rounded [OF example_valid(1) example_valid(4) example_valid(4),
        of "[]"]
      sample_bound(2)
    unfolding one_source_spec(4) by blast
  have "k = - 500" using a(3) one_source_spec(1) by (rule nearest_thousandth)
  moreover have "m = 253" using a(5) one_source_spec(2) by (rule nearest_thousandth)
  ultimately show "\<exists>c. compute_combined_sentiment ?g None None = Inr c
        \<and> final_score c = - (1 / 2) \<and> confidence c = double_of (253 / 1000)
        \<and> confidence c < 1 / 2"
    using a(1) a(2) a(4) by (intro exI [of _ c]) (simp add: double_of_values)
next
  obtain c where a: "compute_combined_sentiment None None None = Inr c"
    "final_score c = 0 \<and> confidence c = 0"
    using combined_sentiment_rounded [OF example_valid(4) example_valid(4) example_valid(4)]
      sample_bound(3) no_source
    by (auto simp: total_samples_def)
  then show "\<exists>c. compute_combined_sentiment None None None = Inr c
        \<and> final_score c = 0 \<and> confidence c = 0"
    by blast
qed

text \<open>
  The claim C7 as stated fails: for the single source (count 10, polarity -0.5) the
  confidence returned is the double nearest to 0.253, more than 0.0003 below
  0.6 * min(1, 10/50) + 0.4 * (1/3) = 19/75.
\<close>

theorem combined_sentiment_unrounded_counterexample:
  "compute_combined_sentiment (Some (sentiment_of 10 (double_of (- (5 / 10))) [])) None None =
     Inr \<lparr>google = Some (sentiment_of 10 (double_of (- (5 / 10))) []), gdelt = None,
          reddit = None, final_score = - (1 / 2), confidence = double_of (253 / 1000),
          dominant_narrative = None\<rparr>
   \<and> spec_confidence (Some (sentiment_of 10 (double_of (- (5 / 10))) [])) None None = 19 / 75
   \<and> 3 / 10000 < 19 / 75 - double_of (253 / 1000)"
proof (intro conjI)
  have d:
    "double_of (1 / 2) = 1 / 2"
    "double_of (3 / 10) = 5404319552844595 / 18014398509481984"
    "double_of (1 / 5) = 3602879701896397 / 18014398509481984"
    "double_of (- (1 / 4)) = - (1 / 4)"
    "double_of (- (1 / 2)) = - (1 / 2)"
    "double_of (1 / 3) = 6004799503160661 / 18014398509481984"
    "double_of (3 / 5) = 5404319552844595 / 9007199254740992"
    "double_of (19471113219505603967277331424215 / 162259276829213363391578010288128) = 1080863910568919 / 9007199254740992"
    "double_of (2 / 5) = 3602879701896397 / 9007199254740992"
    "double_of (21634570243895115118877068038417 / 162259276829213363391578010288128) = 4803839602528529 / 36028797018963968"
    "double_of (9127295244804205 / 36028797018963968) = 2281823811201051 / 9007199254740992"
    "double_of (253 / 1000) = 2278821411449471 / 9007199254740992"
    by (simp_all add: double_eval)
  show "compute_combined_sentiment (Some (sentiment_of 10 (double_of (- (5 / 10))) [])) None None =
     Inr \<lparr>google = Some (sentiment_of 10 (double_of (- (5 / 10))) []), gdelt = None,
          reddit = None, final_score = - (1 / 2), confidence = double_of (253 / 1000),
          dominant_narrative = None\<rparr>"
    by (simp add: compute_combined_sentiment_def Let_def sentiment_step_def d double_of_zero
        double_of_one py_round_def round_half_even_def int_true_divide_def bind_exn_def
        new_CombinedSentiment_def has_samples_def most_common_keyword_def sentiment_of_def)
  show "spec_confidence (Some (sentiment_of 10 (double_of (- (5 / 10))) [])) None None = 19 / 75"
    by (rule one_source_spec(3))
  show "3 / 10000 < 19 / 75 - double_of (253 / 1000)"
    by (simp add: double_of_values)
qed

section \<open>Orchestration\<close>

lemma regions_valid:
  "map_of GLOBAL_REGIONS k = Some cfg \<Longrightarrow> \<exists>b. new_BBox (snd cfg) = Inr b"
  by (auto simp: GLOBAL_REGIONS_def new_BBox_def split: if_splits)

lemma validate_bbox_valid:
  "fst (validate_bbox t) \<Longrightarrow> \<exists>b. new_BBox t = Inr b"
  by (cases t) (auto simp: validate_bbox_def new_BBox_def Let_def split: if_splits)

lemma resolve_bbox_valid:
  assumes "resolve_bbox pf rg bs = Inr aoi"
  shows "\<exists>b. new_BBox aoi = Inr b"
proof (cases "truthy_str rg")
  case True
  then show ?thesis
    using assms regions_valid
    by (auto simp: resolve_bbox_def split: option.splits)
next
  case False
  then show ?thesis
    using assms validate_bbox_valid
    by (auto simp: resolve_bbox_def split: if_splits sum.splits prod.splits)
qed

lemma dossier_body_eq:
  assumes b: "new_BBox aoi = Inr b"
    and e: "(if truthy_str ed then fromisoformat env (the ed) else Inr (utcnow env)) = Inr end_dt"
    and s: "(if truthy_str sd then fromisoformat env (the sd)
             else Inr (end_dt - 90 * 86400000000)) = Inr start_dt"
  shows "dossier_body env rg aoi sd ed =
     Inr \<lparr>region = rg, bbox = b, generated_at = utcnow env,
          analysis_period_start = start_dt, analysis_period_end = end_dt,
          hansen = fst (stage_hansen env),
          gfw_glad = or_empty (fst (stage_glad env)),
          gfw_radd = or_empty (fst (stage_radd env)),
          firms = or_empty (fst (stage_firms env)),
          sentinel = fst (stage_sentinel env),
          nearby_infra = or_empty (fst (stage_infra env)),
          suspects = fst (stage_enrich env),
          sentiment = fst (stage_sentiment env),
          evidence_chain =
            sort_by_total_weight_desc
              (map (run_chain aoi (or_empty (fst (stage_glad env)))
                      (or_empty (fst (stage_radd env))) (or_empty (fst (stage_firms env)))
                      (fst (stage_sentinel env)) (or_empty (fst (stage_infra env)))
                      (fst (stage_sentiment env)))
                 (fst (stage_enrich env))),
          confidence_score =
            py_round (min 100
              (run_base aoi (fst (stage_hansen env)) (or_empty (fst (stage_glad env)))
                 (or_empty (fst (stage_radd env))) (or_empty (fst (stage_firms env)))
                 (fst (stage_sentinel env)) (or_empty (fst (stage_infra env)))
                 (fst (stage_sentiment env)))) 1,
          source_errors = snd (stage_sentiment env),
          coverage_notes = snd (snd (stage_radd env))\<rparr>"
proof -
  have en: "(if or_empty (fst (stage_infra env)) \<noteq> []
             then (case enrich_infrastructure_companies env (or_empty (fst (stage_infra env))) of
                     Inl ex \<Rightarrow> ([], snd (stage_infra env)
                                      @ [create_source_error ''gleif'' ex True (utcnow env)])
                   | Inr cs \<Rightarrow> (cs, snd (stage_infra env)))
             else ([], snd (stage_infra env))) = stage_enrich env"
    by (simp add: stage_enrich_def)
  have se: "(case fetch_all_sentiment env of
               Inl ex \<Rightarrow>
                 (None, snd (stage_enrich env)
                          @ [create_source_error ''sentiment'' ex True (utcnow env)])
             | Inr (combined, sentiment_errors) \<Rightarrow>
                 (Some combined, snd (stage_enrich env) @ sentiment_errors)) =
            stage_sentiment env"
    by (simp add: stage_sentiment_def)
  show ?thesis
    unfolding dossier_body_def b e s bind_exn_def sum.case Let_def
      stage_hansen_def [symmetric] stage_firms_def [symmetric] stage_glad_def [symmetric]
      stage_radd_def [symmetric] stage_sentinel_def [symmetric] stage_infra_def [symmetric]
      en se correlate_events_eq fst_conv snd_conv new_Dossier_def
    using run_confidence_bounds by (simp only: simp_thms if_True)
qed

lemma get_dossier_completes:
  assumes r: "resolve_bbox (py_float env) rg bs = Inr aoi" and d: "dates_parse env sd ed"
  shows "\<exists>dossier. get_dossier env rg bs sd ed = Inr dossier
           \<and> hansen dossier = fst (stage_hansen env)
           \<and> firms dossier = or_empty (fst (stage_firms env))
           \<and> gfw_glad dossier = or_empty (fst (stage_glad env))
           \<and> gfw_radd dossier = or_empty (fst (stage_radd env))
           \<and> sentinel dossier = fst (stage_sentinel env)
           \<and> nearby_infra dossier = or_empty (fst (stage_infra env))
           \<and> suspects dossier = fst (stage_enrich env)
           \<and> sentiment dossier = fst (stage_sentiment env)
           \<and> source_errors dossier = snd (stage_sentiment env)
           \<and> coverage_notes dossier = snd (snd (stage_radd env))"
proof -
  obtain b where b: "new_BBox aoi = Inr b" using resolve_bbox_valid [OF r] by blast
  obtain end_dt where e:
    "(if truthy_str ed then fromisoformat env (the ed) else Inr (utcnow env)) = Inr end_dt"
    using d by (auto simp: dates_parse_def split: if_splits sum.splits)
  obtain start_dt where s:
    "(if truthy_str sd then fromisoformat env (the sd)
      else Inr (end_dt - 90 * 86400000000)) = Inr start_dt"
    using d by (auto simp: dates_parse_def split: if_splits sum.splits)
  show ?thesis
    unfolding get_dossier_def r sum.case dossier_body_eq [OF b e s]
    by simp
qed

lemma get_dossier_fails_only_on_input:
  assumes "get_dossier env rg bs sd ed = Inl h"
  shows "resolve_bbox (py_float env) rg bs = Inl h \<or> \<not> dates_parse env sd ed"
proof (cases "resolve_bbox (py_float env) rg bs")
  case (Inl x)
  then show ?thesis using assms by (simp add: get_dossier_def)
next
  case (Inr aoi)
  show ?thesis
  proof (cases "dates_parse env sd ed")
    case True
    then show ?thesis using get_dossier_completes [OF Inr True] assms by auto
  next
    case False
    then show ?thesis by simp
  qed
qed

lemma riau: "normalise_region ''Riau'' = ''riau''"
  by code_simp

lemma riau_box: "resolve_bbox pf (Some ''Riau'') None = Inr (100, - 1, 104, 3)"
  by (simp add: resolve_bbox_def truthy_str_def riau GLOBAL_REGIONS_def)

lemma process_result_failed:
  "task_failed t \<Longrightarrow>
   \<exists>x. process_result src t now errs = (None, errs @ [x]) \<and> se_source x = src"
  by (cases t)
     (simp_all add: task_failed_def process_result_def create_source_error_def fetch_error_def)

lemma process_alert_result_failed:
  "alert_task_failed t \<Longrightarrow>
   \<exists>x. process_alert_result src t now errs notes = (None, errs @ [x], notes)
       \<and> se_source x = src"
  by (cases t)
     (auto simp: alert_task_failed_def process_alert_result_def create_source_error_def
        fetch_error_def split: if_splits)

lemma process_result_keeps: "set errs \<subseteq> set (snd (process_result src t now errs))"
  by (cases t) (auto simp: process_result_def)

lemma process_alert_result_keeps:
  "set errs \<subseteq> set (fst (snd (process_alert_result src t now errs notes)))"
  by (cases t) (auto simp: process_alert_result_def)

lemma stage_errors_kept:
  "set (snd (stage_hansen env)) \<subseteq> set (snd (stage_firms env))"
  "set (snd (stage_firms env)) \<subseteq> set (fst (snd (stage_glad env)))"
  "set (fst (snd (stage_glad env))) \<subseteq> set (fst (snd (stage_radd env)))"
  "set (fst (snd (stage_radd env))) \<subseteq> set (snd (stage_sentinel env))"
  "set (snd (stage_sentinel env)) \<subseteq> set (snd (stage_infra env))"
  unfolding stage_firms_def stage_glad_def stage_radd_def stage_sentinel_def stage_infra_def
  by (rule process_result_keeps process_alert_result_keeps)+

lemma stage_enrich_kept: "set (snd (stage_infra env)) \<subseteq> set (snd (stage_enrich env))"
  by (auto simp: stage_enrich_def split: sum.splits)

lemma stage_sentiment_kept: "set (snd (stage_enrich env)) \<subseteq> set (snd (stage_sentiment env))"
  by (auto simp: stage_sentiment_def split: sum.splits)

lemma stage_errors_final:
  "set (snd (stage_infra env)) \<subseteq> set (snd (stage_sentiment env))"
  "set (snd (stage_sentinel env)) \<subseteq> set (snd (stage_sentiment env))"
  "set (fst (snd (stage_radd env))) \<subseteq> set (snd (stage_sentiment env))"
  "set (fst (snd (stage_glad env))) \<subseteq> set (snd (stage_sentiment env))"
  "set (snd (stage_firms env)) \<subseteq> set (snd (stage_sentiment env))"
  "set (snd (stage_hansen env)) \<subseteq> set (snd (stage_sentiment env))"
proof -
  show 1: "set (snd (stage_infra env)) \<subseteq> set (snd (stage_sentiment env))"
    using stage_enrich_kept stage_sentiment_kept by (rule subset_trans)
  show 2: "set (snd (stage_sentinel env)) \<subseteq> set (snd (stage_sentiment env))"
    using stage_errors_kept(5) 1 by (rule subset_trans)
  show 3: "set (fst (snd (stage_radd env))) \<subseteq> set (snd (stage_sentiment env))"
    using stage_errors_kept(4) 2 by (rule subset_trans)
  show 4: "set (fst (snd (stage_glad env))) \<subseteq> set (snd (stage_sentiment env))"
    using stage_errors_kept(3) 3 by (rule subset_trans)
  show 5: "set (snd (stage_firms env)) \<subseteq> set (snd (stage_sentiment env))"
    using stage_errors_kept(2) 4 by (rule subset_trans)
  show "set (snd (stage_hansen env)) \<subseteq> set (snd (stage_sentiment env))"
    using stage_errors_kept(1) 5 by (rule subset_trans)
qed

lemma hansen_failure_recorded:
  assumes "task_failed (hansen_task env)"
  shows "fst (stage_hansen env) = None
         \<and> (\<exists>x \<in> set (snd (stage_sentiment env)). se_source x = ''hansen_gfc'')"
proof -
  obtain x where "stage_hansen env = (None, [] @ [x])" "se_source x = ''hansen_gfc''"
    using process_result_failed [OF assms] unfolding stage_hansen_def by blast
  then show ?thesis using stage_errors_final [of env] by auto
qed

lemma firms_failure_recorded:
  assumes "task_failed (firms_task env)"
  shows "or_empty (fst (stage_firms env)) = []
         \<and> (\<exists>x \<in> set (snd (stage_sentiment env)). se_source x = ''firms'')"
proof -
  obtain x where "stage_firms env = (None, snd (stage_hansen env) @ [x])"
    "se_source x = ''firms''"
    using process_result_failed [OF assms] unfolding stage_firms_def by blast
  then show ?thesis using stage_errors_final [of env] by (auto simp: or_empty_def)
qed

lemma glad_failure_recorded:
  assumes "alert_task_failed (glad_task env)"
  shows "or_empty (fst (stage_glad env)) = []
         \<and> (\<exists>x \<in> set (snd (stage_sentiment env)). se_source x = ''gfw_glad'')"
proof -
  obtain x where "stage_glad env = (None, snd (stage_firms env) @ [x], [])"
    "se_source x = ''gfw_glad''"
    using process_alert_result_failed [OF assms] unfolding stage_glad_def by blast
  then show ?thesis using stage_errors_final [of env] by (auto simp: or_empty_def)
qed

lemma radd_failure_recorded:
  assumes "alert_task_failed (radd_task env)"
  shows "or_empty (fst (stage_radd env)) = []
         \<and> (\<exists>x \<in> set (snd (stage_sentiment env)). se_source x = ''gfw_radd'')"
proof -
  obtain x where
    "stage_radd env = (None, fst (snd (stage_glad env)) @ [x], snd (snd (stage_glad env)))"
    "se_source x = ''gfw_radd''"
    using process_alert_result_failed [OF assms] unfolding stage_radd_def by blast
  then show ?thesis using stage_errors_final [of env] by (auto simp: or_empty_def)
qed

lemma sentinel_failure_recorded:
  assumes "task_failed (sentinel_task env)"
  shows "fst (stage_sentinel env) = None
         \<and> (\<exists>x \<in> set (snd (stage_sentiment env)). se_source x = ''sentinel_hub'')"
proof -
  obtain x where "stage_sentinel env = (None, fst (snd (stage_radd env)) @ [x])"
    "se_source x = ''sentinel_hub''"
    using process_result_failed [OF assms] unfolding stage_sentinel_def by blast
  then show ?thesis using stage_errors_final [of env] by auto
qed

lemma infra_failure_recorded:
  assumes "task_failed (infra_task env)"
  shows "or_empty (fst (stage_infra env)) = []
         \<and> (\<exists>x \<in> set (snd (stage_sentiment env)). se_source x = ''overpass'')"
proof -
  obtain x where "stage_infra env = (None, snd (stage_sentinel env) @ [x])"
    "se_source x = ''overpass''"
    using process_result_failed [OF assms] unfolding stage_infra_def by blast
  then show ?thesis using stage_errors_final [of env] by (auto simp: or_empty_def)
qed

lemma enrich_failure_recorded:
  assumes "or_empty (fst (stage_infra env)) \<noteq> []"
    and "enrich_infrastructure_companies env (or_empty (fst (stage_infra env))) = Inl ex"
  shows "fst (stage_enrich env) = []
         \<and> (\<exists>x \<in> set (snd (stage_sentiment env)). se_source x = ''gleif'')"
proof -
  have "stage_enrich env =
          ([], snd (stage_infra env) @ [create_source_error ''gleif'' ex True (utcnow env)])"
    using assms by (simp add: stage_enrich_def)
  then have "fst (stage_enrich env) = []"
    and "create_source_error ''gleif'' ex True (utcnow env) \<in> set (snd (stage_sentiment env))"
    using stage_sentiment_kept [of env] by auto
  moreover have "se_source (create_source_error ''gleif'' ex True (utcnow env)) = ''gleif''"
    by (simp add: create_source_error_def)
  ultimately show ?thesis by blast
qed

lemma sentiment_failure_recorded:
  assumes "fetch_all_sentiment env = Inl ex"
  shows "fst (stage_sentiment env) = None
         \<and> (\<exists>x \<in> set (snd (stage_sentiment env)). se_source x = ''sentiment'')"
  using assms by (simp add: stage_sentiment_def create_source_error_def)

text \<open>
  C2: a collaborator that has caught an exception with an empty message returns it as
  \<open>"error": ""\<close>; \<open>get_dossier\<close> reads the error by truthiness, so the dossier is
  returned with no GLAD alerts and with an empty list of source errors: the failure of
  the GLAD collaborator leaves no \<open>SourceError\<close>.
\<close>

theorem empty_error_message_leaves_no_source_error:
  "glad_task empty_error_env =
     Returned \<lparr>r_data = Some [], r_error = Some [], r_skipped = False, r_skip_reason = None\<rparr>
   \<and> (\<exists>dossier. get_dossier empty_error_env (Some ''Riau'') None None None = Inr dossier
         \<and> gfw_glad dossier = [] \<and> source_errors dossier = []
         \<and> coverage_notes dossier = [])"
proof -
  have r: "resolve_bbox (py_float empty_error_env) (Some ''Riau'') None = Inr (100, - 1, 104, 3)"
    by (rule riau_box)
  have d: "dates_parse empty_error_env None None"
    by (simp add: dates_parse_def truthy_str_def)
  have e: "snd (stage_sentiment empty_error_env) = []"
    "or_empty (fst (stage_glad empty_error_env)) = []"
    "snd (snd (stage_radd empty_error_env)) = []"
    by (simp_all add: stage_sentiment_def stage_enrich_def stage_infra_def stage_sentinel_def
        stage_radd_def stage_glad_def stage_firms_def stage_hansen_def process_result_def
        process_alert_result_def empty_error_env_def quiet_env_def ok_result_def
        truthy_str_def or_empty_def)
  show ?thesis
    using get_dossier_completes [OF r d] e
    by (auto simp: empty_error_env_def quiet_env_def)
qed

lemma raising_env_errors:
  "\<exists>dossier. get_dossier raising_env (Some ''Riau'') None None None = Inr dossier
     \<and> hansen dossier = None \<and> gfw_glad dossier = []
     \<and> map se_source (source_errors dossier) = [''hansen_gfc'', ''gfw_glad'']
     \<and> map se_error_type (source_errors dossier) = [''TimeoutError'', ''FetchError'']"
proof -
  have r: "resolve_bbox (py_float raising_env) (Some ''Riau'') None = Inr (100, - 1, 104, 3)"
    by (rule riau_box)
  have d: "dates_parse raising_env None None"
    by (simp add: dates_parse_def truthy_str_def)
  have e: "map se_source (snd (stage_sentiment raising_env)) = [''hansen_gfc'', ''gfw_glad'']"
    "map se_error_type (snd (stage_sentiment raising_env)) = [''TimeoutError'', ''FetchError'']"
    "or_empty (fst (stage_glad raising_env)) = []"
    "fst (stage_hansen raising_env) = None"
    by (simp_all add: stage_sentiment_def stage_enrich_def stage_infra_def stage_sentinel_def
        stage_radd_def stage_glad_def stage_firms_def stage_hansen_def process_result_def
        process_alert_result_def raising_env_def quiet_env_def ok_result_def
        truthy_str_def or_empty_def create_source_error_def fetch_error_def exn_type_name_def)
  show ?thesis
    using get_dossier_completes [OF r d] e by auto
qed

end
